theory Spec2Isabelle
  imports Complex_Main
begin

section \<open>Values, errors and sequencing\<close>

text \<open>
  Tensor entries are 32-bit floats in the program. They are modelled as real numbers:
  rounding, infinities and NaN are outside the model, and a division whose divisor is
  zero is excluded by hypothesis wherever its value matters.

  A horizontal slice is a rank-2 tensor indexed \<open>[x][y]\<close>; a field
  (\<open>FlowFieldVal\<close>) is the list of its slices, one per vertical level. A rank-1 tensor
  is what \<open>t[i, :]\<close> yields. Element-wise operations require operands of one shape;
  the broadcast of a rank-1 row against a rank-2 slice is the only broadcast modelled.
\<close>

type_synonym vector = "real list"
type_synonym tensor = "real list list"
type_synonym field = "tensor list"

datatype error =
    KeyError string
  | IndexError
  | InvalidArgumentError
  | ValueError
  | AssertionError
  | TypeError
  | AttributeError
  | ConfigurationError

definition bindE :: "error + 'a \<Rightarrow> ('a \<Rightarrow> error + 'b) \<Rightarrow> error + 'b" where
  "bindE m f = (case m of Inl e \<Rightarrow> Inl e | Inr v \<Rightarrow> f v)"

fun mapE :: "('a \<Rightarrow> error + 'b) \<Rightarrow> 'a list \<Rightarrow> error + 'b list" where
  "mapE f [] = Inr []"
| "mapE f (x # xs) = bindE (f x) (\<lambda>y. bindE (mapE f xs) (\<lambda>ys. Inr (y # ys)))"

text \<open>\<open>d[k]\<close> on a dictionary: a missing key raises \<open>KeyError\<close>.\<close>

definition lookup :: "(string \<rightharpoonup> 'v) \<Rightarrow> string \<Rightarrow> error + 'v" where
  "lookup d k = (case d k of None \<Rightarrow> Inl (KeyError k) | Some v \<Rightarrow> Inr v)"

text \<open>Index resolution against a length: negative indices count from the end.\<close>

definition py_index :: "nat \<Rightarrow> int \<Rightarrow> nat option" where
  "py_index n i =
     (let j = (if i < 0 then int n + i else i)
      in if 0 \<le> j \<and> j < int n then Some (nat j) else None)"

text \<open>\<open>t[i, :]\<close>: the row of a slice at index \<open>i\<close> of its first axis.\<close>

definition row_at :: "tensor \<Rightarrow> int \<Rightarrow> error + vector" where
  "row_at t i = (case py_index (length t) i of None \<Rightarrow> Inl IndexError | Some j \<Rightarrow> Inr (t ! j))"

text \<open>Scalar times tensor, and the element-wise operations used by the boundary update.\<close>

definition smul :: "real \<Rightarrow> tensor \<Rightarrow> tensor" where
  "smul a t = map (map (\<lambda>x. a * x)) t"

definition vsmul :: "real \<Rightarrow> vector \<Rightarrow> vector" where
  "vsmul a v = map (\<lambda>x. a * x) v"

definition vec_mul :: "vector \<Rightarrow> vector \<Rightarrow> error + vector" where
  "vec_mul a b =
     (if length a = length b then Inr (map2 (\<lambda>x y. x * y) a b) else Inl InvalidArgumentError)"

text \<open>Rank-2 plus rank-1: the row is added to every row of the slice.\<close>

definition add_row :: "tensor \<Rightarrow> vector \<Rightarrow> error + tensor" where
  "add_row t v =
     (if list_all (\<lambda>r. length r = length v) t
      then Inr (map (\<lambda>r. map2 (\<lambda>x y. x + y) r v) t)
      else Inl InvalidArgumentError)"

text \<open>\<open>tf.concat(values, axis=0)\<close> of rank-1 tensors; an empty list of values is refused.\<close>

definition tf_concat :: "vector list \<Rightarrow> error + vector" where
  "tf_concat vs = (if vs = [] then Inl ValueError else Inr (concat vs))"

section \<open>The outflow boundary condition (\<open>boundary_condition/outflow.py\<close>)\<close>

subsection \<open>The key pattern \<open>bc_(\w+)_0_1\<close>\<close>

text \<open>
  \<open>re.search\<close> finds the leftmost match; \<open>\w+\<close> is greedy and gives characters back
  until \<open>_0_1\<close> follows. \<open>re.split(pattern, key)[1]\<close> is group 1 of that first match.
  Keys are taken to be ASCII, where \<open>\w\<close> is \<open>[A-Za-z0-9_]\<close>.
\<close>

definition is_word :: "char \<Rightarrow> bool" where
  "is_word c =
     (let n = (of_char c :: nat)
      in (48 \<le> n \<and> n \<le> 57) \<or> (65 \<le> n \<and> n \<le> 90) \<or> (97 \<le> n \<and> n \<le> 122) \<or> n = 95)"

text \<open>
  \<open>greedy n r\<close>: the longest \<open>k \<le> n\<close>, \<open>k \<ge> 1\<close>, such that \<open>_0_1\<close> follows the first
  \<open>k\<close> characters of \<open>r\<close>; the result is those \<open>k\<close> characters.
\<close>

fun greedy :: "nat \<Rightarrow> string \<Rightarrow> string option" where
  "greedy 0 r = None"
| "greedy (Suc n) r =
     (if take 4 (drop (Suc n) r) = ''_0_1'' then Some (take (Suc n) r) else greedy n r)"

definition match_here :: "string \<Rightarrow> string option" where
  "match_here s =
     (if take 3 s = ''bc_''
      then greedy (length (takeWhile is_word (drop 3 s))) (drop 3 s)
      else None)"

fun re_search :: "string \<Rightarrow> string option" where
  "re_search [] = None"
| "re_search (c # cs) =
     (case match_here (c # cs) of Some v \<Rightarrow> Some v | None \<Rightarrow> re_search cs)"

subsection \<open>The update function\<close>

datatype reduce_op = reduce_max | reduce_sum

text \<open>
  \<open>common_ops.global_reduce(operand, operator, group_assignment)\<close> is a collaborator
  outside this file; it is a parameter of the model.
\<close>

type_synonym global_reduce = "vector \<Rightarrow> reduce_op \<Rightarrow> nat list list \<Rightarrow> real"

record grid_parametrization =
  halo_width :: nat
  dt :: real
  dx :: real

type_synonym states_map = "string \<rightharpoonup> field"

text \<open>\<open>additional_states\<close> is iterated, so it keeps its items in order.\<close>

type_synonym states_items = "(string \<times> field) list"

definition group_assignment_of :: "nat list list list \<Rightarrow> nat list list" where
  "group_assignment_of replicas = map concat replicas"

definition outlet_index :: "grid_parametrization \<Rightarrow> int" where
  "outlet_index params = - int (halo_width params) - 1"

definition mass_flux_x_face ::
  "global_reduce \<Rightarrow> nat list list \<Rightarrow> states_map \<Rightarrow> int \<Rightarrow> error + real" where
  "mass_flux_x_face gr group_assignment states face_index =
     bindE (lookup states ''rho'') (\<lambda>rho.
     bindE (lookup states ''u'') (\<lambda>u.
     bindE (mapE (\<lambda>(rho_i, u_i).
              bindE (row_at rho_i face_index) (\<lambda>r.
              bindE (row_at u_i face_index) (\<lambda>q. vec_mul r q)))
            (zip rho u)) (\<lambda>rows.
     bindE (tf_concat rows) (\<lambda>v.
     Inr (gr v reduce_sum group_assignment)))))"

definition bc_name_of :: "string \<Rightarrow> string" where
  "bc_name_of var_name = ''bc_'' @ var_name @ ''_0_1''"

definition update_slice ::
  "grid_parametrization \<Rightarrow> real \<Rightarrow> real \<Rightarrow> tensor \<Rightarrow> tensor \<Rightarrow> error + tensor" where
  "update_slice params coeff correction_factor u_j u_j_1 =
     bindE (row_at u_j_1 (outlet_index params)) (\<lambda>row.
     bindE (add_row (smul coeff u_j) (vsmul (1 - coeff) row)) (\<lambda>s.
     Inr (smul correction_factor s)))"

definition update_boundary_values ::
  "states_map \<Rightarrow> states_items \<Rightarrow> grid_parametrization \<Rightarrow> real \<Rightarrow> real \<Rightarrow> string
     \<Rightarrow> error + field" where
  "update_boundary_values states additional_states params coeff mass_correction var_name =
     (let bc_name = bc_name_of var_name;
          correction_factor = (if var_name = ''u'' then mass_correction else 1)
      in bindE (lookup (map_of additional_states) bc_name) (\<lambda>bc.
         bindE (lookup states var_name) (\<lambda>phi.
         mapE (\<lambda>(u_j, u_j_1). update_slice params coeff correction_factor u_j u_j_1)
              (zip bc phi))))"

definition u_max_of ::
  "global_reduce \<Rightarrow> nat list list \<Rightarrow> states_map \<Rightarrow> grid_parametrization \<Rightarrow> error + real" where
  "u_max_of gr group_assignment states params =
     bindE (lookup states ''u'') (\<lambda>u.
     bindE (mapE (\<lambda>u_i. row_at u_i (outlet_index params)) u) (\<lambda>rows.
     bindE (tf_concat rows) (\<lambda>v.
     Inr (gr v reduce_max group_assignment))))"

definition get_boundary_update_fn ::
  "global_reduce \<Rightarrow> nat list list list \<Rightarrow> states_map \<Rightarrow> states_items
     \<Rightarrow> grid_parametrization \<Rightarrow> error + states_items" where
  "get_boundary_update_fn gr replicas states additional_states params =
     (let group_assignment = group_assignment_of replicas
      in bindE (u_max_of gr group_assignment states params) (\<lambda>u_max.
         let cfl = dt params * u_max / dx params;
             coeff = 1 - cfl
         in bindE (mass_flux_x_face gr group_assignment states (outlet_index params)) (\<lambda>mass_exit.
            bindE (mass_flux_x_face gr group_assignment states (int (halo_width params))) (\<lambda>mass_inlet.
            let mass_correction = mass_inlet / mass_exit
            in mapE (\<lambda>(key, val).
                      case re_search key of
                        Some var_name \<Rightarrow>
                          bindE (update_boundary_values states additional_states params
                                   coeff mass_correction var_name) (\<lambda>new. Inr (key, new))
                      | None \<Rightarrow> Inr (key, val))
                    additional_states))))"

text \<open>
  A single-replica reduction, used to run the model on concrete inputs: with one replica
  the global reduction is the local one.
\<close>

definition local_reduce :: global_reduce where
  "local_reduce v op g =
     (case op of reduce_max \<Rightarrow> fold max (tl v) (hd v) | reduce_sum \<Rightarrow> sum_list v)"

section \<open>Element-wise operations on slices and fields\<close>

text \<open>
  \<open>tf.nest.map_structure\<close> over fields: the lists must have one length, and the
  function is applied slice by slice. Binary operations on slices require one shape.
\<close>

definition tf_zeros_like :: "tensor \<Rightarrow> tensor" where
  "tf_zeros_like t = map (map (\<lambda>x. 0)) t"

definition tf_map :: "(real \<Rightarrow> real) \<Rightarrow> tensor \<Rightarrow> tensor" where
  "tf_map f t = map (map f) t"

definition tf_bin :: "(real \<Rightarrow> real \<Rightarrow> real) \<Rightarrow> tensor \<Rightarrow> tensor \<Rightarrow> error + tensor" where
  "tf_bin f a b =
     (if map length a = map length b then Inr (map2 (map2 f) a b)
      else Inl InvalidArgumentError)"

definition tf_add :: "tensor \<Rightarrow> tensor \<Rightarrow> error + tensor" where
  "tf_add = tf_bin (\<lambda>x y. x + y)"

definition tf_sub :: "tensor \<Rightarrow> tensor \<Rightarrow> error + tensor" where
  "tf_sub = tf_bin (\<lambda>x y. x - y)"

definition tf_mul :: "tensor \<Rightarrow> tensor \<Rightarrow> error + tensor" where
  "tf_mul = tf_bin (\<lambda>x y. x * y)"

definition tf_neg :: "tensor \<Rightarrow> tensor" where
  "tf_neg = tf_map (\<lambda>x. - x)"

definition map_structure2 ::
  "('a \<Rightarrow> 'b \<Rightarrow> error + 'c) \<Rightarrow> 'a list \<Rightarrow> 'b list \<Rightarrow> error + 'c list" where
  "map_structure2 f a b =
     (if length a = length b then mapE (\<lambda>(x, y). f x y) (zip a b) else Inl ValueError)"

definition map_structure3 ::
  "('a \<Rightarrow> 'b \<Rightarrow> 'c \<Rightarrow> error + 'd) \<Rightarrow> 'a list \<Rightarrow> 'b list \<Rightarrow> 'c list \<Rightarrow> error + 'd list" where
  "map_structure3 f a b c =
     (if length a = length b \<and> length b = length c
      then mapE (\<lambda>(x, y, z). f x y z) (zip a (zip b c))
      else Inl ValueError)"

definition map_structure4 ::
  "('a \<Rightarrow> 'b \<Rightarrow> 'c \<Rightarrow> 'd \<Rightarrow> error + 'e) \<Rightarrow> 'a list \<Rightarrow> 'b list \<Rightarrow> 'c list \<Rightarrow> 'd list
     \<Rightarrow> error + 'e list" where
  "map_structure4 f a b c d =
     (if length a = length b \<and> length b = length c \<and> length c = length d
      then mapE (\<lambda>(x, y, z, w). f x y z w) (zip a (zip b (zip c d)))
      else Inl ValueError)"

definition map_structure6 ::
  "(tensor \<Rightarrow> tensor \<Rightarrow> tensor \<Rightarrow> tensor \<Rightarrow> tensor \<Rightarrow> tensor \<Rightarrow> error + tensor)
     \<Rightarrow> field \<Rightarrow> field \<Rightarrow> field \<Rightarrow> field \<Rightarrow> field \<Rightarrow> field \<Rightarrow> error + field" where
  "map_structure6 f a b c d e g =
     (if length a = length b \<and> length b = length c \<and> length c = length d
         \<and> length d = length e \<and> length e = length g
      then mapE (\<lambda>(x, y, z, w, v, u). f x y z w v u) (zip a (zip b (zip c (zip d (zip e g)))))
      else Inl ValueError)"

text \<open>\<open>xs[i]\<close> on a tuple or list with a non-negative index.\<close>

definition py_nth :: "'a list \<Rightarrow> nat \<Rightarrow> error + 'a" where
  "py_nth xs i = (if i < length xs then Inr (xs ! i) else Inl IndexError)"

text \<open>\<open>xs[self._g_dim]\<close>: indexing with \<open>None\<close> is a \<open>TypeError\<close>.\<close>

definition index_g :: "'a list \<Rightarrow> nat option \<Rightarrow> error + 'a" where
  "index_g xs g = (case g of None \<Rightarrow> Inl TypeError | Some i \<Rightarrow> py_nth xs i)"

text \<open>A method call on an attribute that may be \<open>None\<close>.\<close>

definition attr :: "'a option \<Rightarrow> error + 'a" where
  "attr x = (case x of None \<Rightarrow> Inl AttributeError | Some v \<Rightarrow> Inr v)"

section \<open>Collaborators of the scalar source functions\<close>

text \<open>
  The classes and functions below are used by \<open>total_energy.py\<close> and
  \<open>potential_temperature.py\<close> and defined elsewhere. Each one is a parameter of the
  model: a record of the methods the two files call, taken as functions that return and
  that read their arguments without writing to them.
\<close>

record kernel_op =
  apply_kernel_op_x :: "field \<Rightarrow> string \<Rightarrow> field"
  apply_kernel_op_y :: "field \<Rightarrow> string \<Rightarrow> field"
  apply_kernel_op_z :: "field \<Rightarrow> string \<Rightarrow> string \<Rightarrow> field"

text \<open>
  The fifth positional argument of \<open>saturation_adjustment\<close> is a field in one file and
  the \<open>additional_states\<close> dictionary in the other.
\<close>

datatype py_arg = FieldArg field | MapArg states_map

record water =
  internal_energy_from_total_energy :: "field \<Rightarrow> field \<Rightarrow> field \<Rightarrow> field \<Rightarrow> field \<Rightarrow> field"
  saturation_adjustment :: "string \<Rightarrow> field \<Rightarrow> field \<Rightarrow> field \<Rightarrow> py_arg \<Rightarrow> field"
  potential_temperatures ::
    "field \<Rightarrow> field \<Rightarrow> field \<Rightarrow> field \<Rightarrow> states_map option \<Rightarrow> states_map"
  equilibrium_phase_partition :: "field \<Rightarrow> field \<Rightarrow> field \<Rightarrow> field \<times> field"
  total_enthalpy :: "field \<Rightarrow> field \<Rightarrow> field \<Rightarrow> field \<Rightarrow> field"
  cp_m :: "field \<Rightarrow> field \<Rightarrow> field \<Rightarrow> field"
  exner_inverse :: "field \<Rightarrow> field \<Rightarrow> field \<Rightarrow> field \<Rightarrow> field"
  internal_energy_components :: "field \<Rightarrow> field \<times> field \<times> field"
  saturation_excess :: "field \<Rightarrow> field \<Rightarrow> field \<Rightarrow> field"

text \<open>\<open>isinstance(model, water.Water)\<close> is the case distinction on this type.\<close>

datatype thermodynamics_model = Water water | NotWater

record thermodynamics_manager =
  model :: thermodynamics_model

record cloud =
  source_by_radiation ::
    "field \<Rightarrow> field \<Rightarrow> field \<Rightarrow> real \<Rightarrow> nat \<Rightarrow> nat list \<Rightarrow> nat \<Rightarrow> nat list list list \<Rightarrow> field"

record microphysics_kw1978 =
  autoconversion_and_accretion :: "field \<Rightarrow> field \<Rightarrow> field"
  evaporation :: "field \<Rightarrow> field \<Rightarrow> field \<Rightarrow> field \<Rightarrow> field \<Rightarrow> field \<Rightarrow> field"

text \<open>The per-scalar configuration message and the parameters object, as far as they are read.\<close>

record total_energy_proto =
  te_proto_include_radiation :: bool
  te_proto_include_subsidence :: bool
  te_proto_include_precipitation :: bool

record potential_temperature_proto =
  pt_proto_include_radiation :: bool
  pt_proto_include_subsidence :: bool

text \<open>\<open>HasField(f)\<close> holds when the optional field is set.\<close>

record scalar_proto =
  proto_name :: string
  total_energy :: "total_energy_proto option"
  potential_temperature :: "potential_temperature_proto option"

record swirl_lm_parameters =
  scalars :: "scalar_proto list"
  use_sgs :: bool
  nu :: real
  params_halo_width :: nat
  params_dx :: real
  params_dy :: real
  params_dz :: real
  g_dim :: "nat option"

text \<open>
  The constructor of \<open>MicrophysicsKW1978\<close> is called with \<open>(model)\<close> in one file and
  with \<open>(params, model)\<close> in the other; it takes its argument list.
\<close>

datatype ctor_arg = ParamsArg swirl_lm_parameters | ModelArg water

record collaborators =
  Cloud :: "water \<Rightarrow> cloud"
  MicrophysicsKW1978 :: "ctor_arg list \<Rightarrow> microphysics_kw1978"
  shear_stress ::
    "kernel_op \<Rightarrow> field \<Rightarrow> real \<Rightarrow> real \<Rightarrow> real \<Rightarrow> field \<Rightarrow> field \<Rightarrow> field \<Rightarrow> states_map"
  divergence :: "kernel_op \<Rightarrow> field list \<Rightarrow> real list \<Rightarrow> field"
  source_by_subsidence_velocity ::
    "kernel_op \<Rightarrow> field \<Rightarrow> field \<Rightarrow> real \<Rightarrow> field \<Rightarrow> nat \<Rightarrow> field"
  constants_G :: real

text \<open>
  Modelled from the spec: the key constants of \<open>equations/common.py\<close>, which is not
  among the sources; the spec names the state keys \<open>u\<close>, \<open>v\<close>, \<open>w\<close>, \<open>rho\<close>.
\<close>

definition KEY_U :: string where "KEY_U = ''u''"
definition KEY_V :: string where "KEY_V = ''v''"
definition KEY_W :: string where "KEY_W = ''w''"
definition KEY_RHO :: string where "KEY_RHO = ''rho''"

text \<open>\<open>additional_states.get('zz', zeros_like(phi))\<close>.\<close>

definition zz_of :: "field \<Rightarrow> states_map \<Rightarrow> field" where
  "zz_of phi additional_states =
     (case additional_states ''zz'' of Some z \<Rightarrow> z | None \<Rightarrow> map tf_zeros_like phi)"

text \<open>A field all of whose entries are zero.\<close>

definition field_is_zero :: "field \<Rightarrow> bool" where
  "field_is_zero f = list_all (list_all (list_all (\<lambda>x. x = 0))) f"

text \<open>A field none of whose entries is zero.\<close>

definition field_is_nonzero :: "field \<Rightarrow> bool" where
  "field_is_nonzero f = list_all (list_all (list_all (\<lambda>x. x \<noteq> 0))) f"

section \<open>The base class \<open>ScalarGeneric\<close>\<close>

record scalar_generic =
  self_kernel_op :: kernel_op
  self_params :: swirl_lm_parameters
  self_scalar_name :: string
  self_thermodynamics :: thermodynamics_manager
  self_scalar_params :: scalar_proto
  self_h :: "real list"
  self_g_dim :: "nat option"

text \<open>
  Modelled from the spec: the constructor of the base class \<open>ScalarGeneric\<close>, which is
  not among the sources. It keeps its four arguments, the configuration of the named
  scalar, the grid spacings and the gravity axis, and fails with a configuration error
  if the scalar name is not found among the configured scalars.
\<close>

definition ScalarGeneric_init ::
  "kernel_op \<Rightarrow> swirl_lm_parameters \<Rightarrow> string \<Rightarrow> thermodynamics_manager
     \<Rightarrow> error + scalar_generic" where
  "ScalarGeneric_init kernel_op params scalar_name thermodynamics =
     (case find (\<lambda>s. proto_name s = scalar_name) (scalars params) of
        None \<Rightarrow> Inl ConfigurationError
      | Some sp \<Rightarrow>
          Inr \<lparr>self_kernel_op = kernel_op, self_params = params,
               self_scalar_name = scalar_name, self_thermodynamics = thermodynamics,
               self_scalar_params = sp,
               self_h = [params_dx params, params_dy params, params_dz params],
               self_g_dim = g_dim params\<rparr>)"

section \<open>The total energy source (\<open>source_function/total_energy.py\<close>)\<close>

definition TOTAL_ENERGY_VARNAME :: string where
  "TOTAL_ENERGY_VARNAME = ''e_t''"

record total_energy = scalar_generic +
  te_include_radiation :: bool
  te_include_subsidence :: bool
  te_include_precipitation :: bool
  te_cloud :: "cloud option"
  te_microphysics :: "microphysics_kw1978 option"

definition TotalEnergy_init ::
  "collaborators \<Rightarrow> kernel_op \<Rightarrow> swirl_lm_parameters \<Rightarrow> string \<Rightarrow> thermodynamics_manager
     \<Rightarrow> error + total_energy" where
  "TotalEnergy_init env kernel_op params scalar_name thermodynamics =
     bindE (ScalarGeneric_init kernel_op params scalar_name thermodynamics) (\<lambda>base.
     if scalar_name \<noteq> TOTAL_ENERGY_VARNAME then Inl AssertionError
     else
       let include_radiation =
             (case total_energy (self_scalar_params base) of
                None \<Rightarrow> False
              | Some m \<Rightarrow> te_proto_include_radiation m \<and> self_g_dim base \<noteq> None);
           include_subsidence =
             (case total_energy (self_scalar_params base) of
                None \<Rightarrow> False
              | Some m \<Rightarrow> te_proto_include_subsidence m \<and> self_g_dim base \<noteq> None);
           include_precipitation =
             (case total_energy (self_scalar_params base) of
                None \<Rightarrow> False
              | Some m \<Rightarrow> te_proto_include_precipitation m \<and> self_g_dim base \<noteq> None)
       in case model (self_thermodynamics base) of
            Water w \<Rightarrow>
              Inr \<lparr>self_kernel_op = self_kernel_op base, self_params = self_params base,
                   self_scalar_name = self_scalar_name base,
                   self_thermodynamics = self_thermodynamics base,
                   self_scalar_params = self_scalar_params base,
                   self_h = self_h base, self_g_dim = self_g_dim base,
                   te_include_radiation = include_radiation,
                   te_include_subsidence = include_subsidence,
                   te_include_precipitation = include_precipitation,
                   te_cloud = Some (Cloud env w),
                   te_microphysics =
                     Some (MicrophysicsKW1978 env [ParamsArg params, ModelArg w])\<rparr>
          | NotWater \<Rightarrow> Inl ValueError)"

definition te_get_thermodynamic_variables ::
  "total_energy \<Rightarrow> field \<Rightarrow> states_map \<Rightarrow> states_map \<Rightarrow> error + states_map" where
  "te_get_thermodynamic_variables self phi states additional_states =
     (case model (self_thermodynamics self) of
        NotWater \<Rightarrow> Inl ValueError
      | Water w \<Rightarrow>
          let zz = zz_of phi additional_states
          in bindE (lookup states ''q_t'') (\<lambda>q_t.
             bindE (lookup states ''rho_thermal'') (\<lambda>rho_thermal.
             bindE (if additional_states ''T'' \<noteq> None then lookup additional_states ''T''
                    else bindE (lookup states KEY_U) (\<lambda>u.
                         bindE (lookup states KEY_V) (\<lambda>v.
                         bindE (lookup states KEY_W) (\<lambda>w'.
                         let e = internal_energy_from_total_energy w phi u v w' zz
                         in Inr (saturation_adjustment w ''e_int'' e rho_thermal q_t
                                   (MapArg additional_states)))))) (\<lambda>temperature.
             bindE (if additional_states ''theta'' \<noteq> None
                    then lookup additional_states ''theta''
                    else lookup (potential_temperatures w temperature q_t rho_thermal zz
                                   (Some additional_states)) ''theta'') (\<lambda>theta.
             let h_t = total_enthalpy w phi rho_thermal q_t temperature
             in Inr [self_scalar_name self \<mapsto> phi, ''q_t'' \<mapsto> q_t, ''zz'' \<mapsto> zz,
                     ''T'' \<mapsto> temperature, ''theta'' \<mapsto> theta, ''h_t'' \<mapsto> h_t])))))"

text \<open>The viscosity \<open>mu\<close>, with or without the sub-grid-scale part.\<close>

definition te_mu :: "total_energy \<Rightarrow> field \<Rightarrow> states_map \<Rightarrow> error + field" where
  "te_mu self rho additional_states =
     (if use_sgs (self_params self)
      then bindE (lookup additional_states ''nu_t'') (\<lambda>nu_t.
           map_structure2
             (\<lambda>nu_t rho_i. tf_mul (tf_map (\<lambda>x. nu (self_params self) + x) nu_t) rho_i)
             nu_t rho)
      else Inr (map (\<lambda>rho_i. smul (nu (self_params self)) rho_i) rho))"

definition u_dot_tau ::
  "tensor \<Rightarrow> tensor \<Rightarrow> tensor \<Rightarrow> tensor \<Rightarrow> tensor \<Rightarrow> tensor \<Rightarrow> error + tensor" where
  "u_dot_tau u v w tau_0j_l tau_1j_l tau_2j_l =
     bindE (tf_mul u tau_0j_l) (\<lambda>a.
     bindE (tf_mul v tau_1j_l) (\<lambda>b.
     bindE (tf_add a b) (\<lambda>ab.
     bindE (tf_mul w tau_2j_l) (\<lambda>c.
     tf_add ab c))))"

definition compute_rho_u_tau :: "states_map \<Rightarrow> field \<Rightarrow> field \<Rightarrow> field \<Rightarrow> error + field" where
  "compute_rho_u_tau states tau_0j tau_1j tau_2j =
     bindE (lookup states KEY_U) (\<lambda>u.
     bindE (lookup states KEY_V) (\<lambda>v.
     bindE (lookup states KEY_W) (\<lambda>w.
     map_structure6 u_dot_tau u v w tau_0j tau_1j tau_2j)))"

text \<open>The list \<open>rho_u_tau\<close>: the shear stress tensor contracted with the velocity.\<close>

definition te_rho_u_tau ::
  "collaborators \<Rightarrow> total_energy \<Rightarrow> states_map \<Rightarrow> field \<Rightarrow> error + field list" where
  "te_rho_u_tau env self states mu =
     bindE (py_nth (self_h self) 0) (\<lambda>h0.
     bindE (py_nth (self_h self) 1) (\<lambda>h1.
     bindE (py_nth (self_h self) 2) (\<lambda>h2.
     bindE (lookup states KEY_U) (\<lambda>u.
     bindE (lookup states KEY_V) (\<lambda>v.
     bindE (lookup states KEY_W) (\<lambda>w.
     let tau = shear_stress env (self_kernel_op self) mu h0 h1 h2 u v w
     in bindE (lookup tau ''xx'') (\<lambda>xx.
        bindE (lookup tau ''yx'') (\<lambda>yx.
        bindE (lookup tau ''zx'') (\<lambda>zx.
        bindE (compute_rho_u_tau states xx yx zx) (\<lambda>c0.
        bindE (lookup tau ''xy'') (\<lambda>xy.
        bindE (lookup tau ''yy'') (\<lambda>yy.
        bindE (lookup tau ''zy'') (\<lambda>zy.
        bindE (compute_rho_u_tau states xy yy zy) (\<lambda>c1.
        bindE (lookup tau ''xz'') (\<lambda>xz.
        bindE (lookup tau ''yz'') (\<lambda>yz.
        bindE (lookup tau ''zz'') (\<lambda>zz.
        bindE (compute_rho_u_tau states xz yz zz) (\<lambda>c2.
        Inr [c0, c1, c2]))))))))))))))))))"

text \<open>
  The block under \<open>if self._include_radiation\<close>: the radiative flux times the density
  is subtracted from the entry of \<open>div_terms\<close> at the gravity axis.
\<close>

definition te_radiation ::
  "total_energy \<Rightarrow> nat \<Rightarrow> nat list list list \<Rightarrow> field \<Rightarrow> states_map \<Rightarrow> states_map \<Rightarrow> field
     \<Rightarrow> field list \<Rightarrow> error + field list" where
  "te_radiation self replica_id replicas q_l states thermo_states rho div_terms =
     (let halos = replicate 3 (params_halo_width (self_params self))
      in bindE (attr (te_cloud self)) (\<lambda>c.
         bindE (lookup states ''rho_thermal'') (\<lambda>rho_thermal.
         bindE (lookup thermo_states ''zz'') (\<lambda>zz.
         bindE (index_g (self_h self) (self_g_dim self)) (\<lambda>h_g.
         let f_r = source_by_radiation c q_l rho_thermal zz h_g (the (self_g_dim self)) halos
                     replica_id replicas
         in bindE (index_g div_terms (self_g_dim self)) (\<lambda>div_term.
            bindE (map_structure3
                     (\<lambda>div_term_i rho_i f_r_i.
                        bindE (tf_mul rho_i f_r_i) (\<lambda>rf. tf_sub div_term_i rf))
                     div_term rho f_r) (\<lambda>new.
            Inr (div_terms[the (self_g_dim self) := new]))))))))"

text \<open>The block under \<open>if self._include_subsidence\<close>.\<close>

definition te_subsidence ::
  "collaborators \<Rightarrow> total_energy \<Rightarrow> states_map \<Rightarrow> field \<Rightarrow> field \<Rightarrow> error + field" where
  "te_subsidence env self thermo_states rho source =
     bindE (lookup thermo_states ''zz'') (\<lambda>zz.
     bindE (index_g (self_h self) (self_g_dim self)) (\<lambda>h_g.
     bindE (lookup thermo_states ''h_t'') (\<lambda>h_t.
     let src_subsidence =
           source_by_subsidence_velocity env (self_kernel_op self) rho zz h_g h_t
             (the (self_g_dim self))
     in map_structure2 tf_add source src_subsidence)))"

text \<open>The block under \<open>if self._include_precipitation\<close>.\<close>

definition te_precipitation ::
  "collaborators \<Rightarrow> total_energy \<Rightarrow> water \<Rightarrow> states_map \<Rightarrow> states_map \<Rightarrow> field \<Rightarrow> field
     \<Rightarrow> field \<Rightarrow> field \<Rightarrow> error + field" where
  "te_precipitation env self w states thermo_states rho rho_thermal q_l source =
     bindE (lookup thermo_states ''T'') (\<lambda>temperature.
     case internal_energy_components w temperature of (e_v, e_l, e_i) \<Rightarrow>
     bindE (lookup states ''q_r'') (\<lambda>q_r.
     bindE (attr (te_microphysics self)) (\<lambda>mp.
     let cloud_liquid_to_rain_water_rate = autoconversion_and_accretion mp q_r q_l
     in bindE (lookup thermo_states ''q_t'') (\<lambda>q_t.
        let q_c = saturation_excess w temperature rho_thermal q_t
        in bindE (map_structure2 tf_sub q_t q_c) (\<lambda>q_v.
           let rain_water_evaporation_rate =
                 evaporation mp rho_thermal temperature q_r q_v q_l q_c
           in bindE (lookup thermo_states ''zz'') (\<lambda>zz.
              let pe = map (\<lambda>zz_i. smul (constants_G env) zz_i) zz
              in bindE (map_structure4
                          (\<lambda>e pe rho c_lv.
                             bindE (tf_add e pe) (\<lambda>a.
                             bindE (tf_mul a rho) (\<lambda>b. tf_mul b (tf_neg c_lv))))
                          e_v pe rho rain_water_evaporation_rate) (\<lambda>source_v.
                 bindE (map_structure4
                          (\<lambda>e pe rho c_lr.
                             bindE (tf_add e pe) (\<lambda>a.
                             bindE (tf_mul a rho) (\<lambda>b. tf_mul b c_lr)))
                          e_l pe rho cloud_liquid_to_rain_water_rate) (\<lambda>source_l.
                 map_structure3
                   (\<lambda>s sv sl. bindE (tf_add s sv) (\<lambda>a. tf_add a sl))
                   source source_v source_l))))))))"

text \<open>
  \<open>q_l\<close> is bound only when radiation or precipitation is included, and read only
  then; the empty field stands for the unbound name.
\<close>

definition te_source_fn ::
  "collaborators \<Rightarrow> total_energy \<Rightarrow> nat \<Rightarrow> nat list list list \<Rightarrow> field \<Rightarrow> states_map
     \<Rightarrow> states_map \<Rightarrow> error + field" where
  "te_source_fn env self replica_id replicas phi states additional_states =
     (case model (self_thermodynamics self) of
        NotWater \<Rightarrow> Inl ValueError
      | Water w \<Rightarrow>
          bindE (lookup states KEY_RHO) (\<lambda>rho.
          bindE (lookup states ''rho_thermal'') (\<lambda>rho_thermal.
          bindE (te_get_thermodynamic_variables self phi states additional_states)
            (\<lambda>thermo_states.
          bindE (te_mu self rho additional_states) (\<lambda>mu.
          bindE (te_rho_u_tau env self states mu) (\<lambda>rho_u_tau.
          bindE (if te_include_radiation self \<or> te_include_precipitation self
                 then bindE (lookup thermo_states ''T'') (\<lambda>temperature.
                      bindE (lookup states ''rho_thermal'') (\<lambda>rho_thermal.
                      bindE (lookup thermo_states ''q_t'') (\<lambda>q_t.
                      Inr (fst (equilibrium_phase_partition w temperature rho_thermal q_t)))))
                 else Inr []) (\<lambda>q_l.
          bindE (if te_include_radiation self
                 then te_radiation self replica_id replicas q_l states thermo_states rho
                        rho_u_tau
                 else Inr rho_u_tau) (\<lambda>div_terms.
          let source = divergence env (self_kernel_op self) div_terms (self_h self)
          in bindE (if te_include_subsidence self
                    then te_subsidence env self thermo_states rho source
                    else Inr source) (\<lambda>source.
             if te_include_precipitation self
             then te_precipitation env self w states thermo_states rho rho_thermal q_l source
             else Inr source)))))))))"

section \<open>The potential temperature source (\<open>source_function/potential_temperature.py\<close>)\<close>

definition POTENTIAL_TEMPERATURE_VARNAME :: "string list" where
  "POTENTIAL_TEMPERATURE_VARNAME = [''theta'', ''theta_li'']"

record potential_temperature_src = scalar_generic +
  pt_microphysics :: "microphysics_kw1978 option"
  pt_cloud :: "cloud option"
  pt_include_radiation :: bool
  pt_include_subsidence :: bool

definition PotentialTemperature_init ::
  "collaborators \<Rightarrow> kernel_op \<Rightarrow> swirl_lm_parameters \<Rightarrow> string \<Rightarrow> thermodynamics_manager
     \<Rightarrow> error + potential_temperature_src" where
  "PotentialTemperature_init env kernel_op params scalar_name thermodynamics =
     bindE (ScalarGeneric_init kernel_op params scalar_name thermodynamics) (\<lambda>base.
     if scalar_name \<notin> set POTENTIAL_TEMPERATURE_VARNAME then Inl AssertionError
     else
       let (microphysics, cloud) =
             (case model (self_thermodynamics base) of
                Water w \<Rightarrow> (Some (MicrophysicsKW1978 env [ModelArg w]), Some (Cloud env w))
              | NotWater \<Rightarrow> (None, None));
           include_radiation =
             (case potential_temperature (self_scalar_params base) of
                None \<Rightarrow> False
              | Some m \<Rightarrow> pt_proto_include_radiation m \<and> self_g_dim base \<noteq> None);
           include_subsidence =
             (case potential_temperature (self_scalar_params base) of
                None \<Rightarrow> False
              | Some m \<Rightarrow> pt_proto_include_subsidence m \<and> self_g_dim base \<noteq> None)
       in Inr \<lparr>self_kernel_op = self_kernel_op base, self_params = self_params base,
               self_scalar_name = self_scalar_name base,
               self_thermodynamics = self_thermodynamics base,
               self_scalar_params = self_scalar_params base,
               self_h = self_h base, self_g_dim = self_g_dim base,
               pt_microphysics = microphysics, pt_cloud = cloud,
               pt_include_radiation = include_radiation,
               pt_include_subsidence = include_subsidence\<rparr>)"

text \<open>The attribute \<open>_grad_central\<close>: the central difference along each axis.\<close>

definition grad_central :: "potential_temperature_src \<Rightarrow> (field \<Rightarrow> field) list" where
  "grad_central self =
     [\<lambda>f. apply_kernel_op_x (self_kernel_op self) f ''kDx'',
      \<lambda>f. apply_kernel_op_y (self_kernel_op self) f ''kDy'',
      \<lambda>f. apply_kernel_op_z (self_kernel_op self) f ''kDz'' ''kDzsh'']"

definition pt_get_thermodynamic_variables ::
  "potential_temperature_src \<Rightarrow> field \<Rightarrow> states_map \<Rightarrow> states_map \<Rightarrow> error + states_map" where
  "pt_get_thermodynamic_variables self phi states additional_states =
     (let thermo_states = [self_scalar_name self \<mapsto> phi]
      in case model (self_thermodynamics self) of
           NotWater \<Rightarrow> Inr thermo_states
         | Water w \<Rightarrow>
             bindE (lookup states ''q_t'') (\<lambda>q_t.
             bindE (lookup states ''rho_thermal'') (\<lambda>rho_thermal.
             let zz = zz_of phi additional_states;
                 thermo_states = thermo_states(''zz'' \<mapsto> zz);
                 temperature = saturation_adjustment w (self_scalar_name self) phi rho_thermal
                                 q_t (FieldArg zz);
                 thermo_states = thermo_states(''T'' \<mapsto> temperature)
             in bindE (if self_scalar_name self = ''theta_li''
                       then bindE (lookup (potential_temperatures w temperature q_t rho_thermal
                                             zz None) ''theta'') (\<lambda>theta.
                            Inr (thermo_states(''theta'' \<mapsto> theta)))
                       else Inr thermo_states) (\<lambda>thermo_states.
                case equilibrium_phase_partition w temperature rho_thermal q_t of
                  (q_l, q_i) \<Rightarrow> Inr (thermo_states(''q_l'' \<mapsto> q_l, ''q_i'' \<mapsto> q_i))))))"

text \<open>The block under \<open>if self._include_radiation and isinstance(..., water.Water)\<close>.\<close>

definition pt_radiation ::
  "potential_temperature_src \<Rightarrow> water \<Rightarrow> nat \<Rightarrow> nat list list list \<Rightarrow> states_map \<Rightarrow> states_map
     \<Rightarrow> error + field" where
  "pt_radiation self w replica_id replicas states thermo_states =
     (let halos = replicate 3 (params_halo_width (self_params self))
      in bindE (attr (pt_cloud self)) (\<lambda>c.
         bindE (lookup thermo_states ''q_l'') (\<lambda>q_l.
         bindE (lookup states ''rho_thermal'') (\<lambda>rho_thermal.
         bindE (lookup thermo_states ''zz'') (\<lambda>zz.
         bindE (index_g (self_h self) (self_g_dim self)) (\<lambda>h_g.
         let f_r = source_by_radiation c q_l rho_thermal zz h_g (the (self_g_dim self)) halos
                     replica_id replicas
         in bindE (lookup states KEY_RHO) (\<lambda>rho.
            bindE (map_structure2 (\<lambda>rho f_r. tf_mul (tf_neg rho) f_r) rho f_r) (\<lambda>rad_src.
            bindE (index_g (grad_central self) (self_g_dim self)) (\<lambda>grad.
            let source = map (\<lambda>f. tf_map (\<lambda>x. x / (2 * h_g)) f) (grad rad_src)
            in bindE (lookup states ''q_t'') (\<lambda>q_t.
               bindE (lookup thermo_states ''q_l'') (\<lambda>q_l.
               bindE (lookup thermo_states ''q_i'') (\<lambda>q_i.
               let cp_m = cp_m w q_t q_l q_i;
                   cp_m_inv = map (tf_map (\<lambda>x. 1 / x)) cp_m
               in bindE (lookup states ''rho_thermal'') (\<lambda>rho_thermal.
                  bindE (lookup states ''q_t'') (\<lambda>q_t.
                  bindE (lookup thermo_states ''T'') (\<lambda>temperature.
                  bindE (lookup thermo_states ''zz'') (\<lambda>zz.
                  let exner_inv = exner_inverse w rho_thermal q_t temperature zz
                  in bindE (map_structure2 tf_mul cp_m_inv exner_inv) (\<lambda>cp_m_exner_inv.
                     map_structure2 tf_mul cp_m_exner_inv source)))))))))))))))))"

text \<open>The block under the subsidence condition.\<close>

definition pt_subsidence ::
  "collaborators \<Rightarrow> potential_temperature_src \<Rightarrow> field \<Rightarrow> states_map \<Rightarrow> states_map \<Rightarrow> field
     \<Rightarrow> error + field" where
  "pt_subsidence env self phi states thermo_states source =
     bindE (lookup states KEY_RHO) (\<lambda>rho.
     bindE (lookup thermo_states ''zz'') (\<lambda>zz.
     bindE (index_g (self_h self) (self_g_dim self)) (\<lambda>h_g.
     let src_subsidence =
           source_by_subsidence_velocity env (self_kernel_op self) rho zz h_g phi
             (the (self_g_dim self))
     in map_structure2 tf_add source src_subsidence)))"

definition is_water :: "thermodynamics_model \<Rightarrow> bool" where
  "is_water m = (case m of Water w \<Rightarrow> True | NotWater \<Rightarrow> False)"

definition pt_source_fn ::
  "collaborators \<Rightarrow> potential_temperature_src \<Rightarrow> nat \<Rightarrow> nat list list list \<Rightarrow> field
     \<Rightarrow> states_map \<Rightarrow> states_map \<Rightarrow> error + field" where
  "pt_source_fn env self replica_id replicas phi states additional_states =
     bindE (pt_get_thermodynamic_variables self phi states additional_states)
       (\<lambda>thermo_states.
     let source = map tf_zeros_like phi
     in bindE (case model (self_thermodynamics self) of
                 Water w \<Rightarrow>
                   if pt_include_radiation self
                   then pt_radiation self w replica_id replicas states thermo_states
                   else Inr source
               | NotWater \<Rightarrow> Inr source) (\<lambda>source.
        if pt_include_subsidence self \<and> is_water (model (self_thermodynamics self))
           \<and> self_scalar_name self = ''theta_li''
        then pt_subsidence env self phi states thermo_states source
        else Inr source))"

section \<open>Dictionaries as objects\<close>

text \<open>
  \<open>states\<close> and \<open>additional_states\<close> are dictionaries that the caller passes by
  reference. To state what a call writes, the two \<open>source_fn\<close> are given a second time
  on a store: the list of all dictionaries, a dictionary being named by its index. A
  dictionary literal allocates a new index, \<open>d.update\<close> replaces the dictionary at an
  index, and a read is \<open>st ! a\<close>. The blocks that only read take the dictionaries they
  read as values. The result carries the store after the call.
\<close>

type_synonym store = "states_map list"

definition dict_new :: "states_map \<Rightarrow> store \<Rightarrow> nat \<times> store" where
  "dict_new d st = (length st, st @ [d])"

definition dict_update :: "nat \<Rightarrow> string \<Rightarrow> field \<Rightarrow> store \<Rightarrow> store" where
  "dict_update a k v st = st[a := (st ! a)(k \<mapsto> v)]"

text \<open>
  \<open>_get_thermodynamic_variables\<close> of \<open>PotentialTemperature\<close>: the dictionary
  \<open>thermo_states\<close> is created first and then updated in place.
\<close>

definition pt_get_thermodynamic_variables_st ::
  "potential_temperature_src \<Rightarrow> field \<Rightarrow> nat \<Rightarrow> nat \<Rightarrow> store \<Rightarrow> error + nat \<times> store" where
  "pt_get_thermodynamic_variables_st self phi states additional_states st =
     (case dict_new [self_scalar_name self \<mapsto> phi] st of (thermo_states, st) \<Rightarrow>
      case model (self_thermodynamics self) of
        NotWater \<Rightarrow> Inr (thermo_states, st)
      | Water w \<Rightarrow>
          bindE (lookup (st ! states) ''q_t'') (\<lambda>q_t.
          bindE (lookup (st ! states) ''rho_thermal'') (\<lambda>rho_thermal.
          let zz = zz_of phi (st ! additional_states);
              st = dict_update thermo_states ''zz'' zz st;
              temperature = saturation_adjustment w (self_scalar_name self) phi rho_thermal
                              q_t (FieldArg zz);
              st = dict_update thermo_states ''T'' temperature st
          in bindE (if self_scalar_name self = ''theta_li''
                    then bindE (lookup (potential_temperatures w temperature q_t rho_thermal
                                          zz None) ''theta'') (\<lambda>theta.
                         Inr (dict_update thermo_states ''theta'' theta st))
                    else Inr st) (\<lambda>st.
             case equilibrium_phase_partition w temperature rho_thermal q_t of
               (q_l, q_i) \<Rightarrow>
                 Inr (thermo_states,
                      dict_update thermo_states ''q_i'' q_i
                        (dict_update thermo_states ''q_l'' q_l st))))))"

definition pt_source_fn_st ::
  "collaborators \<Rightarrow> potential_temperature_src \<Rightarrow> nat \<Rightarrow> nat list list list \<Rightarrow> field
     \<Rightarrow> nat \<Rightarrow> nat \<Rightarrow> store \<Rightarrow> error + field \<times> store" where
  "pt_source_fn_st env self replica_id replicas phi states additional_states st =
     bindE (pt_get_thermodynamic_variables_st self phi states additional_states st)
       (\<lambda>(thermo_states, st).
     let source = map tf_zeros_like phi
     in bindE (case model (self_thermodynamics self) of
                 Water w \<Rightarrow>
                   if pt_include_radiation self
                   then pt_radiation self w replica_id replicas (st ! states)
                          (st ! thermo_states)
                   else Inr source
               | NotWater \<Rightarrow> Inr source) (\<lambda>source.
        bindE (if pt_include_subsidence self \<and> is_water (model (self_thermodynamics self))
                  \<and> self_scalar_name self = ''theta_li''
               then pt_subsidence env self phi (st ! states) (st ! thermo_states) source
               else Inr source) (\<lambda>source.
        Inr (source, st))))"

text \<open>
  \<open>_get_thermodynamic_variables\<close> of \<open>TotalEnergy\<close> reads its inputs and returns
  a dictionary literal; the only effect on the store is that allocation.
\<close>

definition te_get_thermodynamic_variables_st ::
  "total_energy \<Rightarrow> field \<Rightarrow> nat \<Rightarrow> nat \<Rightarrow> store \<Rightarrow> error + nat \<times> store" where
  "te_get_thermodynamic_variables_st self phi states additional_states st =
     bindE (te_get_thermodynamic_variables self phi (st ! states) (st ! additional_states))
       (\<lambda>d. Inr (dict_new d st))"

definition te_source_fn_st ::
  "collaborators \<Rightarrow> total_energy \<Rightarrow> nat \<Rightarrow> nat list list list \<Rightarrow> field \<Rightarrow> nat \<Rightarrow> nat
     \<Rightarrow> store \<Rightarrow> error + field \<times> store" where
  "te_source_fn_st env self replica_id replicas phi states additional_states st =
     (case model (self_thermodynamics self) of
        NotWater \<Rightarrow> Inl ValueError
      | Water w \<Rightarrow>
          bindE (lookup (st ! states) KEY_RHO) (\<lambda>rho.
          bindE (lookup (st ! states) ''rho_thermal'') (\<lambda>rho_thermal.
          bindE (te_get_thermodynamic_variables_st self phi states additional_states st)
            (\<lambda>(thermo_states, st).
          bindE (te_mu self rho (st ! additional_states)) (\<lambda>mu.
          bindE (te_rho_u_tau env self (st ! states) mu) (\<lambda>rho_u_tau.
          bindE (if te_include_radiation self \<or> te_include_precipitation self
                 then bindE (lookup (st ! thermo_states) ''T'') (\<lambda>temperature.
                      bindE (lookup (st ! states) ''rho_thermal'') (\<lambda>rho_thermal.
                      bindE (lookup (st ! thermo_states) ''q_t'') (\<lambda>q_t.
                      Inr (fst (equilibrium_phase_partition w temperature rho_thermal q_t)))))
                 else Inr []) (\<lambda>q_l.
          bindE (if te_include_radiation self
                 then te_radiation self replica_id replicas q_l (st ! states)
                        (st ! thermo_states) rho rho_u_tau
                 else Inr rho_u_tau) (\<lambda>div_terms.
          let source = divergence env (self_kernel_op self) div_terms (self_h self)
          in bindE (if te_include_subsidence self
                    then te_subsidence env self (st ! thermo_states) rho source
                    else Inr source) (\<lambda>source.
             bindE (if te_include_precipitation self
                    then te_precipitation env self w (st ! states) (st ! thermo_states) rho
                           rho_thermal q_l source
                    else Inr source) (\<lambda>source.
             Inr (source, st)))))))))))"

section \<open>Example inputs\<close>

text \<open>
  Stand-ins for the collaborators, used only to run the model on concrete inputs; the
  theorems hold for every collaborator. The kernel operation is a central difference with
  zeros beyond the boundary.
\<close>

definition central_diff :: "('a \<Rightarrow> 'a \<Rightarrow> 'a) \<Rightarrow> 'a \<Rightarrow> 'a list \<Rightarrow> 'a list" where
  "central_diff sub z xs = map2 sub (tl xs @ [z]) (z # butlast xs)"

definition ex_kernel_op :: kernel_op where
  "ex_kernel_op =
     \<lparr>apply_kernel_op_x = (\<lambda>f name.
         map (\<lambda>t. central_diff (map2 (\<lambda>x y. x - y)) (map (\<lambda>x. 0) (hd t)) t) f),
      apply_kernel_op_y = (\<lambda>f name.
         map (map (central_diff (\<lambda>x y. x - y) 0)) f),
      apply_kernel_op_z = (\<lambda>f name name_sh.
         central_diff (map2 (map2 (\<lambda>x y. x - y))) (tf_zeros_like (hd f)) f)\<rparr>"

definition ex_water :: water where
  "ex_water =
     \<lparr>internal_energy_from_total_energy = (\<lambda>e_t u v w zz. e_t),
      saturation_adjustment = (\<lambda>name value rho q_t zz. value),
      potential_temperatures = (\<lambda>temperature q_t rho zz a. [''theta'' \<mapsto> temperature]),
      equilibrium_phase_partition = (\<lambda>temperature rho q_t. (q_t, map tf_zeros_like q_t)),
      total_enthalpy = (\<lambda>e_t rho q_t temperature. e_t),
      cp_m = (\<lambda>q_t q_l q_i. map (tf_map (\<lambda>x. 2)) q_t),
      exner_inverse = (\<lambda>rho q_t temperature zz. map (tf_map (\<lambda>x. 4)) rho),
      internal_energy_components = (\<lambda>temperature. (temperature, temperature, temperature)),
      saturation_excess = (\<lambda>temperature rho q_t. map tf_zeros_like q_t)\<rparr>"

definition ex_thermodynamics :: thermodynamics_manager where
  "ex_thermodynamics = \<lparr>model = Water ex_water\<rparr>"

text \<open>A cloud whose radiative flux is the liquid humidity.\<close>

definition ex_cloud :: cloud where
  "ex_cloud = \<lparr>source_by_radiation = (\<lambda>q_l rho zz h g halos replica_id replicas. q_l)\<rparr>"

definition ex_microphysics :: microphysics_kw1978 where
  "ex_microphysics =
     \<lparr>autoconversion_and_accretion = (\<lambda>q_r q_l. q_l),
      evaporation = (\<lambda>rho temperature q_r q_v q_l q_c. q_r)\<rparr>"

definition field_add :: "field \<Rightarrow> field \<Rightarrow> field" where
  "field_add a b = map2 (map2 (map2 (\<lambda>x y. x + y))) a b"

definition ex_env :: collaborators where
  "ex_env =
     \<lparr>Cloud = (\<lambda>w. ex_cloud),
      MicrophysicsKW1978 = (\<lambda>args. ex_microphysics),
      shear_stress = (\<lambda>k mu h0 h1 h2 u v w.
         [''xx'' \<mapsto> mu, ''yx'' \<mapsto> mu, ''zx'' \<mapsto> mu, ''xy'' \<mapsto> mu, ''yy'' \<mapsto> mu,
          ''zy'' \<mapsto> mu, ''xz'' \<mapsto> mu, ''yz'' \<mapsto> mu, ''zz'' \<mapsto> mu]),
      divergence = (\<lambda>k fs h.
         field_add
           (field_add
              (map (tf_map (\<lambda>x. x / (2 * h ! 0))) (apply_kernel_op_x k (fs ! 0) ''kDx''))
              (map (tf_map (\<lambda>x. x / (2 * h ! 1))) (apply_kernel_op_y k (fs ! 1) ''kDy'')))
           (map (tf_map (\<lambda>x. x / (2 * h ! 2)))
              (apply_kernel_op_z k (fs ! 2) ''kDz'' ''kDzsh''))),
      source_by_subsidence_velocity = (\<lambda>k rho zz h f g. f),
      constants_G = 10\<rparr>"

definition ex_scalars :: "scalar_proto list" where
  "ex_scalars =
     [\<lparr>proto_name = ''e_t'',
       total_energy = Some \<lparr>te_proto_include_radiation = True,
                            te_proto_include_subsidence = True,
                            te_proto_include_precipitation = True\<rparr>,
       potential_temperature = None\<rparr>,
      \<lparr>proto_name = ''theta_li'', total_energy = None,
       potential_temperature = Some \<lparr>pt_proto_include_radiation = True,
                                     pt_proto_include_subsidence = True\<rparr>\<rparr>,
      \<lparr>proto_name = ''theta'', total_energy = None,
       potential_temperature = Some \<lparr>pt_proto_include_radiation = True,
                                     pt_proto_include_subsidence = True\<rparr>\<rparr>,
      \<lparr>proto_name = ''Z'', total_energy = None, potential_temperature = None\<rparr>]"

text \<open>Two configurations: gravity along the third axis, and no gravity axis.\<close>

definition ex_swirl_params :: swirl_lm_parameters where
  "ex_swirl_params =
     \<lparr>scalars = ex_scalars, use_sgs = False, nu = 1, params_halo_width = 0,
      params_dx = 1, params_dy = 1, params_dz = 1, g_dim = Some 2\<rparr>"

definition ex_swirl_params_no_gravity :: swirl_lm_parameters where
  "ex_swirl_params_no_gravity = ex_swirl_params\<lparr>g_dim := None\<rparr>"

text \<open>Fields of two levels with one point each.\<close>

definition ex_flow_states :: states_map where
  "ex_flow_states =
     [''u'' \<mapsto> [[[1]], [[2]]], ''v'' \<mapsto> [[[0]], [[1]]], ''w'' \<mapsto> [[[3]], [[1]]],
      ''rho'' \<mapsto> [[[1]], [[2]]], ''rho_thermal'' \<mapsto> [[[1]], [[2]]],
      ''q_t'' \<mapsto> [[[5]], [[7]]], ''q_r'' \<mapsto> [[[1]], [[1]]]]"

definition ex_phi :: field where
  "ex_phi = [[[300]], [[310]]]"

text \<open>The objects the constructors build from these inputs.\<close>

definition ex_te :: total_energy where
  "ex_te =
     \<lparr>self_kernel_op = ex_kernel_op, self_params = ex_swirl_params,
      self_scalar_name = ''e_t'', self_thermodynamics = ex_thermodynamics,
      self_scalar_params = ex_scalars ! 0, self_h = [1, 1, 1], self_g_dim = Some 2,
      te_include_radiation = True, te_include_subsidence = True,
      te_include_precipitation = True, te_cloud = Some ex_cloud,
      te_microphysics = Some ex_microphysics\<rparr>"

definition ex_te_no_gravity :: total_energy where
  "ex_te_no_gravity =
     ex_te\<lparr>self_params := ex_swirl_params_no_gravity, self_g_dim := None,
           te_include_radiation := False, te_include_subsidence := False,
           te_include_precipitation := False\<rparr>"

definition ex_pt :: potential_temperature_src where
  "ex_pt =
     \<lparr>self_kernel_op = ex_kernel_op, self_params = ex_swirl_params,
      self_scalar_name = ''theta_li'', self_thermodynamics = ex_thermodynamics,
      self_scalar_params = ex_scalars ! 1, self_h = [1, 1, 1], self_g_dim = Some 2,
      pt_microphysics = Some ex_microphysics, pt_cloud = Some ex_cloud,
      pt_include_radiation = True, pt_include_subsidence = True\<rparr>"

definition ex_pt_theta :: potential_temperature_src where
  "ex_pt_theta = ex_pt\<lparr>self_scalar_name := ''theta'', self_scalar_params := ex_scalars ! 2\<rparr>"

definition ex_pt_no_gravity :: potential_temperature_src where
  "ex_pt_no_gravity =
     ex_pt\<lparr>self_params := ex_swirl_params_no_gravity, self_g_dim := None,
           pt_include_radiation := False, pt_include_subsidence := False\<rparr>"

text \<open>The thermodynamic variables of the example flow.\<close>

definition ex_thermo_states :: states_map where
  "ex_thermo_states =
     [''theta_li'' \<mapsto> [[[300]], [[310]]], ''zz'' \<mapsto> [[[0]], [[0]]],
      ''T'' \<mapsto> [[[300]], [[310]]], ''theta'' \<mapsto> [[[300]], [[310]]],
      ''q_l'' \<mapsto> [[[5]], [[7]]], ''q_i'' \<mapsto> [[[0]], [[0]]]]"

text \<open>
  The example flow without humidity, where the radiative flux of the example cloud is
  zero, and the total energy object with radiation as its only optional term.
\<close>

definition ex_dry_states :: states_map where
  "ex_dry_states = ex_flow_states(''q_t'' \<mapsto> [[[0]], [[0]]])"

definition ex_te_radiation :: total_energy where
  "ex_te_radiation = ex_te\<lparr>te_include_subsidence := False, te_include_precipitation := False\<rparr>"

text \<open>
  Gravity along the first axis: one level with two points along \<open>x\<close>, and grid
  spacing 2 along \<open>x\<close>.
\<close>

definition ex_swirl_params_x :: swirl_lm_parameters where
  "ex_swirl_params_x = ex_swirl_params\<lparr>params_dx := 2, g_dim := Some 0\<rparr>"

definition ex_pt_x :: potential_temperature_src where
  "ex_pt_x =
     ex_pt\<lparr>self_params := ex_swirl_params_x, self_h := [2, 1, 1], self_g_dim := Some 0,
           pt_include_subsidence := False\<rparr>"

definition ex_flow_states_x :: states_map where
  "ex_flow_states_x =
     [''u'' \<mapsto> [[[1], [2]]], ''v'' \<mapsto> [[[0], [1]]], ''w'' \<mapsto> [[[3], [1]]],
      ''rho'' \<mapsto> [[[1], [2]]], ''rho_thermal'' \<mapsto> [[[1], [2]]],
      ''q_t'' \<mapsto> [[[5], [7]]], ''q_r'' \<mapsto> [[[1], [1]]]]"

definition ex_phi_x :: field where
  "ex_phi_x = [[[300], [310]]]"

text \<open>
  A state at rest without humidity and rain, the zero field, the stores that hold the two
  input dictionaries at the indices 0 and 1, and the dictionaries of thermodynamic variables
  that the two sources allocate there.
\<close>

definition ex_zero_phi :: field where
  "ex_zero_phi = [[[0]], [[0]]]"

definition ex_still_states :: states_map where
  "ex_still_states =
     [''u'' \<mapsto> [[[0]], [[0]]], ''v'' \<mapsto> [[[0]], [[0]]], ''w'' \<mapsto> [[[0]], [[0]]],
      ''rho'' \<mapsto> [[[1]], [[2]]], ''rho_thermal'' \<mapsto> [[[1]], [[2]]],
      ''q_t'' \<mapsto> [[[0]], [[0]]], ''q_r'' \<mapsto> [[[0]], [[0]]]]"

definition ex_store :: store where
  "ex_store = [ex_still_states, Map.empty]"

definition ex_flow_store :: store where
  "ex_flow_store = [ex_flow_states, Map.empty]"

definition ex_pt_thermo_still :: states_map where
  "ex_pt_thermo_still =
     [''theta_li'' \<mapsto> [[[0]], [[0]]], ''zz'' \<mapsto> [[[0]], [[0]]], ''T'' \<mapsto> [[[0]], [[0]]],
      ''theta'' \<mapsto> [[[0]], [[0]]], ''q_l'' \<mapsto> [[[0]], [[0]]], ''q_i'' \<mapsto> [[[0]], [[0]]]]"

definition ex_te_thermo_still :: states_map where
  "ex_te_thermo_still =
     [''e_t'' \<mapsto> [[[0]], [[0]]], ''q_t'' \<mapsto> [[[0]], [[0]]], ''zz'' \<mapsto> [[[0]], [[0]]],
      ''T'' \<mapsto> [[[0]], [[0]]], ''theta'' \<mapsto> [[[0]], [[0]]], ''h_t'' \<mapsto> [[[0]], [[0]]]]"

text \<open>
  A one-replica example with one vertical level, four points along \<open>x\<close>, two along
  \<open>y\<close> and halo width 1. The outlet face is row 2, the inlet face row 1;
  \<open>u_max = 6\<close> and \<open>c = dt * u_max / dx = 2\<close>.
\<close>

definition ex_states :: states_map where
  "ex_states =
     [''u'' \<mapsto> [[[1, 2], [3, 4], [5, 6], [7, 8]]],
      ''rho'' \<mapsto> [[[1, 1], [1, 1], [1, 1], [1, 1]]],
      ''T'' \<mapsto> [[[10, 20], [30, 40], [50, 60], [70, 80]]]]"

definition ex_additional_states :: states_items where
  "ex_additional_states =
     [(''bc_u_0_1'', [[[100, 200]]]), (''bc_T_0_1'', [[[1000, 2000]]]), (''nu_t'', [[[9]]])]"

definition ex_params :: grid_parametrization where
  "ex_params = \<lparr>halo_width = 1, dt = 1, dx = 3\<rparr>"

section \<open>Basic facts\<close>

lemma bindE_Inl [simp]: "bindE (Inl e) f = Inl e"
  by (simp add: bindE_def)

lemma bindE_Inr [simp]: "bindE (Inr v) f = f v"
  by (simp add: bindE_def)

lemma bindE_eq_Inr: "bindE m f = Inr y \<longleftrightarrow> (\<exists>v. m = Inr v \<and> f v = Inr y)"
  by (cases m) simp_all

lemma mapE_Inr_iff:
  "mapE f xs = Inr ys \<longleftrightarrow> length ys = length xs \<and> (\<forall>i < length xs. f (xs ! i) = Inr (ys ! i))"
proof (induction xs arbitrary: ys)
  case Nil
  then show ?case by auto
next
  case (Cons x xs)
  show ?case
  proof (cases ys)
    case Nil
    then show ?thesis by (auto simp: bindE_eq_Inr)
  next
    case (Cons y ys')
    have "(\<forall>i < Suc (length xs). f ((x # xs) ! i) = Inr ((y # ys') ! i)) \<longleftrightarrow>
          f x = Inr y \<and> (\<forall>i < length xs. f (xs ! i) = Inr (ys' ! i))"
      by (auto simp: nth_Cons split: nat.splits)
    with Cons Cons.IH [of ys'] show ?thesis
      by (auto simp: bindE_eq_Inr)
  qed
qed

lemma lookup_eq_Inr: "lookup d k = Inr v \<longleftrightarrow> d k = Some v"
  by (simp add: lookup_def split: option.splits)

lemma row_at_eq_Inr:
  "row_at t i = Inr r \<longleftrightarrow> (\<exists>j. py_index (length t) i = Some j \<and> r = t ! j)"
  by (auto simp: row_at_def split: option.splits)

lemma py_index_outlet:
  "py_index n (- int h - 1) = Some j \<longleftrightarrow> h < n \<and> j = n - h - 1"
  by (auto simp: py_index_def Let_def)

lemma py_index_inlet:
  "py_index n (int h) = Some j \<longleftrightarrow> h < n \<and> j = h"
  by (auto simp: py_index_def Let_def)

lemma update_slice_Inr:
  assumes "update_slice params coeff cf u_j u_j_1 = Inr s"
  shows "halo_width params < length u_j_1"
    and "length s = length u_j"
    and "\<forall>x < length u_j. length (u_j ! x) = length (u_j_1 ! (length u_j_1 - halo_width params - 1))
           \<and> length (s ! x) = length (u_j ! x)
           \<and> (\<forall>y < length (u_j ! x). s ! x ! y = cf * (coeff * u_j ! x ! y
                 + (1 - coeff) * u_j_1 ! (length u_j_1 - halo_width params - 1) ! y))"
  using assms
  by (auto simp: update_slice_def bindE_eq_Inr row_at_eq_Inr outlet_index_def py_index_outlet
      add_row_def smul_def vsmul_def list_all_length split: if_splits)

lemma update_boundary_values_Inr:
  assumes "update_boundary_values states as params coeff mc var = Inr new"
  shows "\<exists>old phi. map_of as (bc_name_of var) = Some old \<and> states var = Some phi
           \<and> length new = min (length old) (length phi)
           \<and> (\<forall>j < length new.
                 update_slice params coeff (if var = ''u'' then mc else 1) (old ! j) (phi ! j)
                   = Inr (new ! j))"
  using assms
  by (auto simp: update_boundary_values_def Let_def bindE_eq_Inr lookup_eq_Inr mapE_Inr_iff)

lemma get_boundary_update_fn_Inr:
  assumes "get_boundary_update_fn gr replicas states as params = Inr out"
  shows "\<exists>u_max mass_exit mass_inlet.
           u_max_of gr (group_assignment_of replicas) states params = Inr u_max
         \<and> mass_flux_x_face gr (group_assignment_of replicas) states (outlet_index params)
             = Inr mass_exit
         \<and> mass_flux_x_face gr (group_assignment_of replicas) states (int (halo_width params))
             = Inr mass_inlet
         \<and> length out = length as
         \<and> (\<forall>i < length as.
               fst (out ! i) = fst (as ! i)
             \<and> (case re_search (fst (as ! i)) of
                  None \<Rightarrow> snd (out ! i) = snd (as ! i)
                | Some var \<Rightarrow>
                    update_boundary_values states as params
                      (1 - dt params * u_max / dx params) (mass_inlet / mass_exit) var
                      = Inr (snd (out ! i))))"
proof -
  from assms obtain u_max mass_exit mass_inlet where
    a: "u_max_of gr (group_assignment_of replicas) states params = Inr u_max"
    and b: "mass_flux_x_face gr (group_assignment_of replicas) states (outlet_index params)
             = Inr mass_exit"
    and c: "mass_flux_x_face gr (group_assignment_of replicas) states (int (halo_width params))
             = Inr mass_inlet"
    and d: "mapE (\<lambda>(key, val).
              case re_search key of
                Some var_name \<Rightarrow>
                  bindE (update_boundary_values states as params
                           (1 - dt params * u_max / dx params) (mass_inlet / mass_exit) var_name)
                        (\<lambda>new. Inr (key, new))
              | None \<Rightarrow> Inr (key, val)) as = Inr out"
    by (auto simp: get_boundary_update_fn_def Let_def bindE_eq_Inr)
  from d have len: "length out = length as"
    and each: "\<And>i. i < length as \<Longrightarrow>
      (case as ! i of (key, val) \<Rightarrow>
         case re_search key of
           Some var_name \<Rightarrow>
             bindE (update_boundary_values states as params
                      (1 - dt params * u_max / dx params) (mass_inlet / mass_exit) var_name)
                   (\<lambda>new. Inr (key, new))
         | None \<Rightarrow> Inr (key, val)) = Inr (out ! i)"
    by (simp_all add: mapE_Inr_iff)
  have "\<forall>i < length as.
          fst (out ! i) = fst (as ! i)
        \<and> (case re_search (fst (as ! i)) of
             None \<Rightarrow> snd (out ! i) = snd (as ! i)
           | Some var \<Rightarrow>
               update_boundary_values states as params
                 (1 - dt params * u_max / dx params) (mass_inlet / mass_exit) var
                 = Inr (snd (out ! i)))"
  proof (intro allI impI)
    fix i assume "i < length as"
    from each [OF this] have e: "(case as ! i of (key, val) \<Rightarrow>
         case re_search key of
           Some var_name \<Rightarrow>
             bindE (update_boundary_values states as params
                      (1 - dt params * u_max / dx params) (mass_inlet / mass_exit) var_name)
                   (\<lambda>new. Inr (key, new))
         | None \<Rightarrow> Inr (key, val)) = Inr (out ! i)" .
    show "fst (out ! i) = fst (as ! i)
        \<and> (case re_search (fst (as ! i)) of
             None \<Rightarrow> snd (out ! i) = snd (as ! i)
           | Some var \<Rightarrow>
               update_boundary_values states as params
                 (1 - dt params * u_max / dx params) (mass_inlet / mass_exit) var
                 = Inr (snd (out ! i)))"
    proof (cases "as ! i")
      case (Pair key val)
      show ?thesis
      proof (cases "re_search key")
        case None
        with Pair e have "out ! i = (key, val)" by simp
        with Pair None show ?thesis by simp
      next
        case (Some var)
        with Pair e obtain new where
          n: "update_boundary_values states as params
                (1 - dt params * u_max / dx params) (mass_inlet / mass_exit) var = Inr new"
          and o: "out ! i = (key, new)"
          by (auto simp: bindE_eq_Inr)
        with Pair Some show ?thesis by simp
      qed
    qed
  qed
  with a b c len show ?thesis by blast
qed

lemma map_of_same_keys:
  assumes "length out = length as"
    and "\<forall>i < length as. fst (out ! i) = fst (as ! i)"
    and "\<forall>i < length as. fst (as ! i) = k \<longrightarrow> snd (out ! i) = h (as ! i)"
  shows "map_of out k = map_option (\<lambda>v. h (k, v)) (map_of as k)"
  using assms
proof (induction out as rule: list_induct2)
  case Nil
  then show ?case by simp
next
  case (Cons x xs y ys)
  from Cons.prems have f0: "fst x = fst y" and s0: "fst y = k \<longrightarrow> snd x = h y"
    by (force, force)
  from Cons.prems have "\<forall>i < length ys. fst (xs ! i) = fst (ys ! i)"
    and "\<forall>i < length ys. fst (ys ! i) = k \<longrightarrow> snd (xs ! i) = h (ys ! i)"
    by (force, force)
  with Cons.IH have "map_of xs k = map_option (\<lambda>v. h (k, v)) (map_of ys k)" by blast
  with f0 s0 show ?case by (cases x; cases y) auto
qed

lemma greedy_suffix:
  "v \<noteq> [] \<Longrightarrow> length v \<le> n \<Longrightarrow> n \<le> length v + 4 \<Longrightarrow> greedy n (v @ ''_0_1'') = Some v"
proof (induction n)
  case 0
  then show ?case by simp
next
  case (Suc n)
  show ?case
  proof (cases "Suc n = length v")
    case True
    then have "take 4 (drop (Suc n) (v @ ''_0_1'')) = ''_0_1''"
      and "take (Suc n) (v @ ''_0_1'') = v" by simp_all
    then show ?thesis by (simp only: greedy.simps) simp
  next
    case False
    with Suc.prems have "length v \<le> n" "n \<le> length v + 4" by simp_all
    with Suc.IH Suc.prems(1) have ih: "greedy n (v @ ''_0_1'') = Some v" by blast
    from False Suc.prems have "length (drop (Suc n) (v @ ''_0_1'')) < 4" by simp
    then have "take 4 (drop (Suc n) (v @ ''_0_1'')) \<noteq> ''_0_1''"
      by (auto dest: arg_cong [where f = length])
    with ih show ?thesis by simp
  qed
qed

lemma re_search_bc_name:
  assumes "v \<noteq> []" and "list_all is_word v"
  shows "re_search (bc_name_of v) = Some v"
proof -
  have w: "list_all is_word (v @ ''_0_1'')"
    using assms(2) by (simp add: is_word_def)
  then have "takeWhile is_word (v @ ''_0_1'') = v @ ''_0_1''"
    by (simp add: list_all_iff)
  then have "match_here (''bc_'' @ v @ ''_0_1'') = Some v"
    using assms(1) by (simp add: match_here_def greedy_suffix)
  then show ?thesis by (simp add: bc_name_of_def)
qed

lemma mapE_Inr_map:
  assumes "mapE f xs = Inr ys" and "\<And>x y. x \<in> set xs \<Longrightarrow> f x = Inr y \<Longrightarrow> y = h x"
  shows "ys = map h xs"
  using assms by (auto simp: mapE_Inr_iff intro!: nth_equalityI)

lemma u_max_of_Inr:
  assumes "u_max_of gr g states params = Inr m"
  shows "\<exists>u. states ''u'' = Some u \<and> u \<noteq> []
           \<and> m = gr (concat (map (\<lambda>u_i. u_i ! (length u_i - halo_width params - 1)) u))
                    reduce_max g"
proof -
  from assms obtain u rows where u: "states ''u'' = Some u"
    and rows: "mapE (\<lambda>u_i. row_at u_i (outlet_index params)) u = Inr rows"
    and ne: "rows \<noteq> []" and m: "m = gr (concat rows) reduce_max g"
    by (auto simp: u_max_of_def bindE_eq_Inr lookup_eq_Inr tf_concat_def split: if_splits)
  from rows have "rows = map (\<lambda>u_i. u_i ! (length u_i - halo_width params - 1)) u"
    by (rule mapE_Inr_map) (auto simp: row_at_eq_Inr outlet_index_def py_index_outlet)
  with u ne m show ?thesis by auto
qed

lemma mass_flux_x_face_Inr:
  assumes "mass_flux_x_face gr g states idx = Inr m"
  shows "\<exists>rho u. states ''rho'' = Some rho \<and> states ''u'' = Some u
           \<and> m = gr (concat (map (\<lambda>(rho_i, u_i).
                        map2 (\<lambda>x y. x * y)
                          (rho_i ! the (py_index (length rho_i) idx))
                          (u_i ! the (py_index (length u_i) idx)))
                      (zip rho u)))
                    reduce_sum g"
proof -
  from assms obtain rho u rows where r: "states ''rho'' = Some rho" and u: "states ''u'' = Some u"
    and rows: "mapE (\<lambda>(rho_i, u_i).
              bindE (row_at rho_i idx) (\<lambda>r.
              bindE (row_at u_i idx) (\<lambda>q. vec_mul r q))) (zip rho u) = Inr rows"
    and m: "m = gr (concat rows) reduce_sum g"
    by (auto simp: mass_flux_x_face_def bindE_eq_Inr lookup_eq_Inr tf_concat_def split: if_splits)
  from rows have "rows = map (\<lambda>(rho_i, u_i).
                        map2 (\<lambda>x y. x * y)
                          (rho_i ! the (py_index (length rho_i) idx))
                          (u_i ! the (py_index (length u_i) idx))) (zip rho u)"
    by (rule mapE_Inr_map)
       (auto simp: row_at_eq_Inr bindE_eq_Inr vec_mul_def split: if_splits)
  with r u m show ?thesis by auto
qed

lemma smul_one: "smul 1 t = t"
  by (simp add: smul_def)

lemma update_slice_factor:
  "update_slice params coeff cf a b = Inr s \<longleftrightarrow>
     (\<exists>s0. update_slice params coeff 1 a b = Inr s0 \<and> s = smul cf s0)"
  by (auto simp: update_slice_def bindE_eq_Inr smul_one)

lemma update_boundary_values_factor:
  assumes "update_boundary_values states as params coeff mc var = Inr new"
  shows "\<exists>unc. update_boundary_values states as params coeff 1 var = Inr unc
           \<and> new = (if var = ''u'' then map (smul mc) unc else unc)"
proof -
  let ?cf = "if var = ''u'' then mc else 1"
  from assms obtain bc phi where bc: "lookup (map_of as) (bc_name_of var) = Inr bc"
    and phi: "lookup states var = Inr phi"
    and m: "mapE (\<lambda>(u_j, u_j_1). update_slice params coeff ?cf u_j u_j_1) (zip bc phi) = Inr new"
    by (auto simp: update_boundary_values_def Let_def bindE_eq_Inr)
  from m have len: "length new = length (zip bc phi)"
    and each: "\<And>i. i < length (zip bc phi) \<Longrightarrow>
       update_slice params coeff ?cf (fst (zip bc phi ! i)) (snd (zip bc phi ! i)) = Inr (new ! i)"
    by (auto simp: mapE_Inr_iff split_beta)
  define unc where "unc = map (\<lambda>(u_j, u_j_1).
      case update_slice params coeff 1 u_j u_j_1 of Inr s \<Rightarrow> s | Inl e \<Rightarrow> []) (zip bc phi)"
  have one: "\<And>i. i < length (zip bc phi) \<Longrightarrow>
       update_slice params coeff 1 (fst (zip bc phi ! i)) (snd (zip bc phi ! i)) = Inr (unc ! i)
       \<and> new ! i = smul ?cf (unc ! i)"
  proof -
    fix i assume i: "i < length (zip bc phi)"
    from each [OF i] obtain s0 where
      "update_slice params coeff 1 (fst (zip bc phi ! i)) (snd (zip bc phi ! i)) = Inr s0"
      and "new ! i = smul ?cf s0"
      unfolding update_slice_factor [of params coeff ?cf] by blast
    with i show "update_slice params coeff 1 (fst (zip bc phi ! i)) (snd (zip bc phi ! i)) = Inr (unc ! i)
       \<and> new ! i = smul ?cf (unc ! i)"
      by (simp add: unc_def split_beta)
  qed
  have "mapE (\<lambda>(u_j, u_j_1). update_slice params coeff 1 u_j u_j_1) (zip bc phi) = Inr unc"
    using one by (simp add: mapE_Inr_iff unc_def split_beta)
  with bc phi have u: "update_boundary_values states as params coeff 1 var = Inr unc"
    by (simp add: update_boundary_values_def Let_def)
  have "new = map (smul ?cf) unc"
    using len one by (auto intro!: nth_equalityI simp: unc_def)
  moreover have "map (smul 1) unc = unc"
    by (induction unc) (simp_all add: smul_one)
  ultimately have "new = (if var = ''u'' then map (smul mc) unc else unc)"
    by simp
  with u show ?thesis by blast
qed

lemma outflow_entry:
  assumes run: "get_boundary_update_fn gr replicas states as params = Inr out"
    and key: "map_of as key = Some val"
    and var: "re_search key = Some var"
  shows "\<exists>u_max mass_exit mass_inlet new.
           u_max_of gr (group_assignment_of replicas) states params = Inr u_max
         \<and> mass_flux_x_face gr (group_assignment_of replicas) states (outlet_index params)
             = Inr mass_exit
         \<and> mass_flux_x_face gr (group_assignment_of replicas) states (int (halo_width params))
             = Inr mass_inlet
         \<and> update_boundary_values states as params
              (1 - dt params * u_max / dx params) (mass_inlet / mass_exit) var = Inr new
         \<and> map_of out key = Some new"
proof -
  from get_boundary_update_fn_Inr [OF run] obtain u_max mass_exit mass_inlet where
    a: "u_max_of gr (group_assignment_of replicas) states params = Inr u_max"
    and b: "mass_flux_x_face gr (group_assignment_of replicas) states (outlet_index params)
             = Inr mass_exit"
    and c: "mass_flux_x_face gr (group_assignment_of replicas) states (int (halo_width params))
             = Inr mass_inlet"
    and len: "length out = length as"
    and each: "\<forall>i < length as.
               fst (out ! i) = fst (as ! i)
             \<and> (case re_search (fst (as ! i)) of
                  None \<Rightarrow> snd (out ! i) = snd (as ! i)
                | Some var \<Rightarrow>
                    update_boundary_values states as params
                      (1 - dt params * u_max / dx params) (mass_inlet / mass_exit) var
                      = Inr (snd (out ! i)))"
    by blast
  from key have "(key, val) \<in> set as" by (rule map_of_SomeD)
  then obtain i0 where i0: "i0 < length as" and k0: "as ! i0 = (key, val)"
    by (auto simp: in_set_conv_nth)
  with each var have
    n: "update_boundary_values states as params
          (1 - dt params * u_max / dx params) (mass_inlet / mass_exit) var
          = Inr (snd (out ! i0))"
    by force
  let ?new = "snd (out ! i0)"
  from each have keys: "\<forall>i < length as. fst (out ! i) = fst (as ! i)" by blast
  have vals: "\<forall>i < length as. fst (as ! i) = key \<longrightarrow> snd (out ! i) = (\<lambda>kv. ?new) (as ! i)"
  proof (intro allI impI)
    fix i assume "i < length as" and "fst (as ! i) = key"
    with each var have "update_boundary_values states as params
          (1 - dt params * u_max / dx params) (mass_inlet / mass_exit) var
          = Inr (snd (out ! i))"
      by force
    with n show "snd (out ! i) = ?new" by simp
  qed
  from map_of_same_keys [OF len keys vals] key have "map_of out key = Some ?new" by simp
  with a b c n show ?thesis by blast
qed

lemma mass_flux_outlet_Inr:
  assumes "mass_flux_x_face gr g states (outlet_index params) = Inr m"
  shows "\<exists>rho u. states ''rho'' = Some rho \<and> states ''u'' = Some u
           \<and> m = gr (concat (map (\<lambda>(rho_i, u_i).
                        map2 (\<lambda>x y. x * y)
                          (rho_i ! (length rho_i - halo_width params - 1))
                          (u_i ! (length u_i - halo_width params - 1)))
                      (zip rho u)))
                    reduce_sum g"
proof -
  from assms obtain rho u rows where r: "states ''rho'' = Some rho" and u: "states ''u'' = Some u"
    and rows: "mapE (\<lambda>(rho_i, u_i).
              bindE (row_at rho_i (outlet_index params)) (\<lambda>r.
              bindE (row_at u_i (outlet_index params)) (\<lambda>q. vec_mul r q))) (zip rho u) = Inr rows"
    and m: "m = gr (concat rows) reduce_sum g"
    by (auto simp: mass_flux_x_face_def bindE_eq_Inr lookup_eq_Inr tf_concat_def split: if_splits)
  from rows have "rows = map (\<lambda>(rho_i, u_i).
                        map2 (\<lambda>x y. x * y)
                          (rho_i ! (length rho_i - halo_width params - 1))
                          (u_i ! (length u_i - halo_width params - 1))) (zip rho u)"
    by (rule mapE_Inr_map)
       (auto simp: row_at_eq_Inr bindE_eq_Inr vec_mul_def outlet_index_def py_index_outlet
             split: if_splits)
  with r u m show ?thesis by auto
qed

lemma mass_flux_inlet_Inr:
  assumes "mass_flux_x_face gr g states (int (halo_width params)) = Inr m"
  shows "\<exists>rho u. states ''rho'' = Some rho \<and> states ''u'' = Some u
           \<and> m = gr (concat (map (\<lambda>(rho_i, u_i).
                        map2 (\<lambda>x y. x * y)
                          (rho_i ! halo_width params) (u_i ! halo_width params))
                      (zip rho u)))
                    reduce_sum g"
proof -
  from assms obtain rho u rows where r: "states ''rho'' = Some rho" and u: "states ''u'' = Some u"
    and rows: "mapE (\<lambda>(rho_i, u_i).
              bindE (row_at rho_i (int (halo_width params))) (\<lambda>r.
              bindE (row_at u_i (int (halo_width params))) (\<lambda>q. vec_mul r q))) (zip rho u) = Inr rows"
    and m: "m = gr (concat rows) reduce_sum g"
    by (auto simp: mass_flux_x_face_def bindE_eq_Inr lookup_eq_Inr tf_concat_def split: if_splits)
  from rows have "rows = map (\<lambda>(rho_i, u_i).
                        map2 (\<lambda>x y. x * y)
                          (rho_i ! halo_width params) (u_i ! halo_width params)) (zip rho u)"
    by (rule mapE_Inr_map)
       (auto simp: row_at_eq_Inr bindE_eq_Inr vec_mul_def py_index_inlet split: if_splits)
  with r u m show ?thesis by auto
qed

subsection \<open>The example, evaluated\<close>

lemma ex_run:
  "get_boundary_update_fn local_reduce [[[0]]] ex_states ex_additional_states ex_params
     = Inr [(''bc_u_0_1'', [[[- 630 / 11, - 1316 / 11]]]),
            (''bc_T_0_1'', [[[- 900, - 1880]]]),
            (''nu_t'', [[[9]]])]"
  by (simp add: get_boundary_update_fn_def ex_states_def ex_additional_states_def ex_params_def
      u_max_of_def lookup_def outlet_index_def row_at_def py_index_def tf_concat_def
      local_reduce_def group_assignment_of_def mass_flux_x_face_def vec_mul_def
      update_boundary_values_def bc_name_of_def update_slice_def add_row_def smul_def
      vsmul_def match_here_def is_word_def)

lemma ex_key_T: "map_of ex_additional_states ''bc_T_0_1'' = Some [[[1000, 2000]]]"
  by (simp add: ex_additional_states_def)

lemma ex_key_u: "map_of ex_additional_states ''bc_u_0_1'' = Some [[[100, 200]]]"
  by (simp add: ex_additional_states_def)

lemma ex_search_T: "re_search ''bc_T_0_1'' = Some ''T''"
  by (simp add: match_here_def is_word_def)

lemma ex_search_u: "re_search ''bc_u_0_1'' = Some ''u''"
  by (simp add: match_here_def is_word_def)

lemma ex_search_nu_t: "re_search ''nu_t'' = None"
  by (simp add: match_here_def)

lemma ex_mass_exit:
  "mass_flux_x_face local_reduce (group_assignment_of [[[0]]]) ex_states (outlet_index ex_params)
     = Inr 11"
  by (simp add: mass_flux_x_face_def ex_states_def ex_params_def lookup_def outlet_index_def
      row_at_def py_index_def tf_concat_def local_reduce_def vec_mul_def)

lemma ex_mass_inlet:
  "mass_flux_x_face local_reduce (group_assignment_of [[[0]]]) ex_states
     (int (halo_width ex_params)) = Inr 7"
  by (simp add: mass_flux_x_face_def ex_states_def ex_params_def lookup_def
      row_at_def py_index_def tf_concat_def local_reduce_def vec_mul_def)

lemma ex_u_max:
  "u_max_of local_reduce (group_assignment_of [[[0]]]) ex_states ex_params = Inr 6"
  by (simp add: u_max_of_def ex_states_def ex_params_def lookup_def outlet_index_def
      row_at_def py_index_def tf_concat_def local_reduce_def)

section \<open>Properties of the outflow boundary update\<close>

text \<open>
  Claim C1, as amended. For every item of \<open>additional_states\<close> whose key matches the
  pattern, with \<open>var\<close> the captured name, the stored value is, entry by entry,
  \<open>f * ((1 - c) * old + c * upstream)\<close>, where \<open>c = dt * u_max / dx\<close> is used as
  it is (no clamping), \<open>u_max\<close> is the global \<open>reduce_max\<close> of \<open>u\<close> over the
  outlet rows, \<open>old\<close> is the buffer stored under \<open>bc_<var>_0_1\<close>, \<open>upstream\<close> is
  the outlet row of \<open>states[var]\<close>, and the factor \<open>f\<close> is 1 except for
  \<open>var = u\<close>, where it is the mass-flux correction. The claim as written gives
  \<open>f = 1\<close> for every variable.
\<close>
theorem outflow_update_value:
  assumes run: "get_boundary_update_fn gr replicas states additional_states params = Inr out"
    and key: "map_of additional_states key = Some val"
    and var: "re_search key = Some var"
    and dx: "dx params \<noteq> 0"
    and me: "mass_flux_x_face gr (group_assignment_of replicas) states (outlet_index params)
               \<noteq> Inr 0"
  shows "\<exists>u c mass_exit mass_inlet old phi new.
           states ''u'' = Some u
         \<and> c = dt params
                 * gr (concat (map (\<lambda>u_i. u_i ! (length u_i - halo_width params - 1)) u))
                     reduce_max (group_assignment_of replicas)
                 / dx params
         \<and> mass_flux_x_face gr (group_assignment_of replicas) states (outlet_index params)
             = Inr mass_exit
         \<and> mass_flux_x_face gr (group_assignment_of replicas) states (int (halo_width params))
             = Inr mass_inlet
         \<and> map_of additional_states (bc_name_of var) = Some old
         \<and> states var = Some phi
         \<and> map_of out key = Some new
         \<and> length new = min (length old) (length phi)
         \<and> (\<forall>j < length new.
               length (new ! j) = length (old ! j)
             \<and> (\<forall>x < length (old ! j).
                   length (new ! j ! x) = length (old ! j ! x)
                 \<and> (\<forall>y < length (old ! j ! x).
                       new ! j ! x ! y =
                         (if var = ''u'' then mass_inlet / mass_exit else 1)
                         * ((1 - c) * old ! j ! x ! y
                            + c * phi ! j ! (length (phi ! j) - halo_width params - 1) ! y))))"
proof -
  from outflow_entry [OF run key var] obtain u_max mass_exit mass_inlet new where
    a: "u_max_of gr (group_assignment_of replicas) states params = Inr u_max"
    and b: "mass_flux_x_face gr (group_assignment_of replicas) states (outlet_index params)
             = Inr mass_exit"
    and c: "mass_flux_x_face gr (group_assignment_of replicas) states (int (halo_width params))
             = Inr mass_inlet"
    and n: "update_boundary_values states additional_states params
              (1 - dt params * u_max / dx params) (mass_inlet / mass_exit) var = Inr new"
    and o: "map_of out key = Some new"
    by blast
  from u_max_of_Inr [OF a] obtain u where u: "states ''u'' = Some u"
    and um: "u_max = gr (concat (map (\<lambda>u_i. u_i ! (length u_i - halo_width params - 1)) u))
                    reduce_max (group_assignment_of replicas)"
    by blast
  define cc where "cc = dt params * u_max / dx params"
  from update_boundary_values_Inr [OF n] obtain old phi where
    old: "map_of additional_states (bc_name_of var) = Some old"
    and phi: "states var = Some phi"
    and len: "length new = min (length old) (length phi)"
    and sl: "\<forall>j < length new.
                 update_slice params (1 - cc)
                   (if var = ''u'' then mass_inlet / mass_exit else 1) (old ! j) (phi ! j)
                   = Inr (new ! j)"
    unfolding cc_def by blast
  have pt: "\<forall>j < length new.
               length (new ! j) = length (old ! j)
             \<and> (\<forall>x < length (old ! j).
                   length (new ! j ! x) = length (old ! j ! x)
                 \<and> (\<forall>y < length (old ! j ! x).
                       new ! j ! x ! y =
                         (if var = ''u'' then mass_inlet / mass_exit else 1)
                         * ((1 - cc) * old ! j ! x ! y
                            + cc * phi ! j ! (length (phi ! j) - halo_width params - 1) ! y)))"
  proof (intro allI impI)
    fix j assume "j < length new"
    with sl have s: "update_slice params (1 - cc)
                   (if var = ''u'' then mass_inlet / mass_exit else 1) (old ! j) (phi ! j)
                   = Inr (new ! j)" by blast
    from update_slice_Inr(2,3) [OF s]
    show "length (new ! j) = length (old ! j)
             \<and> (\<forall>x < length (old ! j).
                   length (new ! j ! x) = length (old ! j ! x)
                 \<and> (\<forall>y < length (old ! j ! x).
                       new ! j ! x ! y =
                         (if var = ''u'' then mass_inlet / mass_exit else 1)
                         * ((1 - cc) * old ! j ! x ! y
                            + cc * phi ! j ! (length (phi ! j) - halo_width params - 1) ! y)))"
      by simp
  qed
  from um have "cc = dt params
                 * gr (concat (map (\<lambda>u_i. u_i ! (length u_i - halo_width params - 1)) u))
                     reduce_max (group_assignment_of replicas)
                 / dx params"
    by (simp add: cc_def)
  with u b c old phi o len pt show ?thesis by blast
qed

text \<open>The theorem at the example, for \<open>bc_T_0_1\<close>, where \<open>c = 2\<close> exceeds 1.\<close>

theorem outflow_update_value_witness:
  "get_boundary_update_fn local_reduce [[[0]]] ex_states ex_additional_states ex_params
     = Inr [(''bc_u_0_1'', [[[- 630 / 11, - 1316 / 11]]]),
            (''bc_T_0_1'', [[[- 900, - 1880]]]),
            (''nu_t'', [[[9]]])]
   \<and> map_of ex_additional_states ''bc_T_0_1'' = Some [[[1000, 2000]]]
   \<and> re_search ''bc_T_0_1'' = Some ''T''
   \<and> dx ex_params \<noteq> 0
   \<and> mass_flux_x_face local_reduce (group_assignment_of [[[0]]]) ex_states
        (outlet_index ex_params) \<noteq> Inr 0
   \<and> (- 900 :: real) = (1 - 1 * 6 / 3) * 1000 + (1 * 6 / 3) * 50
   \<and> (- 1880 :: real) = (1 - 1 * 6 / 3) * 2000 + (1 * 6 / 3) * 60"
proof -
  have dx: "dx ex_params \<noteq> 0" by (simp add: ex_params_def)
  have me: "mass_flux_x_face local_reduce (group_assignment_of [[[0]]]) ex_states
        (outlet_index ex_params) \<noteq> Inr 0"
    by (simp add: ex_mass_exit)
  from outflow_update_value [OF ex_run ex_key_T ex_search_T dx me]
  obtain u c mass_exit mass_inlet old phi new where
    u: "ex_states ''u'' = Some u"
    and c: "c = dt ex_params
                 * local_reduce (concat (map (\<lambda>u_i. u_i ! (length u_i - halo_width ex_params - 1)) u))
                     reduce_max (group_assignment_of [[[0]]])
                 / dx ex_params"
    and old: "map_of ex_additional_states (bc_name_of ''T'') = Some old"
    and phi: "ex_states ''T'' = Some phi"
    and new: "map_of [(''bc_u_0_1'', [[[- 630 / 11, - 1316 / 11]]]),
            (''bc_T_0_1'', [[[- 900, - 1880]]]),
            (''nu_t'', [[[9 :: real]]])] ''bc_T_0_1'' = Some new"
    and pt: "\<forall>j < length new.
               length (new ! j) = length (old ! j)
             \<and> (\<forall>x < length (old ! j).
                   length (new ! j ! x) = length (old ! j ! x)
                 \<and> (\<forall>y < length (old ! j ! x).
                       new ! j ! x ! y =
                         (if ''T'' = ''u'' then mass_inlet / mass_exit else 1)
                         * ((1 - c) * old ! j ! x ! y
                            + c * phi ! j ! (length (phi ! j) - halo_width ex_params - 1) ! y)))"
    by blast
  from u have u': "u = [[[1, 2], [3, 4], [5, 6], [7, 8]]]" by (simp add: ex_states_def)
  from c have c': "c = 1 * 6 / 3" by (simp add: u' ex_params_def local_reduce_def)
  from old have old': "old = [[[1000, 2000]]]"
    by (simp add: ex_additional_states_def bc_name_of_def)
  from phi have phi': "phi = [[[10, 20], [30, 40], [50, 60], [70, 80]]]"
    by (simp add: ex_states_def)
  from new have new': "new = [[[- 900, - 1880]]]" by simp
  have l0: "0 < length new" "0 < length (old ! 0)" "0 < length (old ! 0 ! 0)"
    "1 < length (old ! 0 ! 0)"
    by (simp_all add: new' old')
  from pt l0 have "new ! 0 ! 0 ! 0 = (if ''T'' = ''u'' then mass_inlet / mass_exit else 1)
      * ((1 - c) * old ! 0 ! 0 ! 0
         + c * phi ! 0 ! (length (phi ! 0) - halo_width ex_params - 1) ! 0)"
    and "new ! 0 ! 0 ! 1 = (if ''T'' = ''u'' then mass_inlet / mass_exit else 1)
      * ((1 - c) * old ! 0 ! 0 ! 1
         + c * phi ! 0 ! (length (phi ! 0) - halo_width ex_params - 1) ! 1)"
    by blast+
  then have "(- 900 :: real) = (1 - 1 * 6 / 3) * 1000 + (1 * 6 / 3) * 50"
    and "(- 1880 :: real) = (1 - 1 * 6 / 3) * 2000 + (1 * 6 / 3) * 60"
    unfolding new' old' phi' c' by (simp_all add: ex_params_def)
  with ex_run ex_key_T ex_search_T dx me show ?thesis by blast
qed

text \<open>
  Claim C1 as written fails at the example for \<open>bc_u_0_1\<close>: the stored entry is
  \<open>-630/11\<close>, while \<open>(1 - c) * old + c * upstream = -90\<close>.
\<close>

theorem outflow_update_u_counterexample:
  "re_search ''bc_u_0_1'' = Some ''u''
   \<and> u_max_of local_reduce (group_assignment_of [[[0]]]) ex_states ex_params = Inr 6
   \<and> dt ex_params * 6 / dx ex_params = 2
   \<and> map_of ex_additional_states ''bc_u_0_1'' = Some [[[100, 200]]]
   \<and> ex_states ''u'' = Some [[[1, 2], [3, 4], [5, 6], [7, 8]]]
   \<and> get_boundary_update_fn local_reduce [[[0]]] ex_states ex_additional_states ex_params
     = Inr [(''bc_u_0_1'', [[[- 630 / 11, - 1316 / 11]]]),
            (''bc_T_0_1'', [[[- 900, - 1880]]]),
            (''nu_t'', [[[9]]])]
   \<and> (- 630 / 11 :: real) \<noteq> (1 - 2) * 100 + 2 * 5"
  using ex_search_u ex_u_max ex_key_u ex_run by (simp add: ex_params_def ex_states_def)

text \<open>
  Claim C5. The inlet and outlet mass fluxes are the global \<open>reduce_sum\<close> of
  \<open>rho * u\<close> over the rows at \<open>halo_width\<close> and at \<open>-halo_width - 1\<close>. With
  \<open>unc\<close> the value computed with correction factor 1, the stored value is \<open>unc\<close>
  itself for every variable other than \<open>u\<close>, and \<open>mass_inlet / mass_exit\<close> times
  \<open>unc\<close> for \<open>u\<close>.
\<close>
theorem mass_flux_correction_only_u:
  assumes run: "get_boundary_update_fn gr replicas states additional_states params = Inr out"
    and key: "map_of additional_states key = Some val"
    and var: "re_search key = Some var"
    and me: "mass_flux_x_face gr (group_assignment_of replicas) states (outlet_index params)
               \<noteq> Inr 0"
  shows "\<exists>rho u u_max mass_exit mass_inlet unc.
           states ''rho'' = Some rho \<and> states ''u'' = Some u
         \<and> mass_exit = gr (concat (map (\<lambda>(rho_i, u_i).
                          map2 (\<lambda>x y. x * y)
                            (rho_i ! (length rho_i - halo_width params - 1))
                            (u_i ! (length u_i - halo_width params - 1)))
                        (zip rho u)))
                      reduce_sum (group_assignment_of replicas)
         \<and> mass_inlet = gr (concat (map (\<lambda>(rho_i, u_i).
                          map2 (\<lambda>x y. x * y)
                            (rho_i ! halo_width params) (u_i ! halo_width params))
                        (zip rho u)))
                      reduce_sum (group_assignment_of replicas)
         \<and> u_max_of gr (group_assignment_of replicas) states params = Inr u_max
         \<and> update_boundary_values states additional_states params
              (1 - dt params * u_max / dx params) 1 var = Inr unc
         \<and> map_of out key
             = Some (if var = ''u'' then map (smul (mass_inlet / mass_exit)) unc else unc)"
proof -
  from outflow_entry [OF run key var] obtain u_max mass_exit mass_inlet new where
    a: "u_max_of gr (group_assignment_of replicas) states params = Inr u_max"
    and b: "mass_flux_x_face gr (group_assignment_of replicas) states (outlet_index params)
             = Inr mass_exit"
    and c: "mass_flux_x_face gr (group_assignment_of replicas) states (int (halo_width params))
             = Inr mass_inlet"
    and n: "update_boundary_values states additional_states params
              (1 - dt params * u_max / dx params) (mass_inlet / mass_exit) var = Inr new"
    and o: "map_of out key = Some new"
    by blast
  from mass_flux_outlet_Inr [OF b] obtain rho u where
    r: "states ''rho'' = Some rho" and u: "states ''u'' = Some u"
    and ex: "mass_exit = gr (concat (map (\<lambda>(rho_i, u_i).
                          map2 (\<lambda>x y. x * y)
                            (rho_i ! (length rho_i - halo_width params - 1))
                            (u_i ! (length u_i - halo_width params - 1)))
                        (zip rho u)))
                      reduce_sum (group_assignment_of replicas)"
    by blast
  from mass_flux_inlet_Inr [OF c] r u have
    inl: "mass_inlet = gr (concat (map (\<lambda>(rho_i, u_i).
                          map2 (\<lambda>x y. x * y)
                            (rho_i ! halo_width params) (u_i ! halo_width params))
                        (zip rho u)))
                      reduce_sum (group_assignment_of replicas)"
    by auto
  from update_boundary_values_factor [OF n] obtain unc where
    "update_boundary_values states additional_states params
       (1 - dt params * u_max / dx params) 1 var = Inr unc"
    and "new = (if var = ''u'' then map (smul (mass_inlet / mass_exit)) unc else unc)"
    by blast
  with r u ex inl a o show ?thesis by blast
qed

text \<open>The theorem at the example, for \<open>bc_u_0_1\<close>: the ratio is \<open>7/11\<close>.\<close>

theorem mass_flux_correction_only_u_witness:
  "get_boundary_update_fn local_reduce [[[0]]] ex_states ex_additional_states ex_params
     = Inr [(''bc_u_0_1'', [[[- 630 / 11, - 1316 / 11]]]),
            (''bc_T_0_1'', [[[- 900, - 1880]]]),
            (''nu_t'', [[[9]]])]
   \<and> map_of ex_additional_states ''bc_u_0_1'' = Some [[[100, 200]]]
   \<and> re_search ''bc_u_0_1'' = Some ''u''
   \<and> mass_flux_x_face local_reduce (group_assignment_of [[[0]]]) ex_states
        (outlet_index ex_params) \<noteq> Inr 0
   \<and> update_boundary_values ex_states ex_additional_states ex_params (1 - 1 * 6 / 3) 1 ''u''
       = Inr [[[- 90, - 188]]]
   \<and> [[[- 630 / 11, - 1316 / 11]]] = map (smul (7 / 11)) [[[- 90, - 188]]]"
proof -
  have me: "mass_flux_x_face local_reduce (group_assignment_of [[[0]]]) ex_states
        (outlet_index ex_params) \<noteq> Inr 0"
    by (simp add: ex_mass_exit)
  from mass_flux_correction_only_u [OF ex_run ex_key_u ex_search_u me]
  obtain rho u u_max mass_exit mass_inlet unc where
    r: "ex_states ''rho'' = Some rho" and u: "ex_states ''u'' = Some u"
    and ex: "mass_exit = local_reduce (concat (map (\<lambda>(rho_i, u_i).
                          map2 (\<lambda>x y. x * y)
                            (rho_i ! (length rho_i - halo_width ex_params - 1))
                            (u_i ! (length u_i - halo_width ex_params - 1)))
                        (zip rho u)))
                      reduce_sum (group_assignment_of [[[0]]])"
    and inl: "mass_inlet = local_reduce (concat (map (\<lambda>(rho_i, u_i).
                          map2 (\<lambda>x y. x * y)
                            (rho_i ! halo_width ex_params) (u_i ! halo_width ex_params))
                        (zip rho u)))
                      reduce_sum (group_assignment_of [[[0]]])"
    and um: "u_max_of local_reduce (group_assignment_of [[[0]]]) ex_states ex_params = Inr u_max"
    and unc: "update_boundary_values ex_states ex_additional_states ex_params
              (1 - dt ex_params * u_max / dx ex_params) 1 ''u'' = Inr unc"
    and new: "map_of [(''bc_u_0_1'', [[[- 630 / 11, - 1316 / 11]]]),
            (''bc_T_0_1'', [[[- 900, - 1880]]]),
            (''nu_t'', [[[9 :: real]]])] ''bc_u_0_1''
             = Some (if ''u'' = ''u'' then map (smul (mass_inlet / mass_exit)) unc else unc)"
    by blast
  from r have r': "rho = [[[1, 1], [1, 1], [1, 1], [1, 1]]]" by (simp add: ex_states_def)
  from u have u': "u = [[[1, 2], [3, 4], [5, 6], [7, 8]]]" by (simp add: ex_states_def)
  from ex have ex': "mass_exit = 11" by (simp add: r' u' ex_params_def local_reduce_def)
  from inl have inl': "mass_inlet = 7" by (simp add: r' u' ex_params_def local_reduce_def)
  from um have um': "u_max = 6" by (simp add: ex_u_max)
  have val: "update_boundary_values ex_states ex_additional_states ex_params (1 - 1 * 6 / 3) 1 ''u''
       = Inr [[[- 90, - 188]]]"
    by (simp add: update_boundary_values_def ex_states_def ex_additional_states_def ex_params_def
        lookup_def bc_name_of_def update_slice_def outlet_index_def row_at_def py_index_def
        add_row_def smul_def vsmul_def)
  from unc have "unc = [[[- 90, - 188]]]"
    using val by (simp add: um' ex_params_def)
  with new have "[[[- 630 / 11, - 1316 / 11]]] = map (smul (7 / 11)) [[[- 90, - 188 :: real]]]"
    by (simp add: ex' inl')
  with ex_run ex_key_u ex_search_u me val show ?thesis by blast
qed

text \<open>
  Claim C10. When the update returns, the result has the keys of \<open>additional_states\<close>
  in the same order, and every item whose key does not match the pattern is returned as it
  was; so a lookup of such a key gives the same result in both maps.
\<close>
theorem outflow_frame:
  assumes run: "get_boundary_update_fn gr replicas states additional_states params = Inr out"
  shows "map fst out = map fst additional_states
       \<and> (\<forall>i < length additional_states.
             re_search (fst (additional_states ! i)) = None \<longrightarrow> out ! i = additional_states ! i)
       \<and> (\<forall>k. re_search k = None \<longrightarrow> map_of out k = map_of additional_states k)"
proof -
  let ?as = additional_states
  from get_boundary_update_fn_Inr [OF run] obtain u_max mass_exit mass_inlet where
    len: "length out = length ?as"
    and each: "\<forall>i < length ?as.
               fst (out ! i) = fst (?as ! i)
             \<and> (case re_search (fst (?as ! i)) of
                  None \<Rightarrow> snd (out ! i) = snd (?as ! i)
                | Some var \<Rightarrow>
                    update_boundary_values states ?as params
                      (1 - dt params * u_max / dx params) (mass_inlet / mass_exit) var
                      = Inr (snd (out ! i)))"
    by blast
  from each have keys: "\<forall>i < length ?as. fst (out ! i) = fst (?as ! i)" by blast
  with len have fs: "map fst out = map fst ?as"
    by (auto intro!: nth_equalityI)
  have same: "\<forall>i < length ?as. re_search (fst (?as ! i)) = None \<longrightarrow> out ! i = ?as ! i"
  proof (intro allI impI)
    fix i assume "i < length ?as" and "re_search (fst (?as ! i)) = None"
    with each have "fst (out ! i) = fst (?as ! i)" and "snd (out ! i) = snd (?as ! i)"
      by force+
    then show "out ! i = ?as ! i" by (rule prod_eqI)
  qed
  have "\<forall>k. re_search k = None \<longrightarrow> map_of out k = map_of ?as k"
  proof (intro allI impI)
    fix k assume none: "re_search k = None"
    with same have "\<forall>i < length ?as. fst (?as ! i) = k \<longrightarrow> snd (out ! i) = snd (?as ! i)"
      by auto
    from map_of_same_keys [OF len keys this] show "map_of out k = map_of ?as k"
      by (simp add: option.map_ident)
  qed
  with fs same show ?thesis by blast
qed

text \<open>The theorem at the example: \<open>nu_t\<close> is not a boundary-condition key.\<close>

theorem outflow_frame_witness:
  "get_boundary_update_fn local_reduce [[[0]]] ex_states ex_additional_states ex_params
     = Inr [(''bc_u_0_1'', [[[- 630 / 11, - 1316 / 11]]]),
            (''bc_T_0_1'', [[[- 900, - 1880]]]),
            (''nu_t'', [[[9]]])]
   \<and> map fst [(''bc_u_0_1'', [[[- 630 / 11, - 1316 / 11 :: real]]]),
            (''bc_T_0_1'', [[[- 900, - 1880]]]),
            (''nu_t'', [[[9]]])] = map fst ex_additional_states
   \<and> re_search ''nu_t'' = None
   \<and> map_of [(''bc_u_0_1'', [[[- 630 / 11, - 1316 / 11 :: real]]]),
            (''bc_T_0_1'', [[[- 900, - 1880]]]),
            (''nu_t'', [[[9]]])] ''nu_t'' = map_of ex_additional_states ''nu_t''"
  using outflow_frame [OF ex_run] ex_run ex_search_nu_t by blast

section \<open>Facts about the scalar source functions\<close>

lemma ScalarGeneric_init_Inr:
  "ScalarGeneric_init k p n th = Inr b \<Longrightarrow>
     self_kernel_op b = k \<and> self_params b = p \<and> self_scalar_name b = n
     \<and> self_thermodynamics b = th \<and> self_g_dim b = g_dim p
     \<and> self_h b = [params_dx p, params_dy p, params_dz p]
     \<and> find (\<lambda>s. proto_name s = n) (scalars p) = Some (self_scalar_params b)"
  by (auto simp: ScalarGeneric_init_def split: option.splits)

lemma ScalarGeneric_init_configured:
  "(\<exists>b. ScalarGeneric_init k p n th = Inr b) \<longleftrightarrow> (\<exists>s \<in> set (scalars p). proto_name s = n)"
proof (cases "find (\<lambda>s. proto_name s = n) (scalars p)")
  case None
  then have "ScalarGeneric_init k p n th = Inl ConfigurationError"
    by (simp add: ScalarGeneric_init_def)
  moreover from None have "\<not> (\<exists>s \<in> set (scalars p). proto_name s = n)"
    by (auto simp: find_None_iff)
  ultimately show ?thesis by simp
next
  case (Some sp)
  then obtain i where "i < length (scalars p)" and "proto_name (scalars p ! i) = n"
    by (auto simp: find_Some_iff)
  then have "\<exists>s \<in> set (scalars p). proto_name s = n" using nth_mem by blast
  with Some show ?thesis by (simp add: ScalarGeneric_init_def)
qed

lemma ScalarGeneric_init_Inl:
  "ScalarGeneric_init k p n th = Inl e \<Longrightarrow> e = ConfigurationError"
  by (auto simp: ScalarGeneric_init_def split: option.splits)

text \<open>
  Claim C2. With a thermodynamics model that is not \<open>Water\<close>, the constructor of
  \<open>TotalEnergy\<close> always fails: with the configuration error of the base class, the
  assertion on the name, or, once both have passed (name \<open>e_t\<close>, configured), the
  \<open>ValueError\<close> raised for the model. No source evaluation or reduction is part of the
  constructor. With \<open>Water\<close> and the configured name \<open>e_t\<close> it returns an object.
\<close>
theorem total_energy_requires_water:
  "(model thermodynamics = NotWater \<longrightarrow>
      TotalEnergy_init env kernel_op params scalar_name thermodynamics
        \<in> {Inl ConfigurationError, Inl AssertionError, Inl ValueError})
   \<and> (model thermodynamics = NotWater \<and> scalar_name = ''e_t''
        \<and> (\<exists>s \<in> set (scalars params). proto_name s = ''e_t'') \<longrightarrow>
      TotalEnergy_init env kernel_op params scalar_name thermodynamics = Inl ValueError)
   \<and> (model thermodynamics = Water w \<and> scalar_name = ''e_t''
        \<and> (\<exists>s \<in> set (scalars params). proto_name s = ''e_t'') \<longrightarrow>
      (\<exists>obj. TotalEnergy_init env kernel_op params scalar_name thermodynamics = Inr obj
             \<and> te_cloud obj = Some (Cloud env w)))"
proof (cases "ScalarGeneric_init kernel_op params scalar_name thermodynamics")
  case (Inl e)
  then have e: "e = ConfigurationError" by (rule ScalarGeneric_init_Inl)
  from Inl have "\<not> (\<exists>s \<in> set (scalars params). proto_name s = scalar_name)"
    using ScalarGeneric_init_configured [of kernel_op params scalar_name thermodynamics] by simp
  with Inl e show ?thesis by (auto simp: TotalEnergy_init_def)
next
  case (Inr b)
  from ScalarGeneric_init_Inr [OF Inr] have "self_thermodynamics b = thermodynamics" by simp
  with Inr show ?thesis
    by (auto simp: TotalEnergy_init_def TOTAL_ENERGY_VARNAME_def Let_def)
qed

lemma tf_bin_Inr:
  "tf_bin f a b = Inr c \<longleftrightarrow> map length a = map length b \<and> c = map2 (map2 f) a b"
  by (auto simp: tf_bin_def)

lemma shape_map2:
  "map length a = map length b \<Longrightarrow> map length (map2 (map2 f) a b) = map length a"
proof (induction a arbitrary: b)
  case Nil
  then show ?case by simp
next
  case (Cons x a)
  then show ?case by (cases b) auto
qed

lemma tf_bin_shape:
  assumes "tf_bin f a b = Inr c"
  shows "map length c = map length a"
proof -
  from assms have s: "map length a = map length b" and c: "c = map2 (map2 f) a b"
    by (simp_all add: tf_bin_Inr)
  show ?thesis unfolding c by (rule shape_map2 [OF s])
qed

lemma tf_bin_nth:
  assumes "tf_bin f a b = Inr c" and "i < length a" and "j < length (a ! i)"
  shows "c ! i ! j = f (a ! i ! j) (b ! i ! j)"
proof -
  from assms(1) have s: "map length a = map length b" and c: "c = map2 (map2 f) a b"
    by (simp_all add: tf_bin_Inr)
  from s have l: "length a = length b" by (rule map_eq_imp_length_eq)
  from s assms(2) have "length (a ! i) = length (b ! i)"
    by (metis l nth_map)
  with c l assms(2,3) show ?thesis by simp
qed

lemma map_structure2_Inr:
  "map_structure2 f a b = Inr c \<longleftrightarrow>
     length a = length b \<and> length c = length a \<and> (\<forall>i < length a. f (a ! i) (b ! i) = Inr (c ! i))"
  by (auto simp: map_structure2_def mapE_Inr_iff)

lemma map_structure3_Inr:
  "map_structure3 f a b c = Inr d \<longleftrightarrow>
     length a = length b \<and> length b = length c \<and> length d = length a
     \<and> (\<forall>i < length a. f (a ! i) (b ! i) (c ! i) = Inr (d ! i))"
  by (auto simp: map_structure3_def mapE_Inr_iff)

lemma map_structure4_Inr:
  "map_structure4 f a b c d = Inr e \<longleftrightarrow>
     length a = length b \<and> length b = length c \<and> length c = length d \<and> length e = length a
     \<and> (\<forall>i < length a. f (a ! i) (b ! i) (c ! i) (d ! i) = Inr (e ! i))"
  by (auto simp: map_structure4_def mapE_Inr_iff)

lemma map_structure6_Inr:
  "map_structure6 f a b c d e g = Inr r \<longleftrightarrow>
     length a = length b \<and> length b = length c \<and> length c = length d \<and> length d = length e
     \<and> length e = length g \<and> length r = length a
     \<and> (\<forall>i < length a. f (a ! i) (b ! i) (c ! i) (d ! i) (e ! i) (g ! i) = Inr (r ! i))"
  by (auto simp: map_structure6_def mapE_Inr_iff)

lemma index_g_Inr: "index_g xs g = Inr v \<longleftrightarrow> (\<exists>i. g = Some i \<and> i < length xs \<and> v = xs ! i)"
  by (auto simp: index_g_def py_nth_def split: option.splits)

lemma attr_Inr: "attr x = Inr v \<longleftrightarrow> x = Some v"
  by (auto simp: attr_def split: option.splits)

lemma pt_thermo_flags [simp]:
  "pt_get_thermodynamic_variables (self\<lparr>pt_include_subsidence := b\<rparr>) = pt_get_thermodynamic_variables self"
  "pt_get_thermodynamic_variables (self\<lparr>pt_include_radiation := b\<rparr>) = pt_get_thermodynamic_variables self"
  by (simp_all add: pt_get_thermodynamic_variables_def fun_eq_iff
      cong: thermodynamics_model.case_cong)

lemma pt_radiation_flags [simp]:
  "pt_radiation (self\<lparr>pt_include_subsidence := b\<rparr>) = pt_radiation self"
  "pt_radiation (self\<lparr>pt_include_radiation := b\<rparr>) = pt_radiation self"
  by (simp_all add: pt_radiation_def fun_eq_iff grad_central_def)

lemma pt_subsidence_flags [simp]:
  "pt_subsidence env (self\<lparr>pt_include_subsidence := b\<rparr>) = pt_subsidence env self"
  "pt_subsidence env (self\<lparr>pt_include_radiation := b\<rparr>) = pt_subsidence env self"
  by (simp_all add: pt_subsidence_def fun_eq_iff)

lemma pt_thermo_water:
  assumes "model (self_thermodynamics self) = Water w"
    and "pt_get_thermodynamic_variables self phi states additional_states = Inr ts"
  shows "\<exists>q_t rho_thermal.
           states ''q_t'' = Some q_t \<and> states ''rho_thermal'' = Some rho_thermal
         \<and> ts ''zz'' = Some (zz_of phi additional_states)
         \<and> ts ''T'' = Some (saturation_adjustment w (self_scalar_name self) phi rho_thermal q_t
                             (FieldArg (zz_of phi additional_states)))
         \<and> ts ''q_l'' = Some (fst (equilibrium_phase_partition w
               (saturation_adjustment w (self_scalar_name self) phi rho_thermal q_t
                  (FieldArg (zz_of phi additional_states))) rho_thermal q_t))
         \<and> ts ''q_i'' = Some (snd (equilibrium_phase_partition w
               (saturation_adjustment w (self_scalar_name self) phi rho_thermal q_t
                  (FieldArg (zz_of phi additional_states))) rho_thermal q_t))"
  using assms
  by (auto simp: pt_get_thermodynamic_variables_def Let_def bindE_eq_Inr lookup_eq_Inr zz_of_def
      split: if_splits prod.splits)

lemma pt_subsidence_Inr:
  assumes "pt_subsidence env self phi states ts s0 = Inr s"
  shows "\<exists>rho zz g. states KEY_RHO = Some rho \<and> ts ''zz'' = Some zz
           \<and> self_g_dim self = Some g \<and> g < length (self_h self)
           \<and> map_structure2 tf_add s0
                (source_by_subsidence_velocity env (self_kernel_op self) rho zz
                   (self_h self ! g) phi g) = Inr s"
  using assms
  by (auto simp: pt_subsidence_def bindE_eq_Inr lookup_eq_Inr index_g_Inr)

text \<open>
  Claim C3. For a scalar name other than \<open>theta_li\<close> (so for \<open>theta\<close>) the source
  is the same with the subsidence flag set and cleared. For \<open>theta_li\<close> with the water
  model and the flag set, the source is, entry by entry, the source with the flag cleared
  plus the field returned by \<open>source_by_subsidence_velocity\<close>.
\<close>
theorem subsidence_only_for_theta_li:
  "(self_scalar_name self \<noteq> ''theta_li'' \<longrightarrow>
      pt_source_fn env (self\<lparr>pt_include_subsidence := True\<rparr>) replica_id replicas phi states
        additional_states
      = pt_source_fn env (self\<lparr>pt_include_subsidence := False\<rparr>) replica_id replicas phi states
          additional_states)
   \<and> (self_scalar_name self = ''theta_li'' \<and> model (self_thermodynamics self) = Water w
        \<and> pt_source_fn env (self\<lparr>pt_include_subsidence := True\<rparr>) replica_id replicas phi
             states additional_states = Inr s \<longrightarrow>
      (\<exists>s0 rho g src.
          pt_source_fn env (self\<lparr>pt_include_subsidence := False\<rparr>) replica_id replicas phi
            states additional_states = Inr s0
        \<and> states KEY_RHO = Some rho \<and> self_g_dim self = Some g \<and> g < length (self_h self)
        \<and> src = source_by_subsidence_velocity env (self_kernel_op self) rho
                  (zz_of phi additional_states) (self_h self ! g) phi g
        \<and> length s = length s0 \<and> length src = length s0
        \<and> (\<forall>k < length s0. map length (src ! k) = map length (s0 ! k)
              \<and> map length (s ! k) = map length (s0 ! k)
              \<and> (\<forall>i < length (s0 ! k). \<forall>j < length (s0 ! k ! i).
                    s ! k ! i ! j = s0 ! k ! i ! j + src ! k ! i ! j))))"
proof (intro conjI impI)
  assume "self_scalar_name self \<noteq> ''theta_li''"
  then show "pt_source_fn env (self\<lparr>pt_include_subsidence := True\<rparr>) replica_id replicas phi states
        additional_states
      = pt_source_fn env (self\<lparr>pt_include_subsidence := False\<rparr>) replica_id replicas phi states
          additional_states"
    by (simp add: pt_source_fn_def cong: thermodynamics_model.case_cong if_cong)
next
  assume a: "self_scalar_name self = ''theta_li'' \<and> model (self_thermodynamics self) = Water w
        \<and> pt_source_fn env (self\<lparr>pt_include_subsidence := True\<rparr>) replica_id replicas phi
             states additional_states = Inr s"
  then have name: "self_scalar_name self = ''theta_li''"
    and wat: "model (self_thermodynamics self) = Water w"
    and run: "pt_source_fn env (self\<lparr>pt_include_subsidence := True\<rparr>) replica_id replicas phi
             states additional_states = Inr s"
    by simp_all
  from run wat name obtain ts s0 where
    ts: "pt_get_thermodynamic_variables self phi states additional_states = Inr ts"
    and s0: "(if pt_include_radiation self
              then pt_radiation self w replica_id replicas states ts
              else Inr (map tf_zeros_like phi)) = Inr s0"
    and sub: "pt_subsidence env self phi states ts s0 = Inr s"
    by (auto simp: pt_source_fn_def Let_def bindE_eq_Inr is_water_def cong: if_cong)
  from ts s0 wat have off: "pt_source_fn env (self\<lparr>pt_include_subsidence := False\<rparr>) replica_id
      replicas phi states additional_states = Inr s0"
    by (simp add: pt_source_fn_def Let_def cong: if_cong)
  from pt_thermo_water [OF wat ts] have zz: "ts ''zz'' = Some (zz_of phi additional_states)"
    by blast
  from pt_subsidence_Inr [OF sub] zz obtain rho g where
    rho: "states KEY_RHO = Some rho" and g: "self_g_dim self = Some g"
    and gl: "g < length (self_h self)"
    and add: "map_structure2 tf_add s0
                (source_by_subsidence_velocity env (self_kernel_op self) rho
                   (zz_of phi additional_states) (self_h self ! g) phi g) = Inr s"
    by auto
  define src where "src = source_by_subsidence_velocity env (self_kernel_op self) rho
                  (zz_of phi additional_states) (self_h self ! g) phi g"
  from add have l1: "length s0 = length src" and l2: "length s = length s0"
    and each: "\<forall>k < length s0. tf_add (s0 ! k) (src ! k) = Inr (s ! k)"
    unfolding src_def [symmetric] by (simp_all add: map_structure2_Inr)
  have pt: "\<forall>k < length s0. map length (src ! k) = map length (s0 ! k)
              \<and> map length (s ! k) = map length (s0 ! k)
              \<and> (\<forall>i < length (s0 ! k). \<forall>j < length (s0 ! k ! i).
                    s ! k ! i ! j = s0 ! k ! i ! j + src ! k ! i ! j)"
  proof (intro allI impI)
    fix k assume "k < length s0"
    with each have e: "tf_bin (\<lambda>x y. x + y) (s0 ! k) (src ! k) = Inr (s ! k)"
      by (simp add: tf_add_def)
    from e have "map length (src ! k) = map length (s0 ! k)" by (simp add: tf_bin_Inr)
    moreover from e have "map length (s ! k) = map length (s0 ! k)" by (rule tf_bin_shape)
    moreover have "\<forall>i < length (s0 ! k). \<forall>j < length (s0 ! k ! i).
                    s ! k ! i ! j = s0 ! k ! i ! j + src ! k ! i ! j"
      using tf_bin_nth [OF e] by blast
    ultimately show "map length (src ! k) = map length (s0 ! k)
              \<and> map length (s ! k) = map length (s0 ! k)
              \<and> (\<forall>i < length (s0 ! k). \<forall>j < length (s0 ! k ! i).
                    s ! k ! i ! j = s0 ! k ! i ! j + src ! k ! i ! j)"
      by blast
  qed
  from off rho g gl l1 l2 pt show "\<exists>s0 rho g src.
          pt_source_fn env (self\<lparr>pt_include_subsidence := False\<rparr>) replica_id replicas phi
            states additional_states = Inr s0
        \<and> states KEY_RHO = Some rho \<and> self_g_dim self = Some g \<and> g < length (self_h self)
        \<and> src = source_by_subsidence_velocity env (self_kernel_op self) rho
                  (zz_of phi additional_states) (self_h self ! g) phi g
        \<and> length s = length s0 \<and> length src = length s0
        \<and> (\<forall>k < length s0. map length (src ! k) = map length (s0 ! k)
              \<and> map length (s ! k) = map length (s0 ! k)
              \<and> (\<forall>i < length (s0 ! k). \<forall>j < length (s0 ! k ! i).
                    s ! k ! i ! j = s0 ! k ! i ! j + src ! k ! i ! j))"
    unfolding src_def by auto
qed

lemma field_is_zero_nth:
  "field_is_zero f \<Longrightarrow> k < length f \<Longrightarrow> i < length (f ! k) \<Longrightarrow> j < length (f ! k ! i)
     \<Longrightarrow> f ! k ! i ! j = 0"
  by (simp add: field_is_zero_def list_all_length)

lemma tensor_eqI:
  assumes "map length c = map length a"
    and "\<And>i j. i < length a \<Longrightarrow> j < length (a ! i) \<Longrightarrow> c ! i ! j = a ! i ! j"
  shows "c = a"
proof (rule nth_equalityI)
  from assms(1) show l: "length c = length a" by (rule map_eq_imp_length_eq)
  fix i assume i: "i < length c"
  with l assms(1) have li: "length (c ! i) = length (a ! i)" by (metis nth_map)
  show "c ! i = a ! i"
  proof (rule nth_equalityI)
    show "length (c ! i) = length (a ! i)" by (rule li)
    fix j assume "j < length (c ! i)"
    with i l li show "c ! i ! j = a ! i ! j" by (simp add: assms(2))
  qed
qed

lemma tf_bin_left_id:
  assumes "tf_bin f a b = Inr c"
    and "\<And>i j. i < length a \<Longrightarrow> j < length (a ! i) \<Longrightarrow> f (a ! i ! j) (b ! i ! j) = a ! i ! j"
  shows "c = a"
proof (rule tensor_eqI)
  show "map length c = map length a" by (rule tf_bin_shape [OF assms(1)])
  fix i j assume "i < length a" and "j < length (a ! i)"
  then show "c ! i ! j = a ! i ! j"
    using tf_bin_nth [OF assms(1)] assms(2) by simp
qed

lemma te_blocks_flags [simp]:
  "te_get_thermodynamic_variables (self\<lparr>te_include_radiation := b\<rparr>)
     = te_get_thermodynamic_variables self"
  "te_get_thermodynamic_variables (self\<lparr>te_include_subsidence := b\<rparr>)
     = te_get_thermodynamic_variables self"
  "te_get_thermodynamic_variables (self\<lparr>te_include_precipitation := b\<rparr>)
     = te_get_thermodynamic_variables self"
  "te_mu (self\<lparr>te_include_radiation := b\<rparr>) = te_mu self"
  "te_mu (self\<lparr>te_include_subsidence := b\<rparr>) = te_mu self"
  "te_mu (self\<lparr>te_include_precipitation := b\<rparr>) = te_mu self"
  "te_rho_u_tau env (self\<lparr>te_include_radiation := b\<rparr>) = te_rho_u_tau env self"
  "te_rho_u_tau env (self\<lparr>te_include_subsidence := b\<rparr>) = te_rho_u_tau env self"
  "te_rho_u_tau env (self\<lparr>te_include_precipitation := b\<rparr>) = te_rho_u_tau env self"
  "te_radiation (self\<lparr>te_include_radiation := b\<rparr>) = te_radiation self"
  "te_radiation (self\<lparr>te_include_subsidence := b\<rparr>) = te_radiation self"
  "te_radiation (self\<lparr>te_include_precipitation := b\<rparr>) = te_radiation self"
  "te_subsidence env (self\<lparr>te_include_radiation := b\<rparr>) = te_subsidence env self"
  "te_subsidence env (self\<lparr>te_include_subsidence := b\<rparr>) = te_subsidence env self"
  "te_subsidence env (self\<lparr>te_include_precipitation := b\<rparr>) = te_subsidence env self"
  "te_precipitation env (self\<lparr>te_include_radiation := b\<rparr>) = te_precipitation env self"
  "te_precipitation env (self\<lparr>te_include_subsidence := b\<rparr>) = te_precipitation env self"
  "te_precipitation env (self\<lparr>te_include_precipitation := b\<rparr>) = te_precipitation env self"
  by (simp_all add: te_get_thermodynamic_variables_def te_mu_def te_rho_u_tau_def
      te_radiation_def te_subsidence_def te_precipitation_def fun_eq_iff
      cong: thermodynamics_model.case_cong if_cong)

lemma te_radiation_Inr:
  assumes "te_radiation self replica_id replicas q_l states ts rho div_terms = Inr dv"
  shows "\<exists>c rho_thermal zz g f_r.
           te_cloud self = Some c \<and> states ''rho_thermal'' = Some rho_thermal
         \<and> ts ''zz'' = Some zz \<and> self_g_dim self = Some g \<and> g < length (self_h self)
         \<and> g < length div_terms
         \<and> f_r = source_by_radiation c q_l rho_thermal zz (self_h self ! g) g
                   (replicate 3 (params_halo_width (self_params self))) replica_id replicas
         \<and> length dv = length div_terms
         \<and> (\<forall>i < length div_terms. i \<noteq> g \<longrightarrow> dv ! i = div_terms ! i)
         \<and> length (dv ! g) = length (div_terms ! g)
         \<and> length rho = length (div_terms ! g) \<and> length f_r = length (div_terms ! g)
         \<and> (\<forall>k < length (div_terms ! g).
               map length (dv ! g ! k) = map length (div_terms ! g ! k)
             \<and> map length (rho ! k) = map length (div_terms ! g ! k)
             \<and> map length (f_r ! k) = map length (div_terms ! g ! k)
             \<and> (\<forall>i < length (div_terms ! g ! k). \<forall>j < length (div_terms ! g ! k ! i).
                   dv ! g ! k ! i ! j
                     = div_terms ! g ! k ! i ! j - rho ! k ! i ! j * f_r ! k ! i ! j))"
proof -
  from assms obtain c rho_thermal zz g new where
    c: "te_cloud self = Some c" and rt: "states ''rho_thermal'' = Some rho_thermal"
    and zz: "ts ''zz'' = Some zz" and g: "self_g_dim self = Some g"
    and gh: "g < length (self_h self)" and gd: "g < length div_terms"
    and new: "map_structure3
                (\<lambda>div_term_i rho_i f_r_i.
                   bindE (tf_mul rho_i f_r_i) (\<lambda>rf. tf_sub div_term_i rf))
                (div_terms ! g) rho
                (source_by_radiation c q_l rho_thermal zz (self_h self ! g) g
                   (replicate 3 (params_halo_width (self_params self))) replica_id replicas)
              = Inr new"
    and dv: "dv = div_terms[g := new]"
    by (auto simp: te_radiation_def Let_def bindE_eq_Inr attr_Inr lookup_eq_Inr index_g_Inr)
  define f_r where "f_r = source_by_radiation c q_l rho_thermal zz (self_h self ! g) g
                   (replicate 3 (params_halo_width (self_params self))) replica_id replicas"
  let ?d = "div_terms ! g"
  from new have l1: "length ?d = length rho" and l2: "length rho = length f_r"
    and l3: "length new = length ?d"
    and each: "\<forall>k < length ?d.
        bindE (tf_mul (rho ! k) (f_r ! k)) (\<lambda>rf. tf_sub (?d ! k) rf) = Inr (new ! k)"
    unfolding f_r_def [symmetric] by (simp_all add: map_structure3_Inr)
  from dv gd have dg: "dv ! g = new" by simp
  have pt: "\<forall>k < length ?d.
               map length (dv ! g ! k) = map length (?d ! k)
             \<and> map length (rho ! k) = map length (?d ! k)
             \<and> map length (f_r ! k) = map length (?d ! k)
             \<and> (\<forall>i < length (?d ! k). \<forall>j < length (?d ! k ! i).
                   dv ! g ! k ! i ! j = ?d ! k ! i ! j - rho ! k ! i ! j * f_r ! k ! i ! j)"
  proof (intro allI impI)
    fix k assume "k < length ?d"
    with each obtain rf where m: "tf_bin (\<lambda>x y. x * y) (rho ! k) (f_r ! k) = Inr rf"
      and s: "tf_bin (\<lambda>x y. x - y) (?d ! k) rf = Inr (new ! k)"
      by (auto simp: bindE_eq_Inr tf_mul_def tf_sub_def)
    from m have s1: "map length (rho ! k) = map length (f_r ! k)" by (simp add: tf_bin_Inr)
    from m have s2: "map length rf = map length (rho ! k)" by (rule tf_bin_shape)
    from s have s3: "map length (?d ! k) = map length rf" by (simp add: tf_bin_Inr)
    from s have s4: "map length (new ! k) = map length (?d ! k)" by (rule tf_bin_shape)
    have "\<forall>i < length (?d ! k). \<forall>j < length (?d ! k ! i).
            new ! k ! i ! j = ?d ! k ! i ! j - rho ! k ! i ! j * f_r ! k ! i ! j"
    proof (intro allI impI)
      fix i j assume i: "i < length (?d ! k)" and j: "j < length (?d ! k ! i)"
      from s3 s2 have e: "map length (rho ! k) = map length (?d ! k)" by simp
      then have "length (rho ! k) = length (?d ! k)" by (rule map_eq_imp_length_eq)
      moreover from e i this have "length (rho ! k ! i) = length (?d ! k ! i)"
        by (metis nth_map)
      ultimately have "rf ! i ! j = rho ! k ! i ! j * f_r ! k ! i ! j"
        using tf_bin_nth [OF m] i j by simp
      with tf_bin_nth [OF s i j]
      show "new ! k ! i ! j = ?d ! k ! i ! j - rho ! k ! i ! j * f_r ! k ! i ! j" by simp
    qed
    with s1 s2 s3 s4 dg
    show "map length (dv ! g ! k) = map length (?d ! k)
             \<and> map length (rho ! k) = map length (?d ! k)
             \<and> map length (f_r ! k) = map length (?d ! k)
             \<and> (\<forall>i < length (?d ! k). \<forall>j < length (?d ! k ! i).
                   dv ! g ! k ! i ! j = ?d ! k ! i ! j - rho ! k ! i ! j * f_r ! k ! i ! j)"
      by simp
  qed
  from dv have "length dv = length div_terms"
    and "\<forall>i < length div_terms. i \<noteq> g \<longrightarrow> dv ! i = div_terms ! i"
    by simp_all
  with c rt zz g gh gd dg l1 l2 l3 pt show ?thesis
    unfolding f_r_def by auto
qed

lemma tf_map_shape [simp]: "map length (tf_map f t) = map length t"
  by (simp add: tf_map_def)

lemma tf_map_nth: "i < length t \<Longrightarrow> j < length (t ! i) \<Longrightarrow> tf_map f t ! i ! j = f (t ! i ! j)"
  by (simp add: tf_map_def)

lemma row_length: "map length a = map length b \<Longrightarrow> i < length a \<Longrightarrow> length (a ! i) = length (b ! i)"
  by (metis map_eq_imp_length_eq nth_map)

lemma shape_slices:
  "map (map length) a = map (map length) b \<longleftrightarrow>
     length a = length b \<and> (\<forall>k < length a. map length (a ! k) = map length (b ! k))"
  by (auto simp: list_eq_iff_nth_eq)

lemma map_structure2_bin:
  assumes "map_structure2 (tf_bin f) a b = Inr c"
  shows "map (map length) c = map (map length) a"
    and "map (map length) b = map (map length) a"
    and "\<And>k i j. k < length a \<Longrightarrow> i < length (a ! k) \<Longrightarrow> j < length (a ! k ! i)
           \<Longrightarrow> c ! k ! i ! j = f (a ! k ! i ! j) (b ! k ! i ! j)"
proof -
  from assms have l: "length a = length b" "length c = length a"
    and each: "\<And>k. k < length a \<Longrightarrow> tf_bin f (a ! k) (b ! k) = Inr (c ! k)"
    by (simp_all add: map_structure2_Inr)
  have sh: "\<And>k. k < length a \<Longrightarrow> map length (c ! k) = map length (a ! k)"
    using tf_bin_shape [OF each] .
  show "map (map length) c = map (map length) a"
    unfolding shape_slices using l sh by simp
  show "map (map length) b = map (map length) a"
    unfolding shape_slices using l each by (auto simp: tf_bin_Inr)
  fix k i j assume "k < length a" and "i < length (a ! k)" and "j < length (a ! k ! i)"
  then show "c ! k ! i ! j = f (a ! k ! i ! j) (b ! k ! i ! j)"
    using tf_bin_nth [OF each] by blast
qed

lemma pt_radiation_Inr:
  assumes "pt_radiation self w replica_id replicas states ts = Inr s"
  shows "\<exists>c q_l q_i q_t rho_thermal zz temperature g rho f_r rad_src grad cpm ex.
           pt_cloud self = Some c \<and> ts ''q_l'' = Some q_l \<and> ts ''q_i'' = Some q_i
         \<and> states ''q_t'' = Some q_t \<and> states ''rho_thermal'' = Some rho_thermal
         \<and> ts ''zz'' = Some zz \<and> ts ''T'' = Some temperature
         \<and> self_g_dim self = Some g \<and> g < length (self_h self) \<and> g < 3
         \<and> states KEY_RHO = Some rho
         \<and> f_r = source_by_radiation c q_l rho_thermal zz (self_h self ! g) g
                   (replicate 3 (params_halo_width (self_params self))) replica_id replicas
         \<and> map (map length) rad_src = map (map length) rho
         \<and> map (map length) f_r = map (map length) rho
         \<and> (\<forall>k < length rho. \<forall>i < length (rho ! k). \<forall>j < length (rho ! k ! i).
               rad_src ! k ! i ! j = - rho ! k ! i ! j * f_r ! k ! i ! j)
         \<and> grad = (grad_central self ! g) rad_src
         \<and> cpm = cp_m w q_t q_l q_i
         \<and> ex = exner_inverse w rho_thermal q_t temperature zz
         \<and> map (map length) s = map (map length) grad
         \<and> map (map length) cpm = map (map length) grad
         \<and> map (map length) ex = map (map length) grad
         \<and> (\<forall>k < length grad. \<forall>i < length (grad ! k). \<forall>j < length (grad ! k ! i).
               s ! k ! i ! j
                 = (1 / cpm ! k ! i ! j * ex ! k ! i ! j)
                   * (grad ! k ! i ! j / (2 * (self_h self ! g))))"
proof -
  from assms obtain c q_l q_i q_t rho_thermal zz temperature g rho rad_src cpe where
    c: "pt_cloud self = Some c" and ql: "ts ''q_l'' = Some q_l" and qi: "ts ''q_i'' = Some q_i"
    and qt: "states ''q_t'' = Some q_t" and rt: "states ''rho_thermal'' = Some rho_thermal"
    and zz: "ts ''zz'' = Some zz" and T: "ts ''T'' = Some temperature"
    and g: "self_g_dim self = Some g" and gh: "g < length (self_h self)"
    and gg: "g < length (grad_central self)"
    and rho: "states KEY_RHO = Some rho"
    and rs: "map_structure2 (\<lambda>rho f_r. tf_mul (tf_neg rho) f_r) rho
               (source_by_radiation c q_l rho_thermal zz (self_h self ! g) g
                  (replicate 3 (params_halo_width (self_params self))) replica_id replicas)
             = Inr rad_src"
    and ce: "map_structure2 tf_mul (map (tf_map (\<lambda>x. 1 / x)) (cp_m w q_t q_l q_i))
               (exner_inverse w rho_thermal q_t temperature zz) = Inr cpe"
    and fin: "map_structure2 tf_mul cpe
                (map (\<lambda>f. tf_map (\<lambda>x. x / (2 * (self_h self ! g))) f)
                   ((grad_central self ! g) rad_src)) = Inr s"
    by (auto simp: pt_radiation_def Let_def bindE_eq_Inr attr_Inr lookup_eq_Inr index_g_Inr)
  define f_r where "f_r = source_by_radiation c q_l rho_thermal zz (self_h self ! g) g
                  (replicate 3 (params_halo_width (self_params self))) replica_id replicas"
  define grad where "grad = (grad_central self ! g) rad_src"
  define cpm where "cpm = cp_m w q_t q_l q_i"
  define ex where "ex = exner_inverse w rho_thermal q_t temperature zz"
  define cinv where "cinv = map (tf_map (\<lambda>x. 1 / x)) cpm"
  define src where "src = map (\<lambda>f. tf_map (\<lambda>x. x / (2 * (self_h self ! g))) f) grad"
  from gg have g3: "g < 3" by (simp add: grad_central_def)
  \<comment> \<open>the radiative source\<close>
  from rs have rl: "length rho = length f_r" "length rad_src = length rho"
    and re: "\<And>k. k < length rho \<Longrightarrow>
               tf_bin (\<lambda>x y. x * y) (tf_neg (rho ! k)) (f_r ! k) = Inr (rad_src ! k)"
    unfolding f_r_def [symmetric] by (simp_all add: map_structure2_Inr tf_mul_def)
  have rsh: "map (map length) rad_src = map (map length) rho"
    unfolding shape_slices using rl tf_bin_shape [OF re] by (simp add: tf_neg_def)
  have fsh: "map (map length) f_r = map (map length) rho"
    unfolding shape_slices using rl re by (auto simp: tf_bin_Inr tf_neg_def)
  have rpt: "\<forall>k < length rho. \<forall>i < length (rho ! k). \<forall>j < length (rho ! k ! i).
               rad_src ! k ! i ! j = - rho ! k ! i ! j * f_r ! k ! i ! j"
  proof (intro allI impI)
    fix k i j assume k: "k < length rho" and i: "i < length (rho ! k)"
      and j: "j < length (rho ! k ! i)"
    then have "i < length (tf_neg (rho ! k))" and "j < length (tf_neg (rho ! k) ! i)"
      by (simp_all add: tf_neg_def tf_map_def)
    from tf_bin_nth [OF re [OF k] this] i j
    show "rad_src ! k ! i ! j = - rho ! k ! i ! j * f_r ! k ! i ! j"
      by (simp add: tf_neg_def tf_map_nth)
  qed
  \<comment> \<open>the scaling\<close>
  from ce have ce': "map_structure2 (tf_bin (\<lambda>x y. x * y)) cinv ex = Inr cpe"
    by (simp add: cinv_def cpm_def ex_def tf_mul_def)
  from fin have fin': "map_structure2 (tf_bin (\<lambda>x y. x * y)) cpe src = Inr s"
    by (simp add: src_def grad_def tf_mul_def)
  have cish: "map (map length) cinv = map (map length) cpm"
    by (simp add: cinv_def)
  have srsh: "map (map length) src = map (map length) grad"
    by (simp add: src_def)
  from map_structure2_bin(1,2) [OF ce'] have s1: "map (map length) cpe = map (map length) cinv"
    and s2: "map (map length) ex = map (map length) cinv" .
  from map_structure2_bin(1,2) [OF fin'] have s3: "map (map length) s = map (map length) cpe"
    and s4: "map (map length) src = map (map length) cpe" .
  from s1 s2 s3 s4 cish srsh have sh: "map (map length) s = map (map length) grad"
    "map (map length) cpm = map (map length) grad" "map (map length) ex = map (map length) grad"
    "map (map length) cpe = map (map length) grad" "map (map length) cinv = map (map length) grad"
    by simp_all
  have spt: "\<forall>k < length grad. \<forall>i < length (grad ! k). \<forall>j < length (grad ! k ! i).
               s ! k ! i ! j
                 = (1 / cpm ! k ! i ! j * ex ! k ! i ! j)
                   * (grad ! k ! i ! j / (2 * (self_h self ! g)))"
  proof (intro allI impI)
    fix k i j assume k: "k < length grad" and i: "i < length (grad ! k)"
      and j: "j < length (grad ! k ! i)"
    have in_range: "k < length x \<and> i < length (x ! k) \<and> j < length (x ! k ! i)"
      if "map (map length) x = map (map length) grad" for x :: field
    proof -
      from that have "length x = length grad"
        and "\<forall>k < length x. map length (x ! k) = map length (grad ! k)"
        by (simp_all add: shape_slices)
      with k have a: "k < length x" and b: "map length (x ! k) = map length (grad ! k)"
        by simp_all
      from b have "length (x ! k) = length (grad ! k)" by (rule map_eq_imp_length_eq)
      with i have c: "i < length (x ! k)" by simp
      from row_length [OF b c] j have "j < length (x ! k ! i)" by simp
      with a c show ?thesis by simp
    qed
    from in_range [OF sh(4)] map_structure2_bin(3) [OF fin']
    have "s ! k ! i ! j = cpe ! k ! i ! j * src ! k ! i ! j" by blast
    moreover from in_range [OF sh(5)] map_structure2_bin(3) [OF ce']
    have "cpe ! k ! i ! j = cinv ! k ! i ! j * ex ! k ! i ! j" by blast
    moreover from in_range [OF sh(2)] have "cinv ! k ! i ! j = 1 / cpm ! k ! i ! j"
      by (simp add: cinv_def tf_map_nth)
    moreover from k i j have "src ! k ! i ! j = grad ! k ! i ! j / (2 * (self_h self ! g))"
      by (simp add: src_def tf_map_nth)
    ultimately show "s ! k ! i ! j
                 = (1 / cpm ! k ! i ! j * ex ! k ! i ! j)
                   * (grad ! k ! i ! j / (2 * (self_h self ! g)))"
      by simp
  qed
  from c ql qi qt rt zz T g gh g3 rho rsh fsh rpt sh(1,2,3) spt show ?thesis
    unfolding f_r_def grad_def cpm_def ex_def by blast
qed

lemma te_source_fn_plain:
  assumes run: "te_source_fn env self replica_id replicas phi states additional_states = Inr s"
    and flags: "\<not> te_include_subsidence self" "\<not> te_include_precipitation self"
  shows "\<exists>w rho ts mu rho_u_tau q_l div_terms.
           model (self_thermodynamics self) = Water w
         \<and> states KEY_RHO = Some rho
         \<and> te_get_thermodynamic_variables self phi states additional_states = Inr ts
         \<and> te_mu self rho additional_states = Inr mu
         \<and> te_rho_u_tau env self states mu = Inr rho_u_tau
         \<and> (if te_include_radiation self
             then te_radiation self replica_id replicas q_l states ts rho rho_u_tau
             else Inr rho_u_tau) = Inr div_terms
         \<and> s = divergence env (self_kernel_op self) div_terms (self_h self)"
proof -
  from run obtain w where w: "model (self_thermodynamics self) = Water w"
    by (auto simp: te_source_fn_def split: thermodynamics_model.splits)
  from run w flags obtain rho ts mu rho_u_tau q_l div_terms where
    "states KEY_RHO = Some rho"
    "te_get_thermodynamic_variables self phi states additional_states = Inr ts"
    "te_mu self rho additional_states = Inr mu"
    "te_rho_u_tau env self states mu = Inr rho_u_tau"
    "(if te_include_radiation self
      then te_radiation self replica_id replicas q_l states ts rho rho_u_tau
      else Inr rho_u_tau) = Inr div_terms"
    "s = divergence env (self_kernel_op self) div_terms (self_h self)"
    by (cases "te_include_radiation self")
       (auto simp: te_source_fn_def Let_def bindE_eq_Inr lookup_eq_Inr)
  with w show ?thesis by blast
qed

lemma TotalEnergy_init_Inr:
  assumes "TotalEnergy_init env k p n th = Inr te"
  shows "\<exists>sp w. find (\<lambda>s. proto_name s = n) (scalars p) = Some sp
         \<and> n = ''e_t'' \<and> model th = Water w
         \<and> self_kernel_op te = k \<and> self_params te = p \<and> self_scalar_name te = n
         \<and> self_thermodynamics te = th \<and> self_scalar_params te = sp
         \<and> self_h te = [params_dx p, params_dy p, params_dz p] \<and> self_g_dim te = g_dim p
         \<and> te_include_radiation te
             = (case total_energy sp of None \<Rightarrow> False
                | Some m \<Rightarrow> te_proto_include_radiation m \<and> g_dim p \<noteq> None)
         \<and> te_include_subsidence te
             = (case total_energy sp of None \<Rightarrow> False
                | Some m \<Rightarrow> te_proto_include_subsidence m \<and> g_dim p \<noteq> None)
         \<and> te_include_precipitation te
             = (case total_energy sp of None \<Rightarrow> False
                | Some m \<Rightarrow> te_proto_include_precipitation m \<and> g_dim p \<noteq> None)
         \<and> te_cloud te = Some (Cloud env w)
         \<and> te_microphysics te = Some (MicrophysicsKW1978 env [ParamsArg p, ModelArg w])"
proof -
  from assms obtain b where b: "ScalarGeneric_init k p n th = Inr b"
    by (auto simp: TotalEnergy_init_def bindE_eq_Inr)
  note f = ScalarGeneric_init_Inr [OF b]
  from assms b have n: "n = ''e_t''"
    by (auto simp: TotalEnergy_init_def TOTAL_ENERGY_VARNAME_def split: if_splits)
  from assms b n obtain w where w: "model (self_thermodynamics b) = Water w"
    by (cases "model (self_thermodynamics b)")
       (auto simp: TotalEnergy_init_def TOTAL_ENERGY_VARNAME_def Let_def)
  from assms b n w have te: "te =
      \<lparr>self_kernel_op = self_kernel_op b, self_params = self_params b,
        self_scalar_name = self_scalar_name b,
        self_thermodynamics = self_thermodynamics b,
        self_scalar_params = self_scalar_params b,
        self_h = self_h b, self_g_dim = self_g_dim b,
        te_include_radiation =
          (case total_energy (self_scalar_params b) of
             None \<Rightarrow> False
           | Some m \<Rightarrow> te_proto_include_radiation m \<and> self_g_dim b \<noteq> None),
        te_include_subsidence =
          (case total_energy (self_scalar_params b) of
             None \<Rightarrow> False
           | Some m \<Rightarrow> te_proto_include_subsidence m \<and> self_g_dim b \<noteq> None),
        te_include_precipitation =
          (case total_energy (self_scalar_params b) of
             None \<Rightarrow> False
           | Some m \<Rightarrow> te_proto_include_precipitation m \<and> self_g_dim b \<noteq> None),
        te_cloud = Some (Cloud env w),
        te_microphysics = Some (MicrophysicsKW1978 env [ParamsArg p, ModelArg w])\<rparr>"
    by (simp add: TotalEnergy_init_def TOTAL_ENERGY_VARNAME_def Let_def)
  from f n w show ?thesis unfolding te by (simp split: option.splits)
qed

lemma PotentialTemperature_init_Inr:
  assumes "PotentialTemperature_init env k p n th = Inr pt"
  shows "\<exists>sp. find (\<lambda>s. proto_name s = n) (scalars p) = Some sp
         \<and> n \<in> {''theta'', ''theta_li''}
         \<and> self_kernel_op pt = k \<and> self_params pt = p \<and> self_scalar_name pt = n
         \<and> self_thermodynamics pt = th \<and> self_scalar_params pt = sp
         \<and> self_h pt = [params_dx p, params_dy p, params_dz p] \<and> self_g_dim pt = g_dim p
         \<and> pt_include_radiation pt
             = (case potential_temperature sp of None \<Rightarrow> False
                | Some m \<Rightarrow> pt_proto_include_radiation m \<and> g_dim p \<noteq> None)
         \<and> pt_include_subsidence pt
             = (case potential_temperature sp of None \<Rightarrow> False
                | Some m \<Rightarrow> pt_proto_include_subsidence m \<and> g_dim p \<noteq> None)
         \<and> pt_cloud pt = (case model th of Water w \<Rightarrow> Some (Cloud env w) | NotWater \<Rightarrow> None)"
proof -
  from assms obtain b where b: "ScalarGeneric_init k p n th = Inr b"
    by (auto simp: PotentialTemperature_init_def bindE_eq_Inr)
  note f = ScalarGeneric_init_Inr [OF b]
  from assms b have n: "n \<in> {''theta'', ''theta_li''}"
    by (auto simp: PotentialTemperature_init_def POTENTIAL_TEMPERATURE_VARNAME_def
        split: if_splits)
  from assms b n have pt: "pt =
      \<lparr>self_kernel_op = self_kernel_op b, self_params = self_params b,
        self_scalar_name = self_scalar_name b,
        self_thermodynamics = self_thermodynamics b,
        self_scalar_params = self_scalar_params b,
        self_h = self_h b, self_g_dim = self_g_dim b,
        pt_microphysics =
          (case model (self_thermodynamics b) of
             Water w \<Rightarrow> Some (MicrophysicsKW1978 env [ModelArg w]) | NotWater \<Rightarrow> None),
        pt_cloud =
          (case model (self_thermodynamics b) of
             Water w \<Rightarrow> Some (Cloud env w) | NotWater \<Rightarrow> None),
        pt_include_radiation =
          (case potential_temperature (self_scalar_params b) of
             None \<Rightarrow> False
           | Some m \<Rightarrow> pt_proto_include_radiation m \<and> self_g_dim b \<noteq> None),
        pt_include_subsidence =
          (case potential_temperature (self_scalar_params b) of
             None \<Rightarrow> False
           | Some m \<Rightarrow> pt_proto_include_subsidence m \<and> self_g_dim b \<noteq> None)\<rparr>"
    by (cases "model (self_thermodynamics b)")
       (auto simp: PotentialTemperature_init_def POTENTIAL_TEMPERATURE_VARNAME_def Let_def)
  from f n show ?thesis unfolding pt by (simp split: option.splits)
qed

text \<open>
  Claim C9. Each flag of a constructed object holds exactly when the configuration message
  is present with the flag set and a gravity axis is configured. Without a gravity axis
  the total energy source is the divergence of the unmodified \<open>rho_u_tau\<close> and the
  potential temperature source is the zero field, whatever the configured flags, and no
  error comes from the missing axis.
\<close>
theorem optional_terms_need_gravity_axis:
  "(TotalEnergy_init env k p n th = Inr te \<longrightarrow>
      te_include_radiation te
        = ((\<exists>m. total_energy (self_scalar_params te) = Some m \<and> te_proto_include_radiation m)
           \<and> g_dim p \<noteq> None)
    \<and> te_include_subsidence te
        = ((\<exists>m. total_energy (self_scalar_params te) = Some m \<and> te_proto_include_subsidence m)
           \<and> g_dim p \<noteq> None)
    \<and> te_include_precipitation te
        = ((\<exists>m. total_energy (self_scalar_params te) = Some m
                 \<and> te_proto_include_precipitation m)
           \<and> g_dim p \<noteq> None))
   \<and> (PotentialTemperature_init env k p n' th = Inr pt \<longrightarrow>
      pt_include_radiation pt
        = ((\<exists>m. potential_temperature (self_scalar_params pt) = Some m
                 \<and> pt_proto_include_radiation m)
           \<and> g_dim p \<noteq> None)
    \<and> pt_include_subsidence pt
        = ((\<exists>m. potential_temperature (self_scalar_params pt) = Some m
                 \<and> pt_proto_include_subsidence m)
           \<and> g_dim p \<noteq> None))
   \<and> (g_dim p = None \<and> TotalEnergy_init env k p n th = Inr te
        \<and> te_source_fn env te replica_id replicas phi states additional_states = Inr s \<longrightarrow>
      (\<exists>rho mu rho_u_tau.
          states KEY_RHO = Some rho \<and> te_mu te rho additional_states = Inr mu
        \<and> te_rho_u_tau env te states mu = Inr rho_u_tau
        \<and> s = divergence env k rho_u_tau (self_h te)))
   \<and> (g_dim p = None \<and> PotentialTemperature_init env k p n' th = Inr pt
        \<and> pt_source_fn env pt replica_id replicas phi' states' additional_states' = Inr s' \<longrightarrow>
      s' = map tf_zeros_like phi')"
proof -
  have A: "te_include_radiation te
        = ((\<exists>m. total_energy (self_scalar_params te) = Some m \<and> te_proto_include_radiation m)
           \<and> g_dim p \<noteq> None)
    \<and> te_include_subsidence te
        = ((\<exists>m. total_energy (self_scalar_params te) = Some m \<and> te_proto_include_subsidence m)
           \<and> g_dim p \<noteq> None)
    \<and> te_include_precipitation te
        = ((\<exists>m. total_energy (self_scalar_params te) = Some m
                 \<and> te_proto_include_precipitation m)
           \<and> g_dim p \<noteq> None)"
    if "TotalEnergy_init env k p n th = Inr te"
    using TotalEnergy_init_Inr [OF that] by (auto split: option.splits)
  have B: "pt_include_radiation pt
        = ((\<exists>m. potential_temperature (self_scalar_params pt) = Some m
                 \<and> pt_proto_include_radiation m)
           \<and> g_dim p \<noteq> None)
    \<and> pt_include_subsidence pt
        = ((\<exists>m. potential_temperature (self_scalar_params pt) = Some m
                 \<and> pt_proto_include_subsidence m)
           \<and> g_dim p \<noteq> None)"
    if "PotentialTemperature_init env k p n' th = Inr pt"
    using PotentialTemperature_init_Inr [OF that] by (auto split: option.splits)
  have C: "\<exists>rho mu rho_u_tau.
          states KEY_RHO = Some rho \<and> te_mu te rho additional_states = Inr mu
        \<and> te_rho_u_tau env te states mu = Inr rho_u_tau
        \<and> s = divergence env k rho_u_tau (self_h te)"
    if g: "g_dim p = None" and i: "TotalEnergy_init env k p n th = Inr te"
      and run: "te_source_fn env te replica_id replicas phi states additional_states = Inr s"
  proof -
    from A [OF i] g have fl: "\<not> te_include_radiation te"
      "\<not> te_include_subsidence te" "\<not> te_include_precipitation te"
      by simp_all
    from TotalEnergy_init_Inr [OF i] have k: "self_kernel_op te = k" by blast
    from te_source_fn_plain [OF run fl(2,3)] fl(1) k show ?thesis by auto
  qed
  have D: "s' = map tf_zeros_like phi'"
    if g: "g_dim p = None" and i: "PotentialTemperature_init env k p n' th = Inr pt"
      and run: "pt_source_fn env pt replica_id replicas phi' states' additional_states' = Inr s'"
  proof -
    from B [OF i] g have fl: "\<not> pt_include_radiation pt" "\<not> pt_include_subsidence pt"
      by simp_all
    with run show ?thesis
      by (cases "model (self_thermodynamics pt)")
         (auto simp: pt_source_fn_def Let_def bindE_eq_Inr)
  qed
  from A B C D show ?thesis by blast
qed

section \<open>The scalar source functions at the examples\<close>

lemmas ex_unfold =
  ex_kernel_op_def ex_water_def ex_thermodynamics_def ex_cloud_def
  ex_microphysics_def ex_env_def ex_scalars_def ex_swirl_params_def
  ex_swirl_params_no_gravity_def ex_flow_states_def ex_phi_def
  ex_te_def ex_te_no_gravity_def ex_pt_def ex_pt_theta_def ex_pt_no_gravity_def
  central_diff_def field_add_def

lemmas model_unfold =
  te_source_fn_def te_get_thermodynamic_variables_def te_mu_def te_rho_u_tau_def
  compute_rho_u_tau_def u_dot_tau_def te_radiation_def te_subsidence_def te_precipitation_def
  pt_source_fn_def pt_get_thermodynamic_variables_def pt_radiation_def pt_subsidence_def
  grad_central_def is_water_def zz_of_def
  map_structure2_def map_structure3_def map_structure4_def map_structure6_def
  tf_zeros_like_def tf_map_def tf_bin_def tf_add_def tf_sub_def tf_mul_def tf_neg_def smul_def
  lookup_def py_nth_def index_g_def attr_def KEY_U_def KEY_V_def KEY_W_def KEY_RHO_def Let_def

lemmas init_unfold =
  TotalEnergy_init_def PotentialTemperature_init_def ScalarGeneric_init_def
  TOTAL_ENERGY_VARNAME_def POTENTIAL_TEMPERATURE_VARNAME_def

lemma ex_te_init:
  "TotalEnergy_init ex_env ex_kernel_op ex_swirl_params ''e_t'' ex_thermodynamics = Inr ex_te"
  by (simp add: init_unfold ex_unfold)

lemma ex_te_no_gravity_init:
  "TotalEnergy_init ex_env ex_kernel_op ex_swirl_params_no_gravity ''e_t'' ex_thermodynamics
     = Inr ex_te_no_gravity"
  by (simp add: init_unfold ex_unfold)

lemma ex_pt_init:
  "PotentialTemperature_init ex_env ex_kernel_op ex_swirl_params ''theta_li'' ex_thermodynamics
     = Inr ex_pt"
  by (simp add: init_unfold ex_unfold)

lemma ex_pt_no_gravity_init:
  "PotentialTemperature_init ex_env ex_kernel_op ex_swirl_params_no_gravity ''theta_li''
     ex_thermodynamics = Inr ex_pt_no_gravity"
  by (simp add: init_unfold ex_unfold)

lemma ex_configured:
  "\<exists>s \<in> set (scalars ex_swirl_params). proto_name s = ''e_t''"
  "\<exists>s \<in> set (scalars ex_swirl_params). proto_name s = ''theta_li''"
  "\<exists>s \<in> set (scalars ex_swirl_params). proto_name s = ''Z''"
  by (simp_all add: ex_unfold)

text \<open>The theorem for claim C2 at the example configuration.\<close>

theorem total_energy_requires_water_witness:
  "model \<lparr>model = NotWater\<rparr> = NotWater
   \<and> (\<exists>s \<in> set (scalars ex_swirl_params). proto_name s = ''e_t'')
   \<and> TotalEnergy_init ex_env ex_kernel_op ex_swirl_params ''e_t'' \<lparr>model = NotWater\<rparr>
       = Inl ValueError
   \<and> model ex_thermodynamics = Water ex_water
   \<and> (\<exists>obj. TotalEnergy_init ex_env ex_kernel_op ex_swirl_params ''e_t'' ex_thermodynamics
               = Inr obj
            \<and> te_cloud obj = Some (Cloud ex_env ex_water))"
  using total_energy_requires_water
          [where thermodynamics = "\<lparr>model = NotWater\<rparr>" and scalar_name = "''e_t''"
             and params = ex_swirl_params and env = ex_env and kernel_op = ex_kernel_op]
        total_energy_requires_water
          [where thermodynamics = ex_thermodynamics and scalar_name = "''e_t''"
             and params = ex_swirl_params and env = ex_env and kernel_op = ex_kernel_op
             and w = ex_water]
        ex_configured(1)
  by (simp add: ex_thermodynamics_def)

lemma ex_pt_theta_runs:
  "pt_source_fn ex_env (ex_pt_theta\<lparr>pt_include_subsidence := True\<rparr>) 0 [[[0]]] ex_phi
     ex_flow_states Map.empty = Inr [[[- 14]], [[5]]]"
  by (simp add: model_unfold ex_unfold)

lemma ex_pt_runs:
  "pt_source_fn ex_env (ex_pt\<lparr>pt_include_subsidence := True\<rparr>) 0 [[[0]]] ex_phi
     ex_flow_states Map.empty = Inr [[[286]], [[315]]]"
  "pt_source_fn ex_env (ex_pt\<lparr>pt_include_subsidence := False\<rparr>) 0 [[[0]]] ex_phi
     ex_flow_states Map.empty = Inr [[[- 14]], [[5]]]"
  by (simp_all add: model_unfold ex_unfold)

text \<open>The theorem for claim C3 at the example objects for \<open>theta\<close> and \<open>theta_li\<close>.\<close>

theorem subsidence_only_for_theta_li_witness:
  "self_scalar_name ex_pt_theta \<noteq> ''theta_li''
   \<and> pt_source_fn ex_env (ex_pt_theta\<lparr>pt_include_subsidence := True\<rparr>) 0 [[[0]]] ex_phi
        ex_flow_states Map.empty
      = pt_source_fn ex_env (ex_pt_theta\<lparr>pt_include_subsidence := False\<rparr>) 0 [[[0]]] ex_phi
          ex_flow_states Map.empty
   \<and> pt_source_fn ex_env (ex_pt_theta\<lparr>pt_include_subsidence := True\<rparr>) 0 [[[0]]] ex_phi
        ex_flow_states Map.empty = Inr [[[- 14]], [[5]]]
   \<and> self_scalar_name ex_pt = ''theta_li''
   \<and> model (self_thermodynamics ex_pt) = Water ex_water
   \<and> pt_source_fn ex_env (ex_pt\<lparr>pt_include_subsidence := True\<rparr>) 0 [[[0]]] ex_phi
        ex_flow_states Map.empty = Inr [[[286]], [[315]]]
   \<and> pt_source_fn ex_env (ex_pt\<lparr>pt_include_subsidence := False\<rparr>) 0 [[[0]]] ex_phi
        ex_flow_states Map.empty = Inr [[[- 14]], [[5]]]
   \<and> source_by_subsidence_velocity ex_env (self_kernel_op ex_pt) [[[1]], [[2]]]
        (zz_of ex_phi Map.empty) (self_h ex_pt ! 2) ex_phi 2 = [[[300]], [[310]]]
   \<and> (286 :: real) = - 14 + 300 \<and> (315 :: real) = 5 + 310"
proof -
  have n1: "self_scalar_name ex_pt_theta \<noteq> ''theta_li''" by (simp add: ex_unfold)
  have n2: "self_scalar_name ex_pt = ''theta_li''" by (simp add: ex_unfold)
  have w: "model (self_thermodynamics ex_pt) = Water ex_water" by (simp add: ex_unfold)
  note thm1 = subsidence_only_for_theta_li
      [where self = ex_pt_theta and env = ex_env and replica_id = 0 and replicas = "[[[0]]]"
         and phi = ex_phi and states = ex_flow_states and additional_states = Map.empty]
  note thm2 = subsidence_only_for_theta_li
      [where self = ex_pt and env = ex_env and replica_id = 0 and replicas = "[[[0]]]"
         and phi = ex_phi and states = ex_flow_states and additional_states = Map.empty
         and w = ex_water and s = "[[[286]], [[315]]]"]
  from thm1 n1 have e1: "pt_source_fn ex_env (ex_pt_theta\<lparr>pt_include_subsidence := True\<rparr>) 0
        [[[0]]] ex_phi ex_flow_states Map.empty
      = pt_source_fn ex_env (ex_pt_theta\<lparr>pt_include_subsidence := False\<rparr>) 0 [[[0]]] ex_phi
          ex_flow_states Map.empty"
    by blast
  from thm2 n2 w ex_pt_runs(1) obtain s0 rho g src where
    s0: "pt_source_fn ex_env (ex_pt\<lparr>pt_include_subsidence := False\<rparr>) 0 [[[0]]] ex_phi
            ex_flow_states Map.empty = Inr s0"
    and rho: "ex_flow_states KEY_RHO = Some rho" and g: "self_g_dim ex_pt = Some g"
    and src: "src = source_by_subsidence_velocity ex_env (self_kernel_op ex_pt) rho
                  (zz_of ex_phi Map.empty) (self_h ex_pt ! g) ex_phi g"
    and pt: "\<forall>k < length s0. map length (src ! k) = map length (s0 ! k)
              \<and> map length ([[[286]], [[315 :: real]]] ! k) = map length (s0 ! k)
              \<and> (\<forall>i < length (s0 ! k). \<forall>j < length (s0 ! k ! i).
                    [[[286]], [[315]]] ! k ! i ! j = s0 ! k ! i ! j + src ! k ! i ! j)"
    by blast
  from s0 have s0': "s0 = [[[- 14]], [[5]]]" by (simp add: ex_pt_runs(2))
  from rho have rho': "rho = [[[1]], [[2]]]" by (simp add: ex_unfold KEY_RHO_def)
  from g have g': "g = 2" by (simp add: ex_unfold)
  from src have src': "src = [[[300]], [[310]]]"
    by (simp add: rho' g' ex_unfold)
  have l: "0 < length s0" "1 < length s0" "0 < length (s0 ! 0)" "0 < length (s0 ! 0 ! 0)"
    "0 < length (s0 ! 1)" "0 < length (s0 ! 1 ! 0)"
    by (simp_all add: s0')
  from pt l have "[[[286]], [[315 :: real]]] ! 0 ! 0 ! 0 = s0 ! 0 ! 0 ! 0 + src ! 0 ! 0 ! 0"
    and "[[[286]], [[315 :: real]]] ! 1 ! 0 ! 0 = s0 ! 1 ! 0 ! 0 + src ! 1 ! 0 ! 0"
    by blast+
  then have v: "(286 :: real) = - 14 + 300" "(315 :: real) = 5 + 310"
    by (simp_all add: s0' src')
  from src rho' g' src' have sv: "source_by_subsidence_velocity ex_env (self_kernel_op ex_pt)
        [[[1]], [[2]]] (zz_of ex_phi Map.empty) (self_h ex_pt ! 2) ex_phi 2 = [[[300]], [[310]]]"
    by simp
  from n1 e1 ex_pt_theta_runs n2 w ex_pt_runs sv v show ?thesis by blast
qed

lemma field_is_zero_zeros_like: "field_is_zero (map tf_zeros_like f)"
  by (simp add: field_is_zero_def tf_zeros_like_def list_all_iff)

lemma ex_no_gravity_runs:
  "te_source_fn ex_env ex_te_no_gravity 0 [[[0]]] ex_phi ex_flow_states Map.empty
     = Inr [[[4]], [[- 2]]]"
  "pt_source_fn ex_env ex_pt_no_gravity 0 [[[0]]] ex_phi ex_flow_states Map.empty
     = Inr [[[0]], [[0]]]"
  by (simp_all add: model_unfold ex_unfold)

text \<open>The theorem for claim C9 at the example configuration without a gravity axis.\<close>

theorem optional_terms_need_gravity_axis_witness:
  "g_dim ex_swirl_params_no_gravity = None
   \<and> TotalEnergy_init ex_env ex_kernel_op ex_swirl_params_no_gravity ''e_t'' ex_thermodynamics
       = Inr ex_te_no_gravity
   \<and> total_energy (self_scalar_params ex_te_no_gravity)
       = Some \<lparr>te_proto_include_radiation = True, te_proto_include_subsidence = True,
               te_proto_include_precipitation = True\<rparr>
   \<and> \<not> te_include_radiation ex_te_no_gravity
   \<and> \<not> te_include_subsidence ex_te_no_gravity
   \<and> \<not> te_include_precipitation ex_te_no_gravity
   \<and> te_source_fn ex_env ex_te_no_gravity 0 [[[0]]] ex_phi ex_flow_states Map.empty
       = Inr [[[4]], [[- 2]]]
   \<and> (\<exists>rho mu rho_u_tau.
         ex_flow_states KEY_RHO = Some rho
       \<and> te_mu ex_te_no_gravity rho Map.empty = Inr mu
       \<and> te_rho_u_tau ex_env ex_te_no_gravity ex_flow_states mu = Inr rho_u_tau
       \<and> [[[4]], [[- 2]]] = divergence ex_env ex_kernel_op rho_u_tau (self_h ex_te_no_gravity))
   \<and> PotentialTemperature_init ex_env ex_kernel_op ex_swirl_params_no_gravity ''theta_li''
        ex_thermodynamics = Inr ex_pt_no_gravity
   \<and> potential_temperature (self_scalar_params ex_pt_no_gravity)
       = Some \<lparr>pt_proto_include_radiation = True, pt_proto_include_subsidence = True\<rparr>
   \<and> \<not> pt_include_radiation ex_pt_no_gravity
   \<and> \<not> pt_include_subsidence ex_pt_no_gravity
   \<and> pt_source_fn ex_env ex_pt_no_gravity 0 [[[0]]] ex_phi ex_flow_states Map.empty
       = Inr [[[0]], [[0]]]
   \<and> [[[0]], [[0]]] = map tf_zeros_like ex_phi"
proof -
  have g: "g_dim ex_swirl_params_no_gravity = None" by (simp add: ex_unfold)
  have c1: "total_energy (self_scalar_params ex_te_no_gravity)
       = Some \<lparr>te_proto_include_radiation = True, te_proto_include_subsidence = True,
               te_proto_include_precipitation = True\<rparr>"
    by (simp add: ex_unfold)
  have c2: "potential_temperature (self_scalar_params ex_pt_no_gravity)
       = Some \<lparr>pt_proto_include_radiation = True, pt_proto_include_subsidence = True\<rparr>"
    by (simp add: ex_unfold)
  note inst = optional_terms_need_gravity_axis
      [where env = ex_env and k = ex_kernel_op and p = ex_swirl_params_no_gravity
         and n = "''e_t''" and th = ex_thermodynamics and te = ex_te_no_gravity
         and n' = "''theta_li''" and pt = ex_pt_no_gravity and replica_id = 0
         and replicas = "[[[0]]]" and phi = ex_phi and states = ex_flow_states
         and additional_states = Map.empty and s = "[[[4]], [[- 2]]]"
         and phi' = ex_phi and states' = ex_flow_states and additional_states' = Map.empty
         and s' = "[[[0]], [[0]]]"]
  from inst ex_te_no_gravity_init g have f1: "\<not> te_include_radiation ex_te_no_gravity"
    "\<not> te_include_subsidence ex_te_no_gravity" "\<not> te_include_precipitation ex_te_no_gravity"
    by simp_all
  from inst ex_pt_no_gravity_init g have f2: "\<not> pt_include_radiation ex_pt_no_gravity"
    "\<not> pt_include_subsidence ex_pt_no_gravity"
    by simp_all
  from inst ex_te_no_gravity_init g ex_no_gravity_runs(1) have f3: "\<exists>rho mu rho_u_tau.
         ex_flow_states KEY_RHO = Some rho
       \<and> te_mu ex_te_no_gravity rho Map.empty = Inr mu
       \<and> te_rho_u_tau ex_env ex_te_no_gravity ex_flow_states mu = Inr rho_u_tau
       \<and> [[[4]], [[- 2]]] = divergence ex_env ex_kernel_op rho_u_tau (self_h ex_te_no_gravity)"
    by blast
  from inst ex_pt_no_gravity_init g ex_no_gravity_runs(2)
  have f4: "[[[0]], [[0]]] = map tf_zeros_like ex_phi"
    by blast
  from g ex_te_no_gravity_init c1 f1 ex_no_gravity_runs f3 ex_pt_no_gravity_init c2 f2 f4
  show ?thesis by blast
qed

section \<open>Zero fields\<close>

lemma tensor_zero_nth:
  "list_all (list_all (\<lambda>x. x = 0)) t \<longleftrightarrow> (\<forall>i < length t. \<forall>j < length (t ! i). t ! i ! j = (0::real))"
  by (simp add: list_all_length)

lemma tf_zeros_like_shape [simp]: "map length (tf_zeros_like t) = map length t"
  by (simp add: tf_zeros_like_def)

lemma tf_zeros_like_nth:
  "i < length t \<Longrightarrow> j < length (t ! i) \<Longrightarrow> tf_zeros_like t ! i ! j = 0"
  by (simp add: tf_zeros_like_def)

lemma tensor_zero_eq:
  assumes "list_all (list_all (\<lambda>x. x = 0)) c" and "map length c = map length t"
  shows "c = tf_zeros_like t"
proof (rule tensor_eqI)
  show "map length c = map length (tf_zeros_like t)" using assms(2) by simp
  fix i j assume i: "i < length (tf_zeros_like t)" and j: "j < length (tf_zeros_like t ! i)"
  then have i': "i < length t" and j': "j < length (t ! i)"
    by (simp_all add: tf_zeros_like_def)
  from assms(2) have "length c = length t" by (rule map_eq_imp_length_eq)
  with i' have ic: "i < length c" by simp
  from row_length [OF assms(2) ic] j' have jc: "j < length (c ! i)" by simp
  from assms(1) ic jc have "c ! i ! j = 0" by (simp add: tensor_zero_nth)
  with i' j' show "c ! i ! j = tf_zeros_like t ! i ! j" by (simp add: tf_zeros_like_nth)
qed

lemma tensor_zero_zeros_like: "list_all (list_all (\<lambda>x. x = 0)) (tf_zeros_like t)"
  by (simp add: tf_zeros_like_def list_all_iff)

lemma tf_bin_zero_right:
  assumes "tf_bin f a b = Inr c" and "list_all (list_all (\<lambda>x. x = 0)) b"
    and "\<And>x. f x 0 = 0"
  shows "list_all (list_all (\<lambda>x. x = 0)) c"
  unfolding tensor_zero_nth
proof (intro allI impI)
  fix i j assume i: "i < length c" and j: "j < length (c ! i)"
  from tf_bin_shape [OF assms(1)] have sh: "map length c = map length a" .
  then have "length c = length a" by (rule map_eq_imp_length_eq)
  with i have ia: "i < length a" by simp
  from row_length [OF sh i] j have ja: "j < length (a ! i)" by simp
  from assms(1) have sb: "map length a = map length b" by (simp add: tf_bin_Inr)
  then have "length a = length b" by (rule map_eq_imp_length_eq)
  with ia have ib: "i < length b" by simp
  from row_length [OF sb ia] ja have jb: "j < length (b ! i)" by simp
  from assms(2) ib jb have "b ! i ! j = 0" by (simp add: tensor_zero_nth)
  with tf_bin_nth [OF assms(1) ia ja] assms(3) show "c ! i ! j = 0" by simp
qed

lemma tf_bin_zero_left:
  assumes "tf_bin f a b = Inr c" and "list_all (list_all (\<lambda>x. x = 0)) a"
    and "\<And>y. f 0 y = 0"
  shows "list_all (list_all (\<lambda>x. x = 0)) c"
  unfolding tensor_zero_nth
proof (intro allI impI)
  fix i j assume i: "i < length c" and j: "j < length (c ! i)"
  from tf_bin_shape [OF assms(1)] have sh: "map length c = map length a" .
  then have "length c = length a" by (rule map_eq_imp_length_eq)
  with i have ia: "i < length a" by simp
  from row_length [OF sh i] j have ja: "j < length (a ! i)" by simp
  from assms(2) ia ja have "a ! i ! j = 0" by (simp add: tensor_zero_nth)
  with tf_bin_nth [OF assms(1) ia ja] assms(3) show "c ! i ! j = 0" by simp
qed

lemma tf_bin_id_right:
  assumes "tf_bin f a b = Inr c" and "list_all (list_all (\<lambda>x. x = 0)) b"
    and "\<And>x. f x 0 = x"
  shows "c = a"
proof (rule tf_bin_left_id [OF assms(1)])
  fix i j assume ia: "i < length a" and ja: "j < length (a ! i)"
  from assms(1) have sb: "map length a = map length b" by (simp add: tf_bin_Inr)
  then have "length a = length b" by (rule map_eq_imp_length_eq)
  with ia have ib: "i < length b" by simp
  from row_length [OF sb ia] ja have jb: "j < length (b ! i)" by simp
  from assms(2) ib jb have "b ! i ! j = 0" by (simp add: tensor_zero_nth)
  with assms(3) show "f (a ! i ! j) (b ! i ! j) = a ! i ! j" by simp
qed

lemma field_is_zero_slices:
  "field_is_zero f \<longleftrightarrow> (\<forall>k < length f. list_all (list_all (\<lambda>x. x = 0)) (f ! k))"
  by (simp add: field_is_zero_def list_all_length)

lemma field_zero_eq:
  assumes "field_is_zero f" and "map (map length) f = map (map length) phi"
  shows "f = map tf_zeros_like phi"
proof (rule nth_equalityI)
  from assms(2) have l: "length f = length phi"
    and sl: "\<forall>k < length f. map length (f ! k) = map length (phi ! k)"
    by (simp_all add: shape_slices)
  from l show "length f = length (map tf_zeros_like phi)" by simp
  fix k assume k: "k < length f"
  with assms(1) have "list_all (list_all (\<lambda>x. x = 0)) (f ! k)"
    by (simp add: field_is_zero_slices)
  moreover from sl k have "map length (f ! k) = map length (phi ! k)" by simp
  ultimately have "f ! k = tf_zeros_like (phi ! k)" by (rule tensor_zero_eq)
  with k l show "f ! k = map tf_zeros_like phi ! k" by simp
qed

lemma zeros_like_shape [simp]:
  "map (map length) (map tf_zeros_like phi) = map (map length) phi"
  by (simp add: tf_zeros_like_def)

lemma u_dot_tau_zero:
  assumes "u_dot_tau (tf_zeros_like t) (tf_zeros_like t) (tf_zeros_like t) a b c = Inr r"
  shows "r = tf_zeros_like t"
proof -
  let ?z = "tf_zeros_like t"
  from assms obtain x y xy z' where
    x: "tf_bin (\<lambda>x y. x * y) ?z a = Inr x" and y: "tf_bin (\<lambda>x y. x * y) ?z b = Inr y"
    and xy: "tf_bin (\<lambda>x y. x + y) x y = Inr xy" and z: "tf_bin (\<lambda>x y. x * y) ?z c = Inr z'"
    and r: "tf_bin (\<lambda>x y. x + y) xy z' = Inr r"
    by (auto simp: u_dot_tau_def bindE_eq_Inr tf_mul_def tf_add_def)
  note zz = tensor_zero_zeros_like [of t]
  from tf_bin_zero_left [OF x zz] have zx: "list_all (list_all (\<lambda>x. x = 0)) x" by simp
  from tf_bin_zero_left [OF y zz] have zy: "list_all (list_all (\<lambda>x. x = 0)) y" by simp
  from tf_bin_zero_left [OF z zz] have zz': "list_all (list_all (\<lambda>x. x = 0)) z'" by simp
  from tf_bin_id_right [OF xy zy] have "xy = x" by simp
  moreover from tf_bin_id_right [OF r zz'] have "r = xy" by simp
  ultimately have "r = x" by simp
  moreover from tf_bin_shape [OF x] have "map length x = map length t" by simp
  ultimately show ?thesis using zx tensor_zero_eq by blast
qed

lemma compute_rho_u_tau_zero:
  assumes "compute_rho_u_tau states a b c = Inr r"
    and "states KEY_U = Some (map tf_zeros_like phi)"
    and "states KEY_V = Some (map tf_zeros_like phi)"
    and "states KEY_W = Some (map tf_zeros_like phi)"
  shows "r = map tf_zeros_like phi"
proof -
  let ?Z = "map tf_zeros_like phi"
  from assms have m: "map_structure6 u_dot_tau ?Z ?Z ?Z a b c = Inr r"
    by (simp add: compute_rho_u_tau_def lookup_def)
  then have l: "length r = length phi"
    and each: "\<forall>k < length phi.
      u_dot_tau (?Z ! k) (?Z ! k) (?Z ! k) (a ! k) (b ! k) (c ! k) = Inr (r ! k)"
    by (simp_all add: map_structure6_Inr)
  show ?thesis
  proof (rule nth_equalityI)
    from l show "length r = length ?Z" by simp
    fix k assume "k < length r"
    with l have k: "k < length phi" by simp
    with each have "u_dot_tau (tf_zeros_like (phi ! k)) (tf_zeros_like (phi ! k))
        (tf_zeros_like (phi ! k)) (a ! k) (b ! k) (c ! k) = Inr (r ! k)"
      by simp
    from u_dot_tau_zero [OF this] k show "r ! k = ?Z ! k" by simp
  qed
qed

lemma te_rho_u_tau_zero:
  assumes "te_rho_u_tau env self states mu = Inr rho_u_tau"
    and "states KEY_U = Some (map tf_zeros_like phi)"
    and "states KEY_V = Some (map tf_zeros_like phi)"
    and "states KEY_W = Some (map tf_zeros_like phi)"
  shows "rho_u_tau = [map tf_zeros_like phi, map tf_zeros_like phi, map tf_zeros_like phi]"
proof -
  from assms(1) obtain a0 b0 c0 a1 b1 c1 a2 b2 c2 r0 r1 r2 where
    "compute_rho_u_tau states a0 b0 c0 = Inr r0"
    "compute_rho_u_tau states a1 b1 c1 = Inr r1"
    "compute_rho_u_tau states a2 b2 c2 = Inr r2"
    "rho_u_tau = [r0, r1, r2]"
    by (auto simp: te_rho_u_tau_def Let_def bindE_eq_Inr)
  with compute_rho_u_tau_zero [OF _ assms(2,3,4)] show ?thesis by blast
qed

lemma shape_in_range:
  assumes "map (map length) x = map (map length) y"
    and "k < length y" and "i < length (y ! k)" and "j < length (y ! k ! i)"
  shows "k < length x \<and> i < length (x ! k) \<and> j < length (x ! k ! i)"
proof -
  from assms(1) have "length x = length y"
    and "\<forall>k < length x. map length (x ! k) = map length (y ! k)"
    by (simp_all add: shape_slices)
  with assms(2) have a: "k < length x" and b: "map length (x ! k) = map length (y ! k)"
    by simp_all
  from b have "length (x ! k) = length (y ! k)" by (rule map_eq_imp_length_eq)
  with assms(3) have c: "i < length (x ! k)" by simp
  from row_length [OF b c] assms(4) have "j < length (x ! k ! i)" by simp
  with a c show ?thesis by simp
qed

lemma field_zero_from_nth:
  assumes "\<And>k i j. k < length f \<Longrightarrow> i < length (f ! k) \<Longrightarrow> j < length (f ! k ! i)
             \<Longrightarrow> f ! k ! i ! j = 0"
  shows "field_is_zero f"
  using assms by (simp add: field_is_zero_def list_all_length)

lemma map_structure2_id_right:
  assumes "map_structure2 (tf_bin f) a b = Inr c" and "field_is_zero b"
    and "\<And>x. f x 0 = x"
  shows "c = a"
proof (rule nth_equalityI)
  from assms(1) have l: "length a = length b" "length c = length a"
    and each: "\<And>k. k < length a \<Longrightarrow> tf_bin f (a ! k) (b ! k) = Inr (c ! k)"
    by (simp_all add: map_structure2_Inr)
  from l show "length c = length a" by simp
  fix k assume "k < length c"
  with l have k: "k < length a" "k < length b" by simp_all
  from assms(2) k(2) have "list_all (list_all (\<lambda>x. x = 0)) (b ! k)"
    by (simp add: field_is_zero_slices)
  from tf_bin_id_right [OF each [OF k(1)] this assms(3)] show "c ! k = a ! k" .
qed

lemma conversion_source_zero:
  assumes "bindE (tf_add e pe) (\<lambda>a. bindE (tf_mul a rho) (\<lambda>b. tf_mul b c)) = Inr r"
    and "list_all (list_all (\<lambda>x. x = 0)) c"
  shows "list_all (list_all (\<lambda>x. x = 0)) r"
proof -
  from assms(1) obtain b where "tf_bin (\<lambda>x y. x * y) b c = Inr r"
    by (auto simp: bindE_eq_Inr tf_mul_def)
  from tf_bin_zero_right [OF this assms(2)] show ?thesis by simp
qed

lemma tf_neg_zero:
  "list_all (list_all (\<lambda>x. x = 0)) c \<Longrightarrow> list_all (list_all (\<lambda>x. x = 0)) (tf_neg c)"
  by (simp add: tf_neg_def tf_map_def list_all_iff)

section \<open>The name check of the potential temperature constructor\<close>

text \<open>
  Claim C6, as amended. For a name other than \<open>theta\<close> and \<open>theta_li\<close> the
  constructor of \<open>PotentialTemperature\<close> fails: with the assertion error when the name is
  among the configured scalars, and with the configuration error of the base class
  constructor, which runs first, when it is not. For the two names the constructor never
  fails with the assertion error, and returns an object when the name is configured.
\<close>
theorem potential_temperature_name_assertion:
  "(scalar_name \<notin> {''theta'', ''theta_li''}
        \<and> (\<exists>s \<in> set (scalars params). proto_name s = scalar_name) \<longrightarrow>
      PotentialTemperature_init env kernel_op params scalar_name thermodynamics
        = Inl AssertionError)
   \<and> (scalar_name \<notin> {''theta'', ''theta_li''}
        \<and> \<not> (\<exists>s \<in> set (scalars params). proto_name s = scalar_name) \<longrightarrow>
      PotentialTemperature_init env kernel_op params scalar_name thermodynamics
        = Inl ConfigurationError)
   \<and> (scalar_name \<in> {''theta'', ''theta_li''} \<longrightarrow>
      PotentialTemperature_init env kernel_op params scalar_name thermodynamics
        \<noteq> Inl AssertionError)
   \<and> (scalar_name \<in> {''theta'', ''theta_li''}
        \<and> (\<exists>s \<in> set (scalars params). proto_name s = scalar_name) \<longrightarrow>
      (\<exists>obj. PotentialTemperature_init env kernel_op params scalar_name thermodynamics
               = Inr obj))"
proof (cases "ScalarGeneric_init kernel_op params scalar_name thermodynamics")
  case (Inl e)
  then have e: "e = ConfigurationError" by (rule ScalarGeneric_init_Inl)
  from Inl have "\<not> (\<exists>s \<in> set (scalars params). proto_name s = scalar_name)"
    using ScalarGeneric_init_configured [of kernel_op params scalar_name thermodynamics] by simp
  with Inl e show ?thesis by (auto simp: PotentialTemperature_init_def)
next
  case (Inr b)
  then have "\<exists>s \<in> set (scalars params). proto_name s = scalar_name"
    using ScalarGeneric_init_configured [of kernel_op params scalar_name thermodynamics] by simp
  with Inr show ?thesis
    by (auto simp: PotentialTemperature_init_def POTENTIAL_TEMPERATURE_VARNAME_def Let_def
        split: prod.splits)
qed

text \<open>
  Claim C6 as written fails at the name \<open>foo\<close>, which is neither of the two names and
  is not configured: the base class constructor raises before the assertion is reached.
\<close>
theorem potential_temperature_unconfigured_name_counterexample:
  "''foo'' \<notin> {''theta'', ''theta_li''}
   \<and> PotentialTemperature_init ex_env ex_kernel_op ex_swirl_params ''foo'' ex_thermodynamics
       = Inl ConfigurationError
   \<and> PotentialTemperature_init ex_env ex_kernel_op ex_swirl_params ''foo'' ex_thermodynamics
       \<noteq> Inl AssertionError"
  by (simp add: init_unfold ex_unfold)

text \<open>
  The theorem for claim C6 at the names \<open>Z\<close> (configured), \<open>foo\<close> (not configured)
  and \<open>theta_li\<close>.
\<close>

theorem potential_temperature_name_assertion_witness:
  "''Z'' \<notin> {''theta'', ''theta_li''}
   \<and> (\<exists>s \<in> set (scalars ex_swirl_params). proto_name s = ''Z'')
   \<and> PotentialTemperature_init ex_env ex_kernel_op ex_swirl_params ''Z'' ex_thermodynamics
       = Inl AssertionError
   \<and> ''foo'' \<notin> {''theta'', ''theta_li''}
   \<and> \<not> (\<exists>s \<in> set (scalars ex_swirl_params). proto_name s = ''foo'')
   \<and> PotentialTemperature_init ex_env ex_kernel_op ex_swirl_params ''foo'' ex_thermodynamics
       = Inl ConfigurationError
   \<and> ''theta_li'' \<in> {''theta'', ''theta_li''}
   \<and> (\<exists>s \<in> set (scalars ex_swirl_params). proto_name s = ''theta_li'')
   \<and> (\<exists>obj. PotentialTemperature_init ex_env ex_kernel_op ex_swirl_params ''theta_li''
               ex_thermodynamics = Inr obj)
   \<and> PotentialTemperature_init ex_env ex_kernel_op ex_swirl_params ''theta_li''
        ex_thermodynamics \<noteq> Inl AssertionError"
proof -
  have nf: "\<not> (\<exists>s \<in> set (scalars ex_swirl_params). proto_name s = ''foo'')"
    by (simp add: ex_unfold)
  note a = potential_temperature_name_assertion
          [where scalar_name = "''Z''" and params = ex_swirl_params and env = ex_env
             and kernel_op = ex_kernel_op and thermodynamics = ex_thermodynamics]
  note b = potential_temperature_name_assertion
          [where scalar_name = "''foo''" and params = ex_swirl_params and env = ex_env
             and kernel_op = ex_kernel_op and thermodynamics = ex_thermodynamics]
  note c = potential_temperature_name_assertion
          [where scalar_name = "''theta_li''" and params = ex_swirl_params and env = ex_env
             and kernel_op = ex_kernel_op and thermodynamics = ex_thermodynamics]
  from a b c nf ex_configured(2,3) show ?thesis by simp
qed

section \<open>Radiation in the two sources\<close>

lemma list_update_gravity:
  assumes "length dv = length xs" and "\<forall>i < length xs. i \<noteq> g \<longrightarrow> dv ! i = xs ! i"
  shows "dv = xs[g := dv ! g]"
proof (rule nth_equalityI)
  from assms(1) show "length dv = length (xs[g := dv ! g])" by simp
  fix i assume "i < length dv"
  with assms show "dv ! i = xs[g := dv ! g] ! i" by (cases "i = g") simp_all
qed

lemma field_eqI:
  assumes "map (map length) a = map (map length) b"
    and "\<And>k i j. k < length b \<Longrightarrow> i < length (b ! k) \<Longrightarrow> j < length (b ! k ! i)
           \<Longrightarrow> a ! k ! i ! j = b ! k ! i ! j"
  shows "a = b"
proof (rule nth_equalityI)
  from assms(1) have l: "length a = length b"
    and sh: "\<forall>k < length a. map length (a ! k) = map length (b ! k)"
    by (simp_all add: shape_slices)
  from l show "length a = length b" .
  fix k assume "k < length a"
  with l sh have k: "k < length b" and s: "map length (a ! k) = map length (b ! k)" by simp_all
  show "a ! k = b ! k"
    by (rule tensor_eqI [OF s]) (rule assms(2) [OF k])
qed

text \<open>The total energy source with radiation included, block by block.\<close>

lemma te_source_fn_radiation:
  assumes run: "te_source_fn env self replica_id replicas phi states additional_states = Inr s"
    and on: "te_include_radiation self"
  shows "\<exists>w rho rho_thermal ts temperature q_t zz q_l mu rho_u_tau c g f_r new source source1.
           model (self_thermodynamics self) = Water w
         \<and> states KEY_RHO = Some rho \<and> states ''rho_thermal'' = Some rho_thermal
         \<and> te_get_thermodynamic_variables self phi states additional_states = Inr ts
         \<and> ts ''T'' = Some temperature \<and> ts ''q_t'' = Some q_t \<and> ts ''zz'' = Some zz
         \<and> q_l = fst (equilibrium_phase_partition w temperature rho_thermal q_t)
         \<and> te_mu self rho additional_states = Inr mu
         \<and> te_rho_u_tau env self states mu = Inr rho_u_tau
         \<and> te_cloud self = Some c \<and> self_g_dim self = Some g
         \<and> g < length rho_u_tau \<and> g < length (self_h self)
         \<and> f_r = source_by_radiation c q_l rho_thermal zz (self_h self ! g) g
                   (replicate 3 (params_halo_width (self_params self))) replica_id replicas
         \<and> map (map length) new = map (map length) (rho_u_tau ! g)
         \<and> map (map length) rho = map (map length) (rho_u_tau ! g)
         \<and> map (map length) f_r = map (map length) (rho_u_tau ! g)
         \<and> (\<forall>k < length (rho_u_tau ! g).
               \<forall>i < length (rho_u_tau ! g ! k). \<forall>j < length (rho_u_tau ! g ! k ! i).
                  new ! k ! i ! j
                    = rho_u_tau ! g ! k ! i ! j - rho ! k ! i ! j * f_r ! k ! i ! j)
         \<and> source = divergence env (self_kernel_op self) (rho_u_tau[g := new]) (self_h self)
         \<and> (if te_include_subsidence self
             then te_subsidence env self ts rho source else Inr source) = Inr source1
         \<and> (if te_include_precipitation self
             then te_precipitation env self w states ts rho rho_thermal q_l source1
             else Inr source1) = Inr s"
proof -
  from run obtain w where w: "model (self_thermodynamics self) = Water w"
    by (auto simp: te_source_fn_def split: thermodynamics_model.splits)
  from run w on obtain rho rho_thermal ts mu rho_u_tau q_l div_terms s1 where
    rho: "states KEY_RHO = Some rho"
    and rt: "states ''rho_thermal'' = Some rho_thermal"
    and ts: "te_get_thermodynamic_variables self phi states additional_states = Inr ts"
    and mu: "te_mu self rho additional_states = Inr mu"
    and rut: "te_rho_u_tau env self states mu = Inr rho_u_tau"
    and ql: "bindE (lookup ts ''T'') (\<lambda>temperature.
             bindE (lookup states ''rho_thermal'') (\<lambda>rho_thermal.
             bindE (lookup ts ''q_t'') (\<lambda>q_t.
             Inr (fst (equilibrium_phase_partition w temperature rho_thermal q_t))))) = Inr q_l"
    and rad: "te_radiation self replica_id replicas q_l states ts rho rho_u_tau = Inr div_terms"
    and sub: "(if te_include_subsidence self
               then te_subsidence env self ts rho
                      (divergence env (self_kernel_op self) div_terms (self_h self))
               else Inr (divergence env (self_kernel_op self) div_terms (self_h self))) = Inr s1"
    and pre: "(if te_include_precipitation self
               then te_precipitation env self w states ts rho rho_thermal q_l s1
               else Inr s1) = Inr s"
    by (auto simp: te_source_fn_def Let_def bindE_eq_Inr lookup_eq_Inr cong: if_cong)
  from ql rt obtain temperature q_t where T: "ts ''T'' = Some temperature"
    and qt: "ts ''q_t'' = Some q_t"
    and ql': "q_l = fst (equilibrium_phase_partition w temperature rho_thermal q_t)"
    by (auto simp: bindE_eq_Inr lookup_eq_Inr)
  from te_radiation_Inr [OF rad] obtain c rho_thermal' zz g f_r where
    c: "te_cloud self = Some c" and rt': "states ''rho_thermal'' = Some rho_thermal'"
    and zz: "ts ''zz'' = Some zz" and g: "self_g_dim self = Some g"
    and gh: "g < length (self_h self)" and gd: "g < length rho_u_tau"
    and fr: "f_r = source_by_radiation c q_l rho_thermal' zz (self_h self ! g) g
                   (replicate 3 (params_halo_width (self_params self))) replica_id replicas"
    and len: "length div_terms = length rho_u_tau"
    and other: "\<forall>i < length rho_u_tau. i \<noteq> g \<longrightarrow> div_terms ! i = rho_u_tau ! i"
    and lg: "length (div_terms ! g) = length (rho_u_tau ! g)"
    and lr: "length rho = length (rho_u_tau ! g)"
    and lf: "length f_r = length (rho_u_tau ! g)"
    and pt: "\<forall>k < length (rho_u_tau ! g).
               map length (div_terms ! g ! k) = map length (rho_u_tau ! g ! k)
             \<and> map length (rho ! k) = map length (rho_u_tau ! g ! k)
             \<and> map length (f_r ! k) = map length (rho_u_tau ! g ! k)
             \<and> (\<forall>i < length (rho_u_tau ! g ! k). \<forall>j < length (rho_u_tau ! g ! k ! i).
                   div_terms ! g ! k ! i ! j
                     = rho_u_tau ! g ! k ! i ! j - rho ! k ! i ! j * f_r ! k ! i ! j)"
    by blast
  from rt rt' have same: "rho_thermal' = rho_thermal" by simp
  define new where "new = div_terms ! g"
  from list_update_gravity [OF len other] have dv: "div_terms = rho_u_tau[g := new]"
    by (simp add: new_def)
  from lg pt have s1: "map (map length) new = map (map length) (rho_u_tau ! g)"
    unfolding shape_slices new_def by simp
  from lr pt have s2: "map (map length) rho = map (map length) (rho_u_tau ! g)"
    unfolding shape_slices by simp
  from lf pt have s3: "map (map length) f_r = map (map length) (rho_u_tau ! g)"
    unfolding shape_slices by simp
  from pt have pw: "\<forall>k < length (rho_u_tau ! g).
               \<forall>i < length (rho_u_tau ! g ! k). \<forall>j < length (rho_u_tau ! g ! k ! i).
                  new ! k ! i ! j
                    = rho_u_tau ! g ! k ! i ! j - rho ! k ! i ! j * f_r ! k ! i ! j"
    unfolding new_def by blast
  define source where "source = divergence env (self_kernel_op self) (rho_u_tau[g := new])
                                  (self_h self)"
  from sub have sub': "(if te_include_subsidence self
             then te_subsidence env self ts rho source else Inr source) = Inr s1"
    unfolding source_def dv [symmetric] .
  show ?thesis
    apply (rule exI [of _ w], rule exI [of _ rho], rule exI [of _ rho_thermal])
    apply (rule exI [of _ ts], rule exI [of _ temperature], rule exI [of _ q_t])
    apply (rule exI [of _ zz], rule exI [of _ q_l], rule exI [of _ mu])
    apply (rule exI [of _ rho_u_tau], rule exI [of _ c], rule exI [of _ g])
    apply (rule exI [of _ f_r], rule exI [of _ new], rule exI [of _ source])
    apply (rule exI [of _ s1])
    using w rho rt ts T qt zz ql' mu rut c g gd gh fr [unfolded same] s1 s2 s3 pw sub' pre
    apply (simp only: source_def [symmetric])
    done
qed

lemma te_radiation_zero_flux:
  assumes sh: "map (map length) new = map (map length) old"
    and fs: "map (map length) f_r = map (map length) old"
    and pw: "\<forall>k < length old. \<forall>i < length (old ! k). \<forall>j < length (old ! k ! i).
               new ! k ! i ! j = old ! k ! i ! j - rho ! k ! i ! j * f_r ! k ! i ! j"
    and zero: "field_is_zero f_r"
  shows "new = old"
proof (rule field_eqI [OF sh])
  fix k i j assume r: "k < length old" "i < length (old ! k)" "j < length (old ! k ! i)"
  from shape_in_range [OF fs r] zero have "f_r ! k ! i ! j = 0"
    by (simp add: field_is_zero_nth)
  with pw r show "new ! k ! i ! j = old ! k ! i ! j" by simp
qed

text \<open>
  Claim C4. When the source with radiation included returns \<open>s\<close>: the flux \<open>f_r\<close>
  is the one the cloud object gives for the liquid humidity, the thermal density and the
  height of this call; the divergence is taken of \<open>rho_u_tau\<close> with its entry at the
  gravity axis replaced by that entry minus \<open>rho * f_r\<close>, the other entries unchanged;
  \<open>s\<close> is that divergence after the subsidence and precipitation blocks. If \<open>f_r\<close> is
  zero in this call, the source with radiation excluded returns the same \<open>s\<close>.
\<close>
theorem te_radiation_before_divergence:
  assumes run: "te_source_fn env self replica_id replicas phi states additional_states = Inr s"
    and on: "te_include_radiation self"
  shows "\<exists>w rho rho_thermal ts temperature q_t zz q_l mu rho_u_tau c g f_r new source source1.
           model (self_thermodynamics self) = Water w
         \<and> states KEY_RHO = Some rho \<and> states ''rho_thermal'' = Some rho_thermal
         \<and> te_get_thermodynamic_variables self phi states additional_states = Inr ts
         \<and> ts ''T'' = Some temperature \<and> ts ''q_t'' = Some q_t \<and> ts ''zz'' = Some zz
         \<and> q_l = fst (equilibrium_phase_partition w temperature rho_thermal q_t)
         \<and> te_mu self rho additional_states = Inr mu
         \<and> te_rho_u_tau env self states mu = Inr rho_u_tau
         \<and> te_cloud self = Some c \<and> self_g_dim self = Some g
         \<and> g < length rho_u_tau \<and> g < length (self_h self)
         \<and> f_r = source_by_radiation c q_l rho_thermal zz (self_h self ! g) g
                   (replicate 3 (params_halo_width (self_params self))) replica_id replicas
         \<and> map (map length) new = map (map length) (rho_u_tau ! g)
         \<and> map (map length) rho = map (map length) (rho_u_tau ! g)
         \<and> map (map length) f_r = map (map length) (rho_u_tau ! g)
         \<and> (\<forall>k < length (rho_u_tau ! g).
               \<forall>i < length (rho_u_tau ! g ! k). \<forall>j < length (rho_u_tau ! g ! k ! i).
                  new ! k ! i ! j
                    = rho_u_tau ! g ! k ! i ! j - rho ! k ! i ! j * f_r ! k ! i ! j)
         \<and> source = divergence env (self_kernel_op self) (rho_u_tau[g := new]) (self_h self)
         \<and> (if te_include_subsidence self
             then te_subsidence env self ts rho source else Inr source) = Inr source1
         \<and> (if te_include_precipitation self
             then te_precipitation env self w states ts rho rho_thermal q_l source1
             else Inr source1) = Inr s
         \<and> (field_is_zero f_r \<longrightarrow>
              te_source_fn env (self\<lparr>te_include_radiation := False\<rparr>) replica_id replicas phi
                states additional_states = Inr s)"
proof -
  from te_source_fn_radiation [OF run on]
  obtain w rho rho_thermal ts temperature q_t zz q_l mu rho_u_tau c g f_r new source source1
    where w: "model (self_thermodynamics self) = Water w"
      and rho: "states KEY_RHO = Some rho" and rt: "states ''rho_thermal'' = Some rho_thermal"
      and ts: "te_get_thermodynamic_variables self phi states additional_states = Inr ts"
      and T: "ts ''T'' = Some temperature" and qt: "ts ''q_t'' = Some q_t"
      and zz: "ts ''zz'' = Some zz"
      and ql: "q_l = fst (equilibrium_phase_partition w temperature rho_thermal q_t)"
      and mu: "te_mu self rho additional_states = Inr mu"
      and rut: "te_rho_u_tau env self states mu = Inr rho_u_tau"
      and c: "te_cloud self = Some c" and g: "self_g_dim self = Some g"
      and gd: "g < length rho_u_tau" and gh: "g < length (self_h self)"
      and fr: "f_r = source_by_radiation c q_l rho_thermal zz (self_h self ! g) g
                   (replicate 3 (params_halo_width (self_params self))) replica_id replicas"
      and s1: "map (map length) new = map (map length) (rho_u_tau ! g)"
      and s2: "map (map length) rho = map (map length) (rho_u_tau ! g)"
      and s3: "map (map length) f_r = map (map length) (rho_u_tau ! g)"
      and pw: "\<forall>k < length (rho_u_tau ! g).
               \<forall>i < length (rho_u_tau ! g ! k). \<forall>j < length (rho_u_tau ! g ! k ! i).
                  new ! k ! i ! j
                    = rho_u_tau ! g ! k ! i ! j - rho ! k ! i ! j * f_r ! k ! i ! j"
      and src: "source = divergence env (self_kernel_op self) (rho_u_tau[g := new]) (self_h self)"
      and sub: "(if te_include_subsidence self
             then te_subsidence env self ts rho source else Inr source) = Inr source1"
      and pre: "(if te_include_precipitation self
             then te_precipitation env self w states ts rho rho_thermal q_l source1
             else Inr source1) = Inr s"
    by blast
  have off: "te_source_fn env (self\<lparr>te_include_radiation := False\<rparr>) replica_id replicas phi
                states additional_states = Inr s" if zero: "field_is_zero f_r"
  proof -
    from te_radiation_zero_flux [OF s1 s3 pw zero] have "rho_u_tau[g := new] = rho_u_tau"
      by simp
    with src have src': "source = divergence env (self_kernel_op self) rho_u_tau (self_h self)"
      by simp
    show ?thesis
    proof (cases "te_include_precipitation self")
      case True
      with w rho rt ts mu rut T qt ql sub pre src' show ?thesis
        by (simp add: te_source_fn_def Let_def lookup_def cong: if_cong)
    next
      case False
      with w rho rt ts mu rut sub pre src' show ?thesis
        by (simp add: te_source_fn_def Let_def lookup_def cong: if_cong)
    qed
  qed
  show ?thesis
    apply (rule exI [of _ w], rule exI [of _ rho], rule exI [of _ rho_thermal])
    apply (rule exI [of _ ts], rule exI [of _ temperature], rule exI [of _ q_t])
    apply (rule exI [of _ zz], rule exI [of _ q_l], rule exI [of _ mu])
    apply (rule exI [of _ rho_u_tau], rule exI [of _ c], rule exI [of _ g])
    apply (rule exI [of _ f_r], rule exI [of _ new], rule exI [of _ source])
    apply (rule exI [of _ source1])
    using w rho rt ts T qt zz ql mu rut c g gd gh fr s1 s2 s3 pw src sub pre off
    apply blast
    done
qed

lemma ex_dry_runs:
  "te_source_fn ex_env ex_te 0 [[[0]]] ex_phi ex_dry_states Map.empty
     = Inr [[[4]], [[- 312]]]"
  "te_source_fn ex_env (ex_te\<lparr>te_include_radiation := False\<rparr>) 0 [[[0]]] ex_phi
     ex_dry_states Map.empty = Inr [[[4]], [[- 312]]]"
  by (simp_all add: model_unfold ex_unfold ex_dry_states_def)

lemma ex_te_radiation_runs:
  "te_source_fn ex_env ex_te_radiation 0 [[[0]]] ex_phi ex_flow_states Map.empty
     = Inr [[[- 3]], [[1 / 2]]]"
  "te_source_fn ex_env (ex_te_radiation\<lparr>te_include_radiation := False\<rparr>) 0 [[[0]]] ex_phi
     ex_flow_states Map.empty = Inr [[[4]], [[- 2]]]"
  by (simp_all add: model_unfold ex_unfold ex_te_radiation_def)

lemma ex_te_parts:
  "te_get_thermodynamic_variables ex_te ex_phi ex_dry_states Map.empty = Inr ts
     \<Longrightarrow> ts ''q_t'' = Some [[[0]], [[0]]]"
  "te_get_thermodynamic_variables ex_te_radiation ex_phi ex_flow_states Map.empty = Inr ts
     \<Longrightarrow> ts ''q_t'' = Some [[[5]], [[7]]]"
  "te_mu ex_te_radiation [[[1]], [[2]]] Map.empty = Inr [[[1]], [[2]]]"
  "te_rho_u_tau ex_env ex_te_radiation ex_flow_states [[[1]], [[2]]]
     = Inr [[[[4]], [[8]]], [[[4]], [[8]]], [[[4]], [[8]]]]"
  "divergence ex_env ex_kernel_op
     ([[[[4]], [[8]]], [[[4]], [[8]]], [[[4]], [[8]]]][2 := [[[- 1]], [[- 6]]]]) [1, 1, 1]
     = [[[- 3]], [[1 / 2]]]"
  by (auto simp: model_unfold ex_unfold ex_dry_states_def ex_te_radiation_def)

text \<open>
  The theorem for claim C4 at two calls: on the flow without humidity the flux of the
  example cloud is zero and the source is the same with radiation excluded; on the example
  flow the flux is not zero and the source is the divergence of the corrected list.
\<close>

theorem te_radiation_before_divergence_witness:
  "te_include_radiation ex_te
   \<and> te_source_fn ex_env ex_te 0 [[[0]]] ex_phi ex_dry_states Map.empty
       = Inr [[[4]], [[- 312]]]
   \<and> field_is_zero (source_by_radiation ex_cloud [[[0]], [[0]]] [[[1]], [[2]]] [[[0]], [[0]]]
        1 2 [0, 0, 0] 0 [[[0]]])
   \<and> \<not> field_is_zero (source_by_radiation ex_cloud [[[5]], [[7]]] [[[1]], [[2]]] [[[0]], [[0]]]
        1 2 [0, 0, 0] 0 [[[0]]])
   \<and> te_source_fn ex_env (ex_te\<lparr>te_include_radiation := False\<rparr>) 0 [[[0]]] ex_phi
        ex_dry_states Map.empty = Inr [[[4]], [[- 312]]]
   \<and> te_include_radiation ex_te_radiation
   \<and> te_source_fn ex_env ex_te_radiation 0 [[[0]]] ex_phi ex_flow_states Map.empty
       = Inr [[[- 3]], [[1 / 2]]]
   \<and> te_rho_u_tau ex_env ex_te_radiation ex_flow_states [[[1]], [[2]]]
       = Inr [[[[4]], [[8]]], [[[4]], [[8]]], [[[4]], [[8]]]]
   \<and> (\<exists>new. map (map length) new = map (map length) [[[4]], [[8 :: real]]]
         \<and> new ! 0 ! 0 ! 0 = 4 - 1 * 5 \<and> new ! 1 ! 0 ! 0 = 8 - 2 * 7
         \<and> [[[- 3]], [[1 / 2]]]
             = divergence ex_env ex_kernel_op
                 ([[[[4]], [[8]]], [[[4]], [[8]]], [[[4]], [[8]]]][2 := new]) [1, 1, 1])
   \<and> te_source_fn ex_env (ex_te_radiation\<lparr>te_include_radiation := False\<rparr>) 0 [[[0]]]
        ex_phi ex_flow_states Map.empty = Inr [[[4]], [[- 2]]]"
proof -
  have on: "te_include_radiation ex_te" "te_include_radiation ex_te_radiation"
    by (simp_all add: ex_unfold ex_te_radiation_def)
  have z: "field_is_zero (source_by_radiation ex_cloud [[[0]], [[0]]] [[[1]], [[2]]]
             [[[0]], [[0]]] 1 2 [0, 0, 0] 0 [[[0]]])"
    "\<not> field_is_zero (source_by_radiation ex_cloud [[[5]], [[7]]] [[[1]], [[2]]]
             [[[0]], [[0]]] 1 2 [0, 0, 0] 0 [[[0]]])"
    by (simp_all add: ex_cloud_def field_is_zero_def)
  \<comment> \<open>the dry run: the flux is zero there\<close>
  from te_radiation_before_divergence [OF ex_dry_runs(1) on(1)]
  obtain w rho_thermal ts temperature q_t zz q_l c g f_r where
    w: "model (self_thermodynamics ex_te) = Water w"
    and ts: "te_get_thermodynamic_variables ex_te ex_phi ex_dry_states Map.empty = Inr ts"
    and qt: "ts ''q_t'' = Some q_t"
    and ql: "q_l = fst (equilibrium_phase_partition w temperature rho_thermal q_t)"
    and c: "te_cloud ex_te = Some c"
    and fr: "f_r = source_by_radiation c q_l rho_thermal zz (self_h ex_te ! g) g
                   (replicate 3 (params_halo_width (self_params ex_te))) 0 [[[0]]]"
    and off: "field_is_zero f_r \<longrightarrow>
              te_source_fn ex_env (ex_te\<lparr>te_include_radiation := False\<rparr>) 0 [[[0]]] ex_phi
                ex_dry_states Map.empty = Inr [[[4]], [[- 312]]]"
    by blast
  from w have "w = ex_water" by (simp add: ex_unfold)
  moreover from c have "c = ex_cloud" by (simp add: ex_unfold)
  moreover from ex_te_parts(1) [OF ts] qt have "q_t = [[[0]], [[0]]]" by simp
  ultimately have "f_r = [[[0]], [[0]]]"
    using ql fr by (simp add: ex_water_def ex_cloud_def tf_zeros_like_def)
  then have "field_is_zero f_r" by (simp add: field_is_zero_def)
  with off have a: "te_source_fn ex_env (ex_te\<lparr>te_include_radiation := False\<rparr>) 0 [[[0]]]
      ex_phi ex_dry_states Map.empty = Inr [[[4]], [[- 312]]]" by blast
  \<comment> \<open>the radiating run\<close>
  from te_radiation_before_divergence [OF ex_te_radiation_runs(1) on(2)]
  obtain w' rho rho_thermal' ts' temperature' q_t' zz' q_l' mu rho_u_tau c' g' f_r' new source
      source1 where
    w': "model (self_thermodynamics ex_te_radiation) = Water w'"
    and rho: "ex_flow_states KEY_RHO = Some rho"
    and ts': "te_get_thermodynamic_variables ex_te_radiation ex_phi ex_flow_states Map.empty
                = Inr ts'"
    and qt': "ts' ''q_t'' = Some q_t'"
    and ql': "q_l' = fst (equilibrium_phase_partition w' temperature' rho_thermal' q_t')"
    and mu: "te_mu ex_te_radiation rho Map.empty = Inr mu"
    and rut: "te_rho_u_tau ex_env ex_te_radiation ex_flow_states mu = Inr rho_u_tau"
    and c': "te_cloud ex_te_radiation = Some c'"
    and g': "self_g_dim ex_te_radiation = Some g'"
    and fr': "f_r' = source_by_radiation c' q_l' rho_thermal' zz' (self_h ex_te_radiation ! g')
                g' (replicate 3 (params_halo_width (self_params ex_te_radiation))) 0 [[[0]]]"
    and sh: "map (map length) new = map (map length) (rho_u_tau ! g')"
    and pw: "\<forall>k < length (rho_u_tau ! g').
               \<forall>i < length (rho_u_tau ! g' ! k). \<forall>j < length (rho_u_tau ! g' ! k ! i).
                  new ! k ! i ! j
                    = rho_u_tau ! g' ! k ! i ! j - rho ! k ! i ! j * f_r' ! k ! i ! j"
    and src: "source = divergence ex_env (self_kernel_op ex_te_radiation)
                (rho_u_tau[g' := new]) (self_h ex_te_radiation)"
    and sub: "(if te_include_subsidence ex_te_radiation
             then te_subsidence ex_env ex_te_radiation ts' rho source else Inr source)
            = Inr source1"
    and pre: "(if te_include_precipitation ex_te_radiation
             then te_precipitation ex_env ex_te_radiation w' ex_flow_states ts' rho
                    rho_thermal' q_l' source1
             else Inr source1) = Inr [[[- 3]], [[1 / 2]]]"
    by blast
  from rho have rho': "rho = [[[1]], [[2]]]" by (simp add: ex_unfold KEY_RHO_def)
  from mu have mu': "mu = [[[1]], [[2]]]" unfolding rho' ex_te_parts(3) by simp
  from rut have rut': "rho_u_tau = [[[[4]], [[8]]], [[[4]], [[8]]], [[[4]], [[8]]]]"
    unfolding mu' ex_te_parts(4) by simp
  from g' have g2: "g' = 2" by (simp add: ex_unfold ex_te_radiation_def)
  from w' have "w' = ex_water" by (simp add: ex_unfold ex_te_radiation_def)
  moreover from c' have "c' = ex_cloud" by (simp add: ex_unfold ex_te_radiation_def)
  moreover from ex_te_parts(2) [OF ts'] qt' have "q_t' = [[[5]], [[7]]]" by simp
  ultimately have f': "f_r' = [[[5]], [[7]]]"
    using ql' fr' by (simp add: ex_water_def ex_cloud_def)
  from sh have sh': "map (map length) new = map (map length) [[[4]], [[8 :: real]]]"
    by (simp add: rut' g2)
  from pw have "new ! 0 ! 0 ! 0 = 4 - 1 * 5" "new ! 1 ! 0 ! 0 = 8 - 2 * 7"
    by (simp_all add: rut' g2 rho' f')
  moreover from sub pre src have "[[[- 3]], [[1 / 2]]]
      = divergence ex_env ex_kernel_op
          ([[[[4]], [[8]]], [[[4]], [[8]]], [[[4]], [[8]]]][2 := new]) [1, 1, 1]"
    by (simp add: rut' g2 ex_te_radiation_def ex_te_def)
  ultimately have b: "\<exists>new. map (map length) new = map (map length) [[[4]], [[8 :: real]]]
         \<and> new ! 0 ! 0 ! 0 = 4 - 1 * 5 \<and> new ! 1 ! 0 ! 0 = 8 - 2 * 7
         \<and> [[[- 3]], [[1 / 2]]]
             = divergence ex_env ex_kernel_op
                 ([[[[4]], [[8]]], [[[4]], [[8]]], [[[4]], [[8]]]][2 := new]) [1, 1, 1]"
    using sh' by blast
  show ?thesis
    by (intro conjI on ex_dry_runs(1) z a ex_te_radiation_runs ex_te_parts(4) b)
qed

lemma grad_central_axis:
  "g < 3 \<Longrightarrow> (grad_central self ! g) f
     = (if g = 0 then apply_kernel_op_x (self_kernel_op self) f ''kDx''
        else if g = 1 then apply_kernel_op_y (self_kernel_op self) f ''kDy''
        else apply_kernel_op_z (self_kernel_op self) f ''kDz'' ''kDzsh'')"
proof -
  assume "g < 3"
  then consider "g = 0" | "g = 1" | "g = 2" by linarith
  then show ?thesis by cases (simp_all add: grad_central_def)
qed

text \<open>The potential temperature source with radiation included, block by block.\<close>

lemma pt_source_fn_radiation:
  assumes w: "model (self_thermodynamics pt) = Water w"
    and on: "pt_include_radiation pt"
    and run: "pt_source_fn env pt replica_id replicas phi states additional_states = Inr s"
  shows "\<exists>c q_t rho_thermal rho zz temperature q_l q_i g f_r rad_src grad cpm ex rad.
           pt_cloud pt = Some c \<and> self_g_dim pt = Some g \<and> g < 3 \<and> g < length (self_h pt)
         \<and> states ''q_t'' = Some q_t \<and> states ''rho_thermal'' = Some rho_thermal
         \<and> states KEY_RHO = Some rho
         \<and> zz = zz_of phi additional_states
         \<and> temperature = saturation_adjustment w (self_scalar_name pt) phi rho_thermal q_t
                           (FieldArg zz)
         \<and> q_l = fst (equilibrium_phase_partition w temperature rho_thermal q_t)
         \<and> q_i = snd (equilibrium_phase_partition w temperature rho_thermal q_t)
         \<and> f_r = source_by_radiation c q_l rho_thermal zz (self_h pt ! g) g
                   (replicate 3 (params_halo_width (self_params pt))) replica_id replicas
         \<and> map (map length) rad_src = map (map length) rho
         \<and> map (map length) f_r = map (map length) rho
         \<and> (\<forall>k < length rho. \<forall>i < length (rho ! k). \<forall>j < length (rho ! k ! i).
               rad_src ! k ! i ! j = - rho ! k ! i ! j * f_r ! k ! i ! j)
         \<and> grad = (if g = 0 then apply_kernel_op_x (self_kernel_op pt) rad_src ''kDx''
                    else if g = 1 then apply_kernel_op_y (self_kernel_op pt) rad_src ''kDy''
                    else apply_kernel_op_z (self_kernel_op pt) rad_src ''kDz'' ''kDzsh'')
         \<and> cpm = cp_m w q_t q_l q_i
         \<and> ex = exner_inverse w rho_thermal q_t temperature zz
         \<and> map (map length) rad = map (map length) grad
         \<and> map (map length) cpm = map (map length) grad
         \<and> map (map length) ex = map (map length) grad
         \<and> (\<forall>k < length grad. \<forall>i < length (grad ! k). \<forall>j < length (grad ! k ! i).
               rad ! k ! i ! j
                 = (1 / cpm ! k ! i ! j * ex ! k ! i ! j)
                   * (grad ! k ! i ! j / (2 * (self_h pt ! g))))
         \<and> (if pt_include_subsidence pt \<and> self_scalar_name pt = ''theta_li''
             then map_structure2 tf_add rad
                    (source_by_subsidence_velocity env (self_kernel_op pt) rho zz
                       (self_h pt ! g) phi g)
             else Inr rad) = Inr s"
proof -
  from run w on obtain ts rad where
    ts: "pt_get_thermodynamic_variables pt phi states additional_states = Inr ts"
    and r: "pt_radiation pt w replica_id replicas states ts = Inr rad"
    and fin: "(if pt_include_subsidence pt \<and> self_scalar_name pt = ''theta_li''
               then pt_subsidence env pt phi states ts rad else Inr rad) = Inr s"
    by (auto simp: pt_source_fn_def Let_def bindE_eq_Inr is_water_def split: if_splits)
  from pt_thermo_water [OF w ts] obtain q_t rho_thermal where
    qt: "states ''q_t'' = Some q_t" and rt: "states ''rho_thermal'' = Some rho_thermal"
    and zz: "ts ''zz'' = Some (zz_of phi additional_states)"
    and T: "ts ''T'' = Some (saturation_adjustment w (self_scalar_name pt) phi rho_thermal q_t
                             (FieldArg (zz_of phi additional_states)))"
    and ql: "ts ''q_l'' = Some (fst (equilibrium_phase_partition w
               (saturation_adjustment w (self_scalar_name pt) phi rho_thermal q_t
                  (FieldArg (zz_of phi additional_states))) rho_thermal q_t))"
    and qi: "ts ''q_i'' = Some (snd (equilibrium_phase_partition w
               (saturation_adjustment w (self_scalar_name pt) phi rho_thermal q_t
                  (FieldArg (zz_of phi additional_states))) rho_thermal q_t))"
    by blast
  define zz' where "zz' = zz_of phi additional_states"
  define temperature where "temperature
    = saturation_adjustment w (self_scalar_name pt) phi rho_thermal q_t (FieldArg zz')"
  define q_l where "q_l = fst (equilibrium_phase_partition w temperature rho_thermal q_t)"
  define q_i where "q_i = snd (equilibrium_phase_partition w temperature rho_thermal q_t)"
  note zz = zz [folded zz'_def]
  note T = T [folded zz'_def, folded temperature_def]
  note ql = ql [folded zz'_def, folded temperature_def, folded q_l_def]
  note qi = qi [folded zz'_def, folded temperature_def, folded q_i_def]
  from pt_radiation_Inr [OF r] obtain c q_l' q_i' q_t' rho_thermal' zz'' temperature' g rho f_r
      rad_src grad cpm ex where
    c: "pt_cloud pt = Some c" and ql': "ts ''q_l'' = Some q_l'" and qi': "ts ''q_i'' = Some q_i'"
    and qt': "states ''q_t'' = Some q_t'" and rt': "states ''rho_thermal'' = Some rho_thermal'"
    and zz'': "ts ''zz'' = Some zz''" and T': "ts ''T'' = Some temperature'"
    and g: "self_g_dim pt = Some g" and gh: "g < length (self_h pt)" and g3: "g < 3"
    and rho: "states KEY_RHO = Some rho"
    and fr: "f_r = source_by_radiation c q_l' rho_thermal' zz'' (self_h pt ! g) g
                   (replicate 3 (params_halo_width (self_params pt))) replica_id replicas"
    and rsh: "map (map length) rad_src = map (map length) rho"
    and fsh: "map (map length) f_r = map (map length) rho"
    and rpt: "\<forall>k < length rho. \<forall>i < length (rho ! k). \<forall>j < length (rho ! k ! i).
               rad_src ! k ! i ! j = - rho ! k ! i ! j * f_r ! k ! i ! j"
    and grad: "grad = (grad_central pt ! g) rad_src"
    and cpm: "cpm = cp_m w q_t' q_l' q_i'"
    and ex: "ex = exner_inverse w rho_thermal' q_t' temperature' zz''"
    and ssh: "map (map length) rad = map (map length) grad"
    and csh: "map (map length) cpm = map (map length) grad"
    and esh: "map (map length) ex = map (map length) grad"
    and spt: "\<forall>k < length grad. \<forall>i < length (grad ! k). \<forall>j < length (grad ! k ! i).
               rad ! k ! i ! j
                 = (1 / cpm ! k ! i ! j * ex ! k ! i ! j)
                   * (grad ! k ! i ! j / (2 * (self_h pt ! g)))"
    by blast
  from ql ql' qi qi' qt qt' rt rt' zz zz'' T T'
  have same: "q_l' = q_l" "q_i' = q_i" "q_t' = q_t" "rho_thermal' = rho_thermal" "zz'' = zz'"
    "temperature' = temperature"
    by simp_all
  note fr = fr [unfolded same] and cpm = cpm [unfolded same] and ex = ex [unfolded same]
  from grad g3 have grad': "grad
     = (if g = 0 then apply_kernel_op_x (self_kernel_op pt) rad_src ''kDx''
        else if g = 1 then apply_kernel_op_y (self_kernel_op pt) rad_src ''kDy''
        else apply_kernel_op_z (self_kernel_op pt) rad_src ''kDz'' ''kDzsh'')"
    by (simp only: grad_central_axis)
  have fin': "(if pt_include_subsidence pt \<and> self_scalar_name pt = ''theta_li''
             then map_structure2 tf_add rad
                    (source_by_subsidence_velocity env (self_kernel_op pt) rho zz'
                       (self_h pt ! g) phi g)
             else Inr rad) = Inr s"
  proof (cases "pt_include_subsidence pt \<and> self_scalar_name pt = ''theta_li''")
    case True
    with fin have "pt_subsidence env pt phi states ts rad = Inr s" by simp
    from pt_subsidence_Inr [OF this] rho zz g True show ?thesis by auto
  next
    case False
    from fin show ?thesis unfolding if_not_P [OF False] .
  qed
  show ?thesis
    apply (rule exI [of _ c], rule exI [of _ q_t], rule exI [of _ rho_thermal])
    apply (rule exI [of _ rho], rule exI [of _ zz'], rule exI [of _ temperature])
    apply (rule exI [of _ q_l], rule exI [of _ q_i], rule exI [of _ g])
    apply (rule exI [of _ f_r], rule exI [of _ rad_src], rule exI [of _ grad])
    apply (rule exI [of _ cpm], rule exI [of _ ex], rule exI [of _ rad])
    apply (intro conjI)
    apply (fact c g g3 gh qt rt rho zz'_def temperature_def q_l_def q_i_def fr rsh fsh rpt
             grad' cpm ex ssh csh esh spt fin')+
    done
qed

text \<open>
  Claim C7. In the potential temperature source with the water model and radiation
  included, the radiation term \<open>rad\<close> is obtained from \<open>-rho * f_r\<close> by the kernel
  operation of the gravity axis (\<open>kDx\<close>, \<open>kDy\<close>, or \<open>kDz\<close> with \<open>kDzsh\<close>),
  divided by \<open>2 h\<close> and then multiplied entry by entry by \<open>(1 / cp_m) * exner_inverse\<close>,
  where the grid spacing and \<open>cp_m\<close> are not zero; every argument of the collaborators
  is the one this call computes, and the result is \<open>rad\<close> after the subsidence block.
  In the total energy source with radiation included, \<open>rho * f_r\<close> is subtracted from
  the entry of \<open>rho_u_tau\<close> at the gravity axis, the divergence of that list is taken,
  and no factor \<open>cp_m\<close> or \<open>exner_inverse\<close> is applied.
\<close>
theorem radiation_scaling_asymmetry:
  "(model (self_thermodynamics pt) = Water w \<and> pt_include_radiation pt
      \<and> pt_source_fn env pt replica_id replicas phi states additional_states = Inr s
    \<longrightarrow> (\<exists>c q_t rho_thermal rho zz temperature q_l q_i g f_r rad_src grad cpm ex rad.
           pt_cloud pt = Some c \<and> self_g_dim pt = Some g \<and> g < 3 \<and> g < length (self_h pt)
         \<and> states ''q_t'' = Some q_t \<and> states ''rho_thermal'' = Some rho_thermal
         \<and> states KEY_RHO = Some rho
         \<and> zz = zz_of phi additional_states
         \<and> temperature = saturation_adjustment w (self_scalar_name pt) phi rho_thermal q_t
                           (FieldArg zz)
         \<and> q_l = fst (equilibrium_phase_partition w temperature rho_thermal q_t)
         \<and> q_i = snd (equilibrium_phase_partition w temperature rho_thermal q_t)
         \<and> f_r = source_by_radiation c q_l rho_thermal zz (self_h pt ! g) g
                   (replicate 3 (params_halo_width (self_params pt))) replica_id replicas
         \<and> map (map length) rad_src = map (map length) rho
         \<and> map (map length) f_r = map (map length) rho
         \<and> (\<forall>k < length rho. \<forall>i < length (rho ! k). \<forall>j < length (rho ! k ! i).
               rad_src ! k ! i ! j = - rho ! k ! i ! j * f_r ! k ! i ! j)
         \<and> grad = (if g = 0 then apply_kernel_op_x (self_kernel_op pt) rad_src ''kDx''
                    else if g = 1 then apply_kernel_op_y (self_kernel_op pt) rad_src ''kDy''
                    else apply_kernel_op_z (self_kernel_op pt) rad_src ''kDz'' ''kDzsh'')
         \<and> cpm = cp_m w q_t q_l q_i
         \<and> ex = exner_inverse w rho_thermal q_t temperature zz
         \<and> map (map length) rad = map (map length) grad
         \<and> map (map length) cpm = map (map length) grad
         \<and> map (map length) ex = map (map length) grad
         \<and> (self_h pt ! g \<noteq> 0 \<longrightarrow>
              (\<forall>k < length grad. \<forall>i < length (grad ! k). \<forall>j < length (grad ! k ! i).
                 cpm ! k ! i ! j \<noteq> 0 \<longrightarrow>
                 rad ! k ! i ! j
                   = (1 / cpm ! k ! i ! j * ex ! k ! i ! j)
                     * (grad ! k ! i ! j / (2 * (self_h pt ! g)))))
         \<and> (if pt_include_subsidence pt \<and> self_scalar_name pt = ''theta_li''
             then map_structure2 tf_add rad
                    (source_by_subsidence_velocity env (self_kernel_op pt) rho zz
                       (self_h pt ! g) phi g)
             else Inr rad) = Inr s))
   \<and> (te_include_radiation te
       \<and> te_source_fn env te replica_id replicas phi' states' additional_states' = Inr s'
    \<longrightarrow> (\<exists>w' rho rho_thermal ts temperature q_t zz q_l mu rho_u_tau c g f_r new source source1.
           model (self_thermodynamics te) = Water w'
         \<and> states' KEY_RHO = Some rho \<and> states' ''rho_thermal'' = Some rho_thermal
         \<and> te_get_thermodynamic_variables te phi' states' additional_states' = Inr ts
         \<and> ts ''T'' = Some temperature \<and> ts ''q_t'' = Some q_t \<and> ts ''zz'' = Some zz
         \<and> q_l = fst (equilibrium_phase_partition w' temperature rho_thermal q_t)
         \<and> te_mu te rho additional_states' = Inr mu
         \<and> te_rho_u_tau env te states' mu = Inr rho_u_tau
         \<and> te_cloud te = Some c \<and> self_g_dim te = Some g
         \<and> g < length rho_u_tau \<and> g < length (self_h te)
         \<and> f_r = source_by_radiation c q_l rho_thermal zz (self_h te ! g) g
                   (replicate 3 (params_halo_width (self_params te))) replica_id replicas
         \<and> map (map length) new = map (map length) (rho_u_tau ! g)
         \<and> map (map length) rho = map (map length) (rho_u_tau ! g)
         \<and> map (map length) f_r = map (map length) (rho_u_tau ! g)
         \<and> (\<forall>k < length (rho_u_tau ! g).
               \<forall>i < length (rho_u_tau ! g ! k). \<forall>j < length (rho_u_tau ! g ! k ! i).
                  new ! k ! i ! j
                    = rho_u_tau ! g ! k ! i ! j - rho ! k ! i ! j * f_r ! k ! i ! j)
         \<and> source = divergence env (self_kernel_op te) (rho_u_tau[g := new]) (self_h te)
         \<and> (if te_include_subsidence te
             then te_subsidence env te ts rho source else Inr source) = Inr source1
         \<and> (if te_include_precipitation te
             then te_precipitation env te w' states' ts rho rho_thermal q_l source1
             else Inr source1) = Inr s'))"
proof (rule conjI; rule impI)
  assume "model (self_thermodynamics pt) = Water w \<and> pt_include_radiation pt
      \<and> pt_source_fn env pt replica_id replicas phi states additional_states = Inr s"
  then have w: "model (self_thermodynamics pt) = Water w" and on: "pt_include_radiation pt"
    and run: "pt_source_fn env pt replica_id replicas phi states additional_states = Inr s"
    by simp_all
  from pt_source_fn_radiation [OF w on run]
  show "\<exists>c q_t rho_thermal rho zz temperature q_l q_i g f_r rad_src grad cpm ex rad.
           pt_cloud pt = Some c \<and> self_g_dim pt = Some g \<and> g < 3 \<and> g < length (self_h pt)
         \<and> states ''q_t'' = Some q_t \<and> states ''rho_thermal'' = Some rho_thermal
         \<and> states KEY_RHO = Some rho
         \<and> zz = zz_of phi additional_states
         \<and> temperature = saturation_adjustment w (self_scalar_name pt) phi rho_thermal q_t
                           (FieldArg zz)
         \<and> q_l = fst (equilibrium_phase_partition w temperature rho_thermal q_t)
         \<and> q_i = snd (equilibrium_phase_partition w temperature rho_thermal q_t)
         \<and> f_r = source_by_radiation c q_l rho_thermal zz (self_h pt ! g) g
                   (replicate 3 (params_halo_width (self_params pt))) replica_id replicas
         \<and> map (map length) rad_src = map (map length) rho
         \<and> map (map length) f_r = map (map length) rho
         \<and> (\<forall>k < length rho. \<forall>i < length (rho ! k). \<forall>j < length (rho ! k ! i).
               rad_src ! k ! i ! j = - rho ! k ! i ! j * f_r ! k ! i ! j)
         \<and> grad = (if g = 0 then apply_kernel_op_x (self_kernel_op pt) rad_src ''kDx''
                    else if g = 1 then apply_kernel_op_y (self_kernel_op pt) rad_src ''kDy''
                    else apply_kernel_op_z (self_kernel_op pt) rad_src ''kDz'' ''kDzsh'')
         \<and> cpm = cp_m w q_t q_l q_i
         \<and> ex = exner_inverse w rho_thermal q_t temperature zz
         \<and> map (map length) rad = map (map length) grad
         \<and> map (map length) cpm = map (map length) grad
         \<and> map (map length) ex = map (map length) grad
         \<and> (self_h pt ! g \<noteq> 0 \<longrightarrow>
              (\<forall>k < length grad. \<forall>i < length (grad ! k). \<forall>j < length (grad ! k ! i).
                 cpm ! k ! i ! j \<noteq> 0 \<longrightarrow>
                 rad ! k ! i ! j
                   = (1 / cpm ! k ! i ! j * ex ! k ! i ! j)
                     * (grad ! k ! i ! j / (2 * (self_h pt ! g)))))
         \<and> (if pt_include_subsidence pt \<and> self_scalar_name pt = ''theta_li''
             then map_structure2 tf_add rad
                    (source_by_subsidence_velocity env (self_kernel_op pt) rho zz
                       (self_h pt ! g) phi g)
             else Inr rad) = Inr s"
    apply (elim exE conjE)
    apply (intro exI conjI)
    apply (assumption | (intro impI allI, blast))+
    done
next
  assume "te_include_radiation te
       \<and> te_source_fn env te replica_id replicas phi' states' additional_states' = Inr s'"
  then have on: "te_include_radiation te"
    and run: "te_source_fn env te replica_id replicas phi' states' additional_states' = Inr s'"
    by simp_all
  from te_source_fn_radiation [OF run on]
  show "\<exists>w' rho rho_thermal ts temperature q_t zz q_l mu rho_u_tau c g f_r new source source1.
           model (self_thermodynamics te) = Water w'
         \<and> states' KEY_RHO = Some rho \<and> states' ''rho_thermal'' = Some rho_thermal
         \<and> te_get_thermodynamic_variables te phi' states' additional_states' = Inr ts
         \<and> ts ''T'' = Some temperature \<and> ts ''q_t'' = Some q_t \<and> ts ''zz'' = Some zz
         \<and> q_l = fst (equilibrium_phase_partition w' temperature rho_thermal q_t)
         \<and> te_mu te rho additional_states' = Inr mu
         \<and> te_rho_u_tau env te states' mu = Inr rho_u_tau
         \<and> te_cloud te = Some c \<and> self_g_dim te = Some g
         \<and> g < length rho_u_tau \<and> g < length (self_h te)
         \<and> f_r = source_by_radiation c q_l rho_thermal zz (self_h te ! g) g
                   (replicate 3 (params_halo_width (self_params te))) replica_id replicas
         \<and> map (map length) new = map (map length) (rho_u_tau ! g)
         \<and> map (map length) rho = map (map length) (rho_u_tau ! g)
         \<and> map (map length) f_r = map (map length) (rho_u_tau ! g)
         \<and> (\<forall>k < length (rho_u_tau ! g).
               \<forall>i < length (rho_u_tau ! g ! k). \<forall>j < length (rho_u_tau ! g ! k ! i).
                  new ! k ! i ! j
                    = rho_u_tau ! g ! k ! i ! j - rho ! k ! i ! j * f_r ! k ! i ! j)
         \<and> source = divergence env (self_kernel_op te) (rho_u_tau[g := new]) (self_h te)
         \<and> (if te_include_subsidence te
             then te_subsidence env te ts rho source else Inr source) = Inr source1
         \<and> (if te_include_precipitation te
             then te_precipitation env te w' states' ts rho rho_thermal q_l source1
             else Inr source1) = Inr s'" .
qed

lemma ex_pt_x_init:
  "PotentialTemperature_init ex_env ex_kernel_op ex_swirl_params_x ''theta_li''
     ex_thermodynamics = Inr (ex_pt_x\<lparr>pt_include_subsidence := True\<rparr>)"
  by (simp add: init_unfold ex_unfold ex_pt_x_def ex_swirl_params_x_def)

lemma ex_pt_radiation_runs:
  "pt_source_fn ex_env ex_pt_x 0 [[[0]]] ex_phi_x ex_flow_states_x Map.empty
     = Inr [[[- 7], [5 / 2]]]"
  "pt_source_fn ex_env ex_pt 0 [[[0]]] ex_phi ex_flow_states Map.empty
     = Inr [[[286]], [[315]]]"
  by (simp_all add: model_unfold ex_unfold ex_pt_x_def ex_swirl_params_x_def
      ex_flow_states_x_def ex_phi_x_def)

lemma ex_kernel_runs:
  "apply_kernel_op_x ex_kernel_op [[[- 5], [- 14]]] ''kDx'' = [[[- 14], [5]]]"
  "apply_kernel_op_z ex_kernel_op [[[- 5]], [[- 14]]] ''kDz'' ''kDzsh'' = [[[- 14]], [[5]]]"
  by (simp_all add: ex_unfold tf_zeros_like_def)

text \<open>
  The theorem for claim C7 at three calls: gravity along \<open>x\<close> with grid spacing 2,
  gravity along \<open>z\<close> with subsidence included, and the total energy source.
\<close>

theorem radiation_scaling_asymmetry_witness:
  "model (self_thermodynamics ex_pt_x) = Water ex_water \<and> pt_include_radiation ex_pt_x
   \<and> pt_source_fn ex_env ex_pt_x 0 [[[0]]] ex_phi_x ex_flow_states_x Map.empty
       = Inr [[[- 7], [5 / 2]]]
   \<and> self_g_dim ex_pt_x = Some 0 \<and> self_h ex_pt_x ! 0 = 2
   \<and> cp_m ex_water [[[5], [7]]] [[[5], [7]]] [[[0], [0]]] = [[[2], [2]]]
   \<and> exner_inverse ex_water [[[1], [2]]] [[[5], [7]]] [[[300], [310]]] [[[0], [0]]]
       = [[[4], [4]]]
   \<and> apply_kernel_op_x ex_kernel_op [[[- 5], [- 14]]] ''kDx'' = [[[- 14], [5]]]
   \<and> (\<exists>rad_src grad.
         rad_src = [[[- 1 * 5], [- 2 * 7]]]
       \<and> grad = apply_kernel_op_x ex_kernel_op rad_src ''kDx''
       \<and> [[[- 7], [5 / 2 :: real]]] ! 0 ! 0 ! 0 = (1 / 2 * 4) * (grad ! 0 ! 0 ! 0 / (2 * 2))
       \<and> [[[- 7], [5 / 2 :: real]]] ! 0 ! 1 ! 0 = (1 / 2 * 4) * (grad ! 0 ! 1 ! 0 / (2 * 2)))
   \<and> model (self_thermodynamics ex_pt) = Water ex_water \<and> pt_include_radiation ex_pt
   \<and> pt_include_subsidence ex_pt \<and> self_scalar_name ex_pt = ''theta_li''
   \<and> pt_source_fn ex_env ex_pt 0 [[[0]]] ex_phi ex_flow_states Map.empty
       = Inr [[[286]], [[315]]]
   \<and> self_g_dim ex_pt = Some 2 \<and> self_h ex_pt ! 2 = 1
   \<and> (\<exists>rad_src grad rad.
         rad_src = [[[- 1 * 5]], [[- 2 * 7]]]
       \<and> grad = apply_kernel_op_z ex_kernel_op rad_src ''kDz'' ''kDzsh''
       \<and> rad ! 0 ! 0 ! 0 = (1 / 2 * 4) * (grad ! 0 ! 0 ! 0 / (2 * 1))
       \<and> rad ! 1 ! 0 ! 0 = (1 / 2 * 4) * (grad ! 1 ! 0 ! 0 / (2 * 1))
       \<and> map_structure2 tf_add rad
            (source_by_subsidence_velocity ex_env ex_kernel_op [[[1]], [[2]]] [[[0]], [[0]]]
               1 ex_phi 2) = Inr [[[286]], [[315]]])
   \<and> te_include_radiation ex_te_radiation
   \<and> te_source_fn ex_env ex_te_radiation 0 [[[0]]] ex_phi ex_flow_states Map.empty
       = Inr [[[- 3]], [[1 / 2]]]
   \<and> (\<exists>rho_u_tau new.
         te_rho_u_tau ex_env ex_te_radiation ex_flow_states [[[1]], [[2]]] = Inr rho_u_tau
       \<and> map (map length) new = map (map length) (rho_u_tau ! 2)
       \<and> new ! 0 ! 0 ! 0 = rho_u_tau ! 2 ! 0 ! 0 ! 0 - 1 * 5
       \<and> new ! 1 ! 0 ! 0 = rho_u_tau ! 2 ! 1 ! 0 ! 0 - 2 * 7
       \<and> [[[- 3]], [[1 / 2]]]
           = divergence ex_env ex_kernel_op (rho_u_tau[2 := new]) [1, 1, 1])"
proof -
  have px: "model (self_thermodynamics ex_pt_x) = Water ex_water" "pt_include_radiation ex_pt_x"
    "self_g_dim ex_pt_x = Some 0" "self_h ex_pt_x ! 0 = 2"
    by (simp_all add: ex_unfold ex_pt_x_def)
  have pz: "model (self_thermodynamics ex_pt) = Water ex_water" "pt_include_radiation ex_pt"
    "pt_include_subsidence ex_pt" "self_scalar_name ex_pt = ''theta_li''"
    "self_g_dim ex_pt = Some 2" "self_h ex_pt ! 2 = 1"
    by (simp_all add: ex_unfold)
  have te: "te_include_radiation ex_te_radiation"
    by (simp add: ex_unfold ex_te_radiation_def)
  have cw: "cp_m ex_water [[[5], [7]]] [[[5], [7]]] [[[0], [0]]] = [[[2], [2]]]"
    "exner_inverse ex_water [[[1], [2]]] [[[5], [7]]] [[[300], [310]]] [[[0], [0]]]
       = [[[4], [4]]]"
    by (simp_all add: ex_water_def tf_map_def)
  \<comment> \<open>gravity along \<open>x\<close>\<close>
  note ix = radiation_scaling_asymmetry
      [where pt = ex_pt_x and w = ex_water and env = ex_env and replica_id = 0
         and replicas = "[[[0]]]" and phi = ex_phi_x and states = ex_flow_states_x
         and additional_states = Map.empty and s = "[[[- 7], [5 / 2]]]"]
  have hx: "model (self_thermodynamics ex_pt_x) = Water ex_water \<and> pt_include_radiation ex_pt_x
      \<and> pt_source_fn ex_env ex_pt_x 0 [[[0]]] ex_phi_x ex_flow_states_x Map.empty
          = Inr [[[- 7], [5 / 2]]]"
    by (intro conjI px(1,2) ex_pt_radiation_runs(1))
  from ix [THEN conjunct1, THEN mp, OF hx]
  obtain c q_t rho_thermal rho zz temperature q_l q_i g f_r rad_src grad cpm ex rad where
    c: "pt_cloud ex_pt_x = Some c" and g: "self_g_dim ex_pt_x = Some g"
    and qt: "ex_flow_states_x ''q_t'' = Some q_t"
    and rt: "ex_flow_states_x ''rho_thermal'' = Some rho_thermal"
    and rho: "ex_flow_states_x KEY_RHO = Some rho"
    and zz: "zz = zz_of ex_phi_x Map.empty"
    and T: "temperature = saturation_adjustment ex_water (self_scalar_name ex_pt_x) ex_phi_x
              rho_thermal q_t (FieldArg zz)"
    and ql: "q_l = fst (equilibrium_phase_partition ex_water temperature rho_thermal q_t)"
    and qi: "q_i = snd (equilibrium_phase_partition ex_water temperature rho_thermal q_t)"
    and fr: "f_r = source_by_radiation c q_l rho_thermal zz (self_h ex_pt_x ! g) g
               (replicate 3 (params_halo_width (self_params ex_pt_x))) 0 [[[0]]]"
    and rsh: "map (map length) rad_src = map (map length) rho"
    and rpt: "\<forall>k < length rho. \<forall>i < length (rho ! k). \<forall>j < length (rho ! k ! i).
               rad_src ! k ! i ! j = - rho ! k ! i ! j * f_r ! k ! i ! j"
    and grad: "grad = (if g = 0 then apply_kernel_op_x (self_kernel_op ex_pt_x) rad_src ''kDx''
                    else if g = 1 then apply_kernel_op_y (self_kernel_op ex_pt_x) rad_src ''kDy''
                    else apply_kernel_op_z (self_kernel_op ex_pt_x) rad_src ''kDz'' ''kDzsh'')"
    and cpm: "cpm = cp_m ex_water q_t q_l q_i"
    and ex: "ex = exner_inverse ex_water rho_thermal q_t temperature zz"
    and ssh: "map (map length) rad = map (map length) grad"
    and spt: "self_h ex_pt_x ! g \<noteq> 0 \<longrightarrow>
              (\<forall>k < length grad. \<forall>i < length (grad ! k). \<forall>j < length (grad ! k ! i).
                 cpm ! k ! i ! j \<noteq> 0 \<longrightarrow>
                 rad ! k ! i ! j
                   = (1 / cpm ! k ! i ! j * ex ! k ! i ! j)
                     * (grad ! k ! i ! j / (2 * (self_h ex_pt_x ! g))))"
    and fin: "(if pt_include_subsidence ex_pt_x \<and> self_scalar_name ex_pt_x = ''theta_li''
             then map_structure2 tf_add rad
                    (source_by_subsidence_velocity ex_env (self_kernel_op ex_pt_x) rho zz
                       (self_h ex_pt_x ! g) ex_phi_x g)
             else Inr rad) = Inr [[[- 7], [5 / 2]]]"
    by (elim exE conjE) (rule that; assumption)
  from g have g0: "g = 0" by (simp add: ex_unfold ex_pt_x_def)
  from c have c': "c = ex_cloud" by (simp add: ex_unfold ex_pt_x_def)
  from qt rt rho have in': "q_t = [[[5], [7]]]" "rho_thermal = [[[1], [2]]]"
    "rho = [[[1], [2]]]"
    by (simp_all add: ex_flow_states_x_def KEY_RHO_def)
  from ql fr have f': "f_r = [[[5], [7]]]"
    by (simp add: c' in' ex_cloud_def ex_water_def)
  from cpm ex have ce: "cpm = [[[2], [2]]]" "ex = [[[4], [4]]]"
    by (simp_all add: in' ex_water_def tf_map_def)
  from fin have rad: "rad = [[[- 7], [5 / 2]]]" by (simp add: ex_pt_x_def)
  have rs: "rad_src = [[[- 1 * 5], [- 2 * 7]]]"
  proof (rule field_eqI)
    from rsh show "map (map length) rad_src = map (map length) [[[- 1 * 5], [- 2 * 7 :: real]]]"
      by (simp add: in')
    fix k i j
    assume "k < length [[[- 1 * 5], [- 2 * 7 :: real]]]"
      and "i < length ([[[- 1 * 5], [- 2 * 7 :: real]]] ! k)"
      and "j < length ([[[- 1 * 5], [- 2 * 7 :: real]]] ! k ! i)"
    then have "k = 0 \<and> (i = 0 \<or> i = 1) \<and> j = 0"
      by (auto simp: less_Suc_eq)
    with rpt show "rad_src ! k ! i ! j = [[[- 1 * 5], [- 2 * 7]]] ! k ! i ! j"
      by (auto simp: in' f')
  qed
  from grad have gx: "grad = apply_kernel_op_x ex_kernel_op rad_src ''kDx''"
    by (simp add: g0 ex_pt_x_def ex_pt_def)
  then have gv: "grad = [[[- 14], [5]]]" using ex_kernel_runs(1) by (simp add: rs)
  from spt have "rad ! 0 ! 0 ! 0 = (1 / 2 * 4) * (grad ! 0 ! 0 ! 0 / (2 * 2))"
    "rad ! 0 ! 1 ! 0 = (1 / 2 * 4) * (grad ! 0 ! 1 ! 0 / (2 * 2))"
    by (simp_all add: g0 px(4) gv ce)
  with rs gx have a: "\<exists>rad_src grad.
         rad_src = [[[- 1 * 5], [- 2 * 7]]]
       \<and> grad = apply_kernel_op_x ex_kernel_op rad_src ''kDx''
       \<and> [[[- 7], [5 / 2 :: real]]] ! 0 ! 0 ! 0 = (1 / 2 * 4) * (grad ! 0 ! 0 ! 0 / (2 * 2))
       \<and> [[[- 7], [5 / 2 :: real]]] ! 0 ! 1 ! 0 = (1 / 2 * 4) * (grad ! 0 ! 1 ! 0 / (2 * 2))"
    unfolding rad by blast
  \<comment> \<open>gravity along \<open>z\<close>, with subsidence\<close>
  note iz = radiation_scaling_asymmetry
      [where pt = ex_pt and w = ex_water and env = ex_env and replica_id = 0
         and replicas = "[[[0]]]" and phi = ex_phi and states = ex_flow_states
         and additional_states = Map.empty and s = "[[[286]], [[315]]]"]
  have hz: "model (self_thermodynamics ex_pt) = Water ex_water \<and> pt_include_radiation ex_pt
      \<and> pt_source_fn ex_env ex_pt 0 [[[0]]] ex_phi ex_flow_states Map.empty
          = Inr [[[286]], [[315]]]"
    by (intro conjI pz(1,2) ex_pt_radiation_runs(2))
  from iz [THEN conjunct1, THEN mp, OF hz]
  obtain c q_t rho_thermal rho zz temperature q_l q_i g f_r rad_src grad cpm ex rad where
    c: "pt_cloud ex_pt = Some c" and g: "self_g_dim ex_pt = Some g"
    and qt: "ex_flow_states ''q_t'' = Some q_t"
    and rt: "ex_flow_states ''rho_thermal'' = Some rho_thermal"
    and rho: "ex_flow_states KEY_RHO = Some rho"
    and zz: "zz = zz_of ex_phi Map.empty"
    and T: "temperature = saturation_adjustment ex_water (self_scalar_name ex_pt) ex_phi
              rho_thermal q_t (FieldArg zz)"
    and ql: "q_l = fst (equilibrium_phase_partition ex_water temperature rho_thermal q_t)"
    and qi: "q_i = snd (equilibrium_phase_partition ex_water temperature rho_thermal q_t)"
    and fr: "f_r = source_by_radiation c q_l rho_thermal zz (self_h ex_pt ! g) g
               (replicate 3 (params_halo_width (self_params ex_pt))) 0 [[[0]]]"
    and rsh: "map (map length) rad_src = map (map length) rho"
    and rpt: "\<forall>k < length rho. \<forall>i < length (rho ! k). \<forall>j < length (rho ! k ! i).
               rad_src ! k ! i ! j = - rho ! k ! i ! j * f_r ! k ! i ! j"
    and grad: "grad = (if g = 0 then apply_kernel_op_x (self_kernel_op ex_pt) rad_src ''kDx''
                    else if g = 1 then apply_kernel_op_y (self_kernel_op ex_pt) rad_src ''kDy''
                    else apply_kernel_op_z (self_kernel_op ex_pt) rad_src ''kDz'' ''kDzsh'')"
    and cpm: "cpm = cp_m ex_water q_t q_l q_i"
    and ex: "ex = exner_inverse ex_water rho_thermal q_t temperature zz"
    and ssh: "map (map length) rad = map (map length) grad"
    and spt: "self_h ex_pt ! g \<noteq> 0 \<longrightarrow>
              (\<forall>k < length grad. \<forall>i < length (grad ! k). \<forall>j < length (grad ! k ! i).
                 cpm ! k ! i ! j \<noteq> 0 \<longrightarrow>
                 rad ! k ! i ! j
                   = (1 / cpm ! k ! i ! j * ex ! k ! i ! j)
                     * (grad ! k ! i ! j / (2 * (self_h ex_pt ! g))))"
    and fin: "(if pt_include_subsidence ex_pt \<and> self_scalar_name ex_pt = ''theta_li''
             then map_structure2 tf_add rad
                    (source_by_subsidence_velocity ex_env (self_kernel_op ex_pt) rho zz
                       (self_h ex_pt ! g) ex_phi g)
             else Inr rad) = Inr [[[286]], [[315]]]"
    by (elim exE conjE) (rule that; assumption)
  from g have g2: "g = 2" by (simp add: ex_unfold)
  from c have c': "c = ex_cloud" by (simp add: ex_unfold)
  from qt rt rho have in': "q_t = [[[5]], [[7]]]" "rho_thermal = [[[1]], [[2]]]"
    "rho = [[[1]], [[2]]]"
    by (simp_all add: ex_flow_states_def KEY_RHO_def)
  from zz have zz': "zz = [[[0]], [[0]]]" by (simp add: zz_of_def ex_phi_def tf_zeros_like_def)
  from ql fr have f': "f_r = [[[5]], [[7]]]"
    by (simp add: c' in' ex_cloud_def ex_water_def)
  from cpm ex have ce: "cpm = [[[2]], [[2]]]" "ex = [[[4]], [[4]]]"
    by (simp_all add: in' ex_water_def tf_map_def)
  have rs: "rad_src = [[[- 1 * 5]], [[- 2 * 7]]]"
  proof (rule field_eqI)
    from rsh show "map (map length) rad_src = map (map length) [[[- 1 * 5]], [[- 2 * 7 :: real]]]"
      by (simp add: in')
    fix k i j
    assume "k < length [[[- 1 * 5]], [[- 2 * 7 :: real]]]"
      and "i < length ([[[- 1 * 5]], [[- 2 * 7 :: real]]] ! k)"
      and "j < length ([[[- 1 * 5]], [[- 2 * 7 :: real]]] ! k ! i)"
    then have "(k = 0 \<or> k = 1) \<and> i = 0 \<and> j = 0"
      by (auto simp: less_Suc_eq)
    with rpt show "rad_src ! k ! i ! j = [[[- 1 * 5]], [[- 2 * 7]]] ! k ! i ! j"
      by (auto simp: in' f')
  qed
  from grad have gz: "grad = apply_kernel_op_z ex_kernel_op rad_src ''kDz'' ''kDzsh''"
    by (simp add: g2 ex_pt_def)
  then have gv: "grad = [[[- 14]], [[5]]]" using ex_kernel_runs(2) by (simp add: rs)
  from spt have "rad ! 0 ! 0 ! 0 = (1 / 2 * 4) * (grad ! 0 ! 0 ! 0 / (2 * 1))"
    "rad ! 1 ! 0 ! 0 = (1 / 2 * 4) * (grad ! 1 ! 0 ! 0 / (2 * 1))"
    by (simp_all add: g2 pz(6) gv ce)
  moreover from fin have "map_structure2 tf_add rad
            (source_by_subsidence_velocity ex_env ex_kernel_op [[[1]], [[2]]] [[[0]], [[0]]]
               1 ex_phi 2) = Inr [[[286]], [[315]]]"
    by (simp add: pz g2 in' zz' ex_pt_def)
  ultimately have b: "\<exists>rad_src grad rad.
         rad_src = [[[- 1 * 5]], [[- 2 * 7]]]
       \<and> grad = apply_kernel_op_z ex_kernel_op rad_src ''kDz'' ''kDzsh''
       \<and> rad ! 0 ! 0 ! 0 = (1 / 2 * 4) * (grad ! 0 ! 0 ! 0 / (2 * 1))
       \<and> rad ! 1 ! 0 ! 0 = (1 / 2 * 4) * (grad ! 1 ! 0 ! 0 / (2 * 1))
       \<and> map_structure2 tf_add rad
            (source_by_subsidence_velocity ex_env ex_kernel_op [[[1]], [[2]]] [[[0]], [[0]]]
               1 ex_phi 2) = Inr [[[286]], [[315]]]"
    using rs gz by blast
  \<comment> \<open>the total energy source\<close>
  note it = radiation_scaling_asymmetry
      [where te = ex_te_radiation and env = ex_env and replica_id = 0
         and replicas = "[[[0]]]" and phi' = ex_phi and states' = ex_flow_states
         and additional_states' = Map.empty and s' = "[[[- 3]], [[1 / 2]]]"]
  have ht: "te_include_radiation ex_te_radiation
      \<and> te_source_fn ex_env ex_te_radiation 0 [[[0]]] ex_phi ex_flow_states Map.empty
          = Inr [[[- 3]], [[1 / 2]]]"
    by (intro conjI te ex_te_radiation_runs(1))
  from it [THEN conjunct2, THEN mp, OF ht]
  obtain w' rho rho_thermal ts temperature q_t zz q_l mu rho_u_tau c g f_r new source source1
    where w': "model (self_thermodynamics ex_te_radiation) = Water w'"
    and rho: "ex_flow_states KEY_RHO = Some rho"
    and ts: "te_get_thermodynamic_variables ex_te_radiation ex_phi ex_flow_states Map.empty
                = Inr ts"
    and qt: "ts ''q_t'' = Some q_t"
    and ql: "q_l = fst (equilibrium_phase_partition w' temperature rho_thermal q_t)"
    and mu: "te_mu ex_te_radiation rho Map.empty = Inr mu"
    and rut: "te_rho_u_tau ex_env ex_te_radiation ex_flow_states mu = Inr rho_u_tau"
    and c: "te_cloud ex_te_radiation = Some c"
    and g: "self_g_dim ex_te_radiation = Some g"
    and fr: "f_r = source_by_radiation c q_l rho_thermal zz (self_h ex_te_radiation ! g)
                g (replicate 3 (params_halo_width (self_params ex_te_radiation))) 0 [[[0]]]"
    and sh: "map (map length) new = map (map length) (rho_u_tau ! g)"
    and pw: "\<forall>k < length (rho_u_tau ! g).
               \<forall>i < length (rho_u_tau ! g ! k). \<forall>j < length (rho_u_tau ! g ! k ! i).
                  new ! k ! i ! j
                    = rho_u_tau ! g ! k ! i ! j - rho ! k ! i ! j * f_r ! k ! i ! j"
    and src: "source = divergence ex_env (self_kernel_op ex_te_radiation)
                (rho_u_tau[g := new]) (self_h ex_te_radiation)"
    and sub: "(if te_include_subsidence ex_te_radiation
             then te_subsidence ex_env ex_te_radiation ts rho source else Inr source)
            = Inr source1"
    and pre: "(if te_include_precipitation ex_te_radiation
             then te_precipitation ex_env ex_te_radiation w' ex_flow_states ts rho
                    rho_thermal q_l source1
             else Inr source1) = Inr [[[- 3]], [[1 / 2]]]"
    by (elim exE conjE) (rule that; assumption)
  from rho have rho': "rho = [[[1]], [[2]]]" by (simp add: ex_unfold KEY_RHO_def)
  from mu have mu': "mu = [[[1]], [[2]]]" unfolding rho' ex_te_parts(3) by simp
  from rut have rut': "rho_u_tau = [[[[4]], [[8]]], [[[4]], [[8]]], [[[4]], [[8]]]]"
    unfolding mu' ex_te_parts(4) by simp
  from g have g2: "g = 2" by (simp add: ex_unfold ex_te_radiation_def)
  from w' have "w' = ex_water" by (simp add: ex_unfold ex_te_radiation_def)
  moreover from c have "c = ex_cloud" by (simp add: ex_unfold ex_te_radiation_def)
  moreover from ex_te_parts(2) [OF ts] qt have "q_t = [[[5]], [[7]]]" by simp
  ultimately have f': "f_r = [[[5]], [[7]]]"
    using ql fr by (simp add: ex_water_def ex_cloud_def)
  from pw have "new ! 0 ! 0 ! 0 = rho_u_tau ! 2 ! 0 ! 0 ! 0 - 1 * 5"
    "new ! 1 ! 0 ! 0 = rho_u_tau ! 2 ! 1 ! 0 ! 0 - 2 * 7"
    by (simp_all add: rut' g2 rho' f')
  moreover from sub pre src have "[[[- 3]], [[1 / 2]]]
      = divergence ex_env ex_kernel_op (rho_u_tau[2 := new]) [1, 1, 1]"
    by (simp add: g2 ex_te_radiation_def ex_te_def)
  moreover from rut have "te_rho_u_tau ex_env ex_te_radiation ex_flow_states [[[1]], [[2]]]
      = Inr rho_u_tau" by (simp add: mu')
  ultimately have d: "\<exists>rho_u_tau new.
         te_rho_u_tau ex_env ex_te_radiation ex_flow_states [[[1]], [[2]]] = Inr rho_u_tau
       \<and> map (map length) new = map (map length) (rho_u_tau ! 2)
       \<and> new ! 0 ! 0 ! 0 = rho_u_tau ! 2 ! 0 ! 0 ! 0 - 1 * 5
       \<and> new ! 1 ! 0 ! 0 = rho_u_tau ! 2 ! 1 ! 0 ! 0 - 2 * 7
       \<and> [[[- 3]], [[1 / 2]]]
           = divergence ex_env ex_kernel_op (rho_u_tau[2 := new]) [1, 1, 1]"
    using sh [unfolded g2] by blast
  show ?thesis
    by (intro conjI px pz te cw ex_pt_radiation_runs ex_kernel_runs(1) a b
        ex_te_radiation_runs(1) d)
qed

section \<open>Sources without source-generating inputs\<close>

subsection \<open>The sources on the store\<close>

lemma store_after_new [simp]:
  "a < length st \<Longrightarrow> (st @ [d]) ! a = st ! a"
  "(st @ [d]) ! length st = d"
  "(st @ [d])[length st := e] = st @ [e]"
  by (simp_all add: nth_append)

lemma pt_get_thermodynamic_variables_st_eq:
  assumes "states < length st" and "additional_states < length st"
  shows "pt_get_thermodynamic_variables_st self phi states additional_states st
     = bindE (pt_get_thermodynamic_variables self phi (st ! states) (st ! additional_states))
         (\<lambda>ts. Inr (length st, st @ [ts]))"
proof (cases "model (self_thermodynamics self)")
  case NotWater
  then show ?thesis
    by (simp add: pt_get_thermodynamic_variables_st_def pt_get_thermodynamic_variables_def
        dict_new_def bindE_def)
next
  case (Water w)
  show ?thesis
  proof (cases "lookup (st ! states) ''q_t''")
    case (Inl e)
    with Water assms show ?thesis
      by (simp add: pt_get_thermodynamic_variables_st_def pt_get_thermodynamic_variables_def
          dict_new_def bindE_def)
  next
    case q: (Inr q_t)
    show ?thesis
    proof (cases "lookup (st ! states) ''rho_thermal''")
      case (Inl e)
      with Water q assms show ?thesis
        by (simp add: pt_get_thermodynamic_variables_st_def pt_get_thermodynamic_variables_def
            dict_new_def bindE_def)
    next
      case r: (Inr rho_thermal)
      with Water q assms show ?thesis
        by (auto simp: pt_get_thermodynamic_variables_st_def pt_get_thermodynamic_variables_def
            dict_new_def dict_update_def bindE_def Let_def
            split: sum.splits prod.splits)
    qed
  qed
qed

text \<open>
  The sources on the store return what the sources on the dictionaries read from it
  return, and allocate the dictionary of thermodynamic variables.
\<close>

lemma pt_source_fn_st_eq:
  assumes "states < length st" and "additional_states < length st"
  shows "pt_source_fn_st env self replica_id replicas phi states additional_states st
     = bindE (pt_get_thermodynamic_variables self phi (st ! states) (st ! additional_states))
         (\<lambda>ts.
       bindE (pt_source_fn env self replica_id replicas phi (st ! states)
                (st ! additional_states)) (\<lambda>s. Inr (s, st @ [ts])))"
proof (cases "pt_get_thermodynamic_variables self phi (st ! states) (st ! additional_states)")
  case (Inl e)
  with assms show ?thesis
    by (simp add: pt_source_fn_st_def pt_get_thermodynamic_variables_st_eq bindE_def)
next
  case (Inr ts)
  with assms show ?thesis
    by (simp add: pt_source_fn_st_def pt_source_fn_def pt_get_thermodynamic_variables_st_eq
        bindE_def Let_def split: sum.splits thermodynamics_model.splits)
qed

lemma te_source_fn_st_eq:
  assumes "states < length st" and "additional_states < length st"
  shows "te_source_fn_st env self replica_id replicas phi states additional_states st
     = bindE (te_source_fn env self replica_id replicas phi (st ! states)
                (st ! additional_states)) (\<lambda>s.
       bindE (te_get_thermodynamic_variables self phi (st ! states) (st ! additional_states))
         (\<lambda>ts. Inr (s, st @ [ts])))"
proof (cases "model (self_thermodynamics self)")
  case NotWater
  then show ?thesis by (simp add: te_source_fn_st_def te_source_fn_def bindE_def)
next
  case (Water w)
  with assms show ?thesis
    by (simp add: te_source_fn_st_def te_source_fn_def te_get_thermodynamic_variables_st_def
        dict_new_def bindE_def Let_def split: sum.splits)
qed

lemma pt_source_fn_st_Inr:
  assumes "states < length st" and "additional_states < length st"
  shows "pt_source_fn_st env self replica_id replicas phi states additional_states st
           = Inr (s, st')
     \<longleftrightarrow> (\<exists>ts. pt_get_thermodynamic_variables self phi (st ! states) (st ! additional_states)
                  = Inr ts
             \<and> pt_source_fn env self replica_id replicas phi (st ! states)
                  (st ! additional_states) = Inr s
             \<and> st' = st @ [ts])"
  unfolding pt_source_fn_st_eq [OF assms] by (auto simp: bindE_eq_Inr)

lemma te_source_fn_st_Inr:
  assumes "states < length st" and "additional_states < length st"
  shows "te_source_fn_st env self replica_id replicas phi states additional_states st
           = Inr (s, st')
     \<longleftrightarrow> (\<exists>ts. te_get_thermodynamic_variables self phi (st ! states) (st ! additional_states)
                  = Inr ts
             \<and> te_source_fn env self replica_id replicas phi (st ! states)
                  (st ! additional_states) = Inr s
             \<and> st' = st @ [ts])"
  unfolding te_source_fn_st_eq [OF assms] by (auto simp: bindE_eq_Inr)

subsection \<open>Terms that are zero in a call\<close>

lemma pt_source_zero:
  assumes run: "pt_source_fn env pt replica_id replicas phi states additional_states = Inr s"
    and rad: "\<And>w c q_t rho_thermal rho g.
      \<lbrakk>pt_include_radiation pt; model (self_thermodynamics pt) = Water w; pt_cloud pt = Some c;
       states ''q_t'' = Some q_t; states ''rho_thermal'' = Some rho_thermal;
       states KEY_RHO = Some rho; self_g_dim pt = Some g\<rbrakk>
      \<Longrightarrow> field_is_zero
            (source_by_radiation c
               (fst (equilibrium_phase_partition w
                  (saturation_adjustment w (self_scalar_name pt) phi rho_thermal q_t
                     (FieldArg (zz_of phi additional_states))) rho_thermal q_t))
               rho_thermal (zz_of phi additional_states) (self_h pt ! g) g
               (replicate 3 (params_halo_width (self_params pt))) replica_id replicas)
        \<and> map (map length) rho = map (map length) phi
        \<and> (if g = 0 then apply_kernel_op_x (self_kernel_op pt) (map tf_zeros_like phi) ''kDx''
            else if g = 1
                 then apply_kernel_op_y (self_kernel_op pt) (map tf_zeros_like phi) ''kDy''
                 else apply_kernel_op_z (self_kernel_op pt) (map tf_zeros_like phi)
                        ''kDz'' ''kDzsh'')
          = map tf_zeros_like phi"
    and sub: "\<And>rho g.
      \<lbrakk>pt_include_subsidence pt; self_scalar_name pt = ''theta_li'';
       states KEY_RHO = Some rho; self_g_dim pt = Some g\<rbrakk>
      \<Longrightarrow> field_is_zero
            (source_by_subsidence_velocity env (self_kernel_op pt) rho
               (zz_of phi additional_states) (self_h pt ! g) phi g)"
  shows "s = map tf_zeros_like phi"
proof -
  let ?Z = "map tf_zeros_like phi"
  let ?zz = "zz_of phi additional_states"
  have last: "s = ?Z"
    if fin: "(if pt_include_subsidence pt \<and> self_scalar_name pt = ''theta_li''
             then map_structure2 tf_add ?Z
                    (source_by_subsidence_velocity env (self_kernel_op pt) rho ?zz
                       (self_h pt ! g) phi g)
             else Inr ?Z) = Inr s"
      and rho: "pt_include_subsidence pt \<and> self_scalar_name pt = ''theta_li''
                  \<longrightarrow> states KEY_RHO = Some rho \<and> self_g_dim pt = Some g"
    for rho g
  proof (cases "pt_include_subsidence pt \<and> self_scalar_name pt = ''theta_li''")
    case True
    with fin have m: "map_structure2 (tf_bin (\<lambda>x y. x + y)) ?Z
                    (source_by_subsidence_velocity env (self_kernel_op pt) rho ?zz
                       (self_h pt ! g) phi g) = Inr s"
      by (simp add: tf_add_def)
    from True rho sub have "field_is_zero
            (source_by_subsidence_velocity env (self_kernel_op pt) rho ?zz
               (self_h pt ! g) phi g)" by blast
    from map_structure2_id_right [OF m this] show ?thesis by simp
  next
    case False
    from fin [unfolded if_not_P [OF False]] show ?thesis by simp
  qed
  show ?thesis
  proof (cases "pt_include_radiation pt \<and> is_water (model (self_thermodynamics pt))")
    case True
    then obtain w where w: "model (self_thermodynamics pt) = Water w"
      and on: "pt_include_radiation pt"
      by (cases "model (self_thermodynamics pt)") (simp_all add: is_water_def)
    from pt_source_fn_radiation [OF w on run]
    obtain c q_t rho_thermal rho zz temperature q_l q_i g f_r rad_src grad cpm ex r where
      c: "pt_cloud pt = Some c" and g: "self_g_dim pt = Some g"
      and qt: "states ''q_t'' = Some q_t" and rt: "states ''rho_thermal'' = Some rho_thermal"
      and rho: "states KEY_RHO = Some rho"
      and zz: "zz = zz_of phi additional_states"
      and T: "temperature = saturation_adjustment w (self_scalar_name pt) phi rho_thermal q_t
                (FieldArg zz)"
      and ql: "q_l = fst (equilibrium_phase_partition w temperature rho_thermal q_t)"
      and fr: "f_r = source_by_radiation c q_l rho_thermal zz (self_h pt ! g) g
                 (replicate 3 (params_halo_width (self_params pt))) replica_id replicas"
      and rsh: "map (map length) rad_src = map (map length) rho"
      and fsh: "map (map length) f_r = map (map length) rho"
      and rpt: "\<forall>k < length rho. \<forall>i < length (rho ! k). \<forall>j < length (rho ! k ! i).
                 rad_src ! k ! i ! j = - rho ! k ! i ! j * f_r ! k ! i ! j"
      and grad: "grad
         = (if g = 0 then apply_kernel_op_x (self_kernel_op pt) rad_src ''kDx''
            else if g = 1 then apply_kernel_op_y (self_kernel_op pt) rad_src ''kDy''
            else apply_kernel_op_z (self_kernel_op pt) rad_src ''kDz'' ''kDzsh'')"
      and ssh: "map (map length) r = map (map length) grad"
      and spt: "\<forall>k < length grad. \<forall>i < length (grad ! k). \<forall>j < length (grad ! k ! i).
                 r ! k ! i ! j
                   = (1 / cpm ! k ! i ! j * ex ! k ! i ! j)
                     * (grad ! k ! i ! j / (2 * (self_h pt ! g)))"
      and fin: "(if pt_include_subsidence pt \<and> self_scalar_name pt = ''theta_li''
               then map_structure2 tf_add r
                      (source_by_subsidence_velocity env (self_kernel_op pt) rho zz
                         (self_h pt ! g) phi g)
               else Inr r) = Inr s"
      by (elim exE conjE) (rule that; assumption)
    from rad [OF on w c qt rt rho g]
    have zf: "field_is_zero f_r" and sr: "map (map length) rho = map (map length) phi"
      and ker: "(if g = 0 then apply_kernel_op_x (self_kernel_op pt) ?Z ''kDx''
                 else if g = 1 then apply_kernel_op_y (self_kernel_op pt) ?Z ''kDy''
                 else apply_kernel_op_z (self_kernel_op pt) ?Z ''kDz'' ''kDzsh'') = ?Z"
      unfolding fr ql T zz by simp_all
    have "field_is_zero rad_src"
    proof (rule field_zero_from_nth)
      fix k i j assume a: "k < length rad_src" "i < length (rad_src ! k)"
        "j < length (rad_src ! k ! i)"
      from shape_in_range [OF rsh [symmetric] a] have rr: "k < length rho"
        "i < length (rho ! k)" "j < length (rho ! k ! i)" by simp_all
      from shape_in_range [OF fsh rr] zf have "f_r ! k ! i ! j = 0"
        by (simp add: field_is_zero_nth)
      with rpt rr show "rad_src ! k ! i ! j = 0" by simp
    qed
    moreover from rsh sr have "map (map length) rad_src = map (map length) phi" by simp
    ultimately have rz: "rad_src = ?Z" by (rule field_zero_eq)
    from grad ker have gz: "grad = ?Z" unfolding rz by simp
    have "field_is_zero r"
    proof (rule field_zero_from_nth)
      fix k i j assume a: "k < length r" "i < length (r ! k)" "j < length (r ! k ! i)"
      from shape_in_range [OF ssh [symmetric] a] have gg: "k < length grad"
        "i < length (grad ! k)" "j < length (grad ! k ! i)" by simp_all
      with gz field_is_zero_nth [OF field_is_zero_zeros_like, of k phi i j]
      have "grad ! k ! i ! j = 0" by simp
      with spt gg show "r ! k ! i ! j = 0" by simp
    qed
    moreover from ssh gz have "map (map length) r = map (map length) phi" by simp
    ultimately have r0: "r = ?Z" by (rule field_zero_eq)
    from fin have fin': "(if pt_include_subsidence pt \<and> self_scalar_name pt = ''theta_li''
             then map_structure2 tf_add ?Z
                    (source_by_subsidence_velocity env (self_kernel_op pt) rho ?zz
                       (self_h pt ! g) phi g)
             else Inr ?Z) = Inr s"
      unfolding r0 zz .
    from rho g have "pt_include_subsidence pt \<and> self_scalar_name pt = ''theta_li''
                  \<longrightarrow> states KEY_RHO = Some rho \<and> self_g_dim pt = Some g" by simp
    from last [OF fin' this] show ?thesis .
  next
    case False
    from run obtain ts s0 where
      ts: "pt_get_thermodynamic_variables pt phi states additional_states = Inr ts"
      and s0: "(case model (self_thermodynamics pt) of
              Water w \<Rightarrow>
                if pt_include_radiation pt
                then pt_radiation pt w replica_id replicas states ts
                else Inr ?Z
            | NotWater \<Rightarrow> Inr ?Z) = Inr s0"
      and fin: "(if pt_include_subsidence pt \<and> is_water (model (self_thermodynamics pt))
                    \<and> self_scalar_name pt = ''theta_li''
                 then pt_subsidence env pt phi states ts s0
                 else Inr s0) = Inr s"
      by (auto simp: pt_source_fn_def Let_def bindE_eq_Inr)
    from s0 False have z0: "s0 = ?Z"
      by (cases "model (self_thermodynamics pt)") (auto simp: is_water_def split: if_splits)
    show ?thesis
    proof (cases "pt_include_subsidence pt \<and> is_water (model (self_thermodynamics pt))
                    \<and> self_scalar_name pt = ''theta_li''")
      case True
      then obtain w where w: "model (self_thermodynamics pt) = Water w"
        by (cases "model (self_thermodynamics pt)") (simp_all add: is_water_def)
      from True fin have "pt_subsidence env pt phi states ts ?Z = Inr s" by (simp add: z0)
      from pt_subsidence_Inr [OF this] obtain rho zz g where
        rho: "states KEY_RHO = Some rho" and zz: "ts ''zz'' = Some zz"
        and g: "self_g_dim pt = Some g"
        and m: "map_structure2 tf_add ?Z
                  (source_by_subsidence_velocity env (self_kernel_op pt) rho zz
                     (self_h pt ! g) phi g) = Inr s"
        by blast
      from pt_thermo_water [OF w ts] zz have "zz = ?zz" by auto
      with m True have fin': "(if pt_include_subsidence pt \<and> self_scalar_name pt = ''theta_li''
             then map_structure2 tf_add ?Z
                    (source_by_subsidence_velocity env (self_kernel_op pt) rho ?zz
                       (self_h pt ! g) phi g)
             else Inr ?Z) = Inr s"
        by simp
      from rho g have "pt_include_subsidence pt \<and> self_scalar_name pt = ''theta_li''
                  \<longrightarrow> states KEY_RHO = Some rho \<and> self_g_dim pt = Some g" by simp
      from last [OF fin' this] show ?thesis .
    next
      case False
      from fin [unfolded if_not_P [OF False]] z0 show ?thesis by simp
    qed
  qed
qed

lemma te_radiation_zero_run:
  assumes run: "te_radiation self replica_id replicas q_l states ts rho div_terms = Inr dv"
    and zero: "\<And>c rho_thermal zz g.
      \<lbrakk>te_cloud self = Some c; states ''rho_thermal'' = Some rho_thermal; ts ''zz'' = Some zz;
       self_g_dim self = Some g\<rbrakk>
      \<Longrightarrow> field_is_zero
            (source_by_radiation c q_l rho_thermal zz (self_h self ! g) g
               (replicate 3 (params_halo_width (self_params self))) replica_id replicas)"
  shows "dv = div_terms"
proof -
  from te_radiation_Inr [OF run] obtain c rho_thermal zz g f_r where
    c: "te_cloud self = Some c" and rt: "states ''rho_thermal'' = Some rho_thermal"
    and zz: "ts ''zz'' = Some zz" and g: "self_g_dim self = Some g"
    and gd: "g < length div_terms"
    and fr: "f_r = source_by_radiation c q_l rho_thermal zz (self_h self ! g) g
                   (replicate 3 (params_halo_width (self_params self))) replica_id replicas"
    and len: "length dv = length div_terms"
    and other: "\<forall>i < length div_terms. i \<noteq> g \<longrightarrow> dv ! i = div_terms ! i"
    and lg: "length (dv ! g) = length (div_terms ! g)"
    and lf: "length f_r = length (div_terms ! g)"
    and pt: "\<forall>k < length (div_terms ! g).
               map length (dv ! g ! k) = map length (div_terms ! g ! k)
             \<and> map length (rho ! k) = map length (div_terms ! g ! k)
             \<and> map length (f_r ! k) = map length (div_terms ! g ! k)
             \<and> (\<forall>i < length (div_terms ! g ! k). \<forall>j < length (div_terms ! g ! k ! i).
                   dv ! g ! k ! i ! j
                     = div_terms ! g ! k ! i ! j - rho ! k ! i ! j * f_r ! k ! i ! j)"
    by (elim exE conjE) (rule that; assumption)
  from zero [OF c rt zz g] have z: "field_is_zero f_r" unfolding fr .
  from lg pt have s1: "map (map length) (dv ! g) = map (map length) (div_terms ! g)"
    unfolding shape_slices by simp
  from lf pt have s3: "map (map length) f_r = map (map length) (div_terms ! g)"
    unfolding shape_slices by simp
  from pt have pw: "\<forall>k < length (div_terms ! g).
       \<forall>i < length (div_terms ! g ! k). \<forall>j < length (div_terms ! g ! k ! i).
          dv ! g ! k ! i ! j = div_terms ! g ! k ! i ! j - rho ! k ! i ! j * f_r ! k ! i ! j"
    by blast
  from te_radiation_zero_flux [OF s1 s3 pw z] have "dv ! g = div_terms ! g" .
  with list_update_gravity [OF len other] show ?thesis by simp
qed

lemma te_subsidence_zero_run:
  assumes run: "te_subsidence env self ts rho source = Inr s1"
    and zero: "\<And>zz h_t g.
      \<lbrakk>ts ''zz'' = Some zz; ts ''h_t'' = Some h_t; self_g_dim self = Some g\<rbrakk>
      \<Longrightarrow> field_is_zero
            (source_by_subsidence_velocity env (self_kernel_op self) rho zz (self_h self ! g)
               h_t g)"
  shows "s1 = source"
proof -
  from run obtain zz h_t g where
    zz: "ts ''zz'' = Some zz" and ht: "ts ''h_t'' = Some h_t" and g: "self_g_dim self = Some g"
    and m: "map_structure2 (tf_bin (\<lambda>x y. x + y)) source
          (source_by_subsidence_velocity env (self_kernel_op self) rho zz (self_h self ! g)
             h_t g) = Inr s1"
    by (auto simp: te_subsidence_def Let_def bindE_eq_Inr tf_add_def lookup_eq_Inr index_g_Inr)
  from map_structure2_id_right [OF m zero [OF zz ht g]] show ?thesis by simp
qed

lemma te_precipitation_zero_run:
  assumes run: "te_precipitation env self w states ts rho rho_thermal q_l source = Inr s"
    and zero: "\<And>mp temperature q_t q_r q_v.
      \<lbrakk>te_microphysics self = Some mp; ts ''T'' = Some temperature; ts ''q_t'' = Some q_t;
       states ''q_r'' = Some q_r;
       map_structure2 tf_sub q_t (saturation_excess w temperature rho_thermal q_t) = Inr q_v\<rbrakk>
      \<Longrightarrow> field_is_zero (autoconversion_and_accretion mp q_r q_l)
        \<and> field_is_zero
            (evaporation mp rho_thermal temperature q_r q_v q_l
               (saturation_excess w temperature rho_thermal q_t))"
  shows "s = source"
proof -
  from run obtain temperature where T: "ts ''T'' = Some temperature"
    by (auto simp: te_precipitation_def bindE_eq_Inr lookup_eq_Inr)
  obtain e_v e_l e_i where ie: "internal_energy_components w temperature = (e_v, e_l, e_i)"
    by (cases "internal_energy_components w temperature") auto
  from run T ie obtain mp q_r q_t q_v zz source_v source_l where
    mp: "te_microphysics self = Some mp" and qr: "states ''q_r'' = Some q_r"
    and qt: "ts ''q_t'' = Some q_t"
    and qv: "map_structure2 tf_sub q_t (saturation_excess w temperature rho_thermal q_t)
               = Inr q_v"
    and sv: "map_structure4
           (\<lambda>e pe rho c_lv.
              bindE (tf_add e pe) (\<lambda>a. bindE (tf_mul a rho) (\<lambda>b. tf_mul b (tf_neg c_lv))))
           e_v (map (\<lambda>zz_i. smul (constants_G env) zz_i) zz) rho
           (evaporation mp rho_thermal temperature q_r q_v q_l
              (saturation_excess w temperature rho_thermal q_t)) = Inr source_v"
    and sl: "map_structure4
           (\<lambda>e pe rho c_lr. bindE (tf_add e pe) (\<lambda>a. bindE (tf_mul a rho) (\<lambda>b. tf_mul b c_lr)))
           e_l (map (\<lambda>zz_i. smul (constants_G env) zz_i) zz) rho
           (autoconversion_and_accretion mp q_r q_l) = Inr source_l"
    and fin: "map_structure3 (\<lambda>s sv sl. bindE (tf_add s sv) (\<lambda>a. tf_add a sl))
                source source_v source_l = Inr s"
    by (auto simp: te_precipitation_def Let_def bindE_eq_Inr lookup_eq_Inr attr_Inr)
  define pe where "pe = map (\<lambda>zz_i. smul (constants_G env) zz_i) zz"
  define r_lv where "r_lv = evaporation mp rho_thermal temperature q_r q_v q_l
              (saturation_excess w temperature rho_thermal q_t)"
  define r_lr where "r_lr = autoconversion_and_accretion mp q_r q_l"
  note sv = sv [folded pe_def r_lv_def]
  note sl = sl [folded pe_def r_lr_def]
  from zero [OF mp T qt qr qv] have zlv: "field_is_zero r_lv" and zlr: "field_is_zero r_lr"
    by (simp_all add: r_lv_def r_lr_def)
  from sv have lv: "length source_v = length e_v" "length e_v = length r_lv"
    and ev: "\<forall>k < length e_v.
        bindE (tf_add (e_v ! k) (pe ! k))
          (\<lambda>a. bindE (tf_mul a (rho ! k)) (\<lambda>b. tf_mul b (tf_neg (r_lv ! k))))
        = Inr (source_v ! k)"
    by (auto simp: map_structure4_Inr)
  from sl have ll: "length source_l = length e_l" "length e_l = length r_lr"
    and el: "\<forall>k < length e_l.
        bindE (tf_add (e_l ! k) (pe ! k))
          (\<lambda>a. bindE (tf_mul a (rho ! k)) (\<lambda>b. tf_mul b (r_lr ! k)))
        = Inr (source_l ! k)"
    by (auto simp: map_structure4_Inr)
  have zv: "list_all (list_all (\<lambda>x. x = 0)) (source_v ! k)" if "k < length source_v" for k
  proof -
    from that lv have k: "k < length e_v" "k < length r_lv" by simp_all
    from zlv k(2) have "list_all (list_all (\<lambda>x. x = 0)) (tf_neg (r_lv ! k))"
      by (simp add: field_is_zero_slices tf_neg_zero)
    with ev k(1) conversion_source_zero show ?thesis by blast
  qed
  have zl: "list_all (list_all (\<lambda>x. x = 0)) (source_l ! k)" if "k < length source_l" for k
  proof -
    from that ll have k: "k < length e_l" "k < length r_lr" by simp_all
    from zlr k(2) have "list_all (list_all (\<lambda>x. x = 0)) (r_lr ! k)"
      by (simp add: field_is_zero_slices)
    with el k(1) conversion_source_zero show ?thesis by blast
  qed
  from fin have l3: "length source = length source_v" "length source_v = length source_l"
    "length s = length source"
    and e3: "\<forall>k < length source.
        bindE (tf_add (source ! k) (source_v ! k)) (\<lambda>a. tf_add a (source_l ! k)) = Inr (s ! k)"
    by (auto simp: map_structure3_Inr)
  show ?thesis
  proof (rule nth_equalityI)
    from l3 show "length s = length source" by simp
    fix k assume "k < length s"
    with l3 have k: "k < length source" "k < length source_v" "k < length source_l"
      by simp_all
    with e3 obtain a where a: "tf_bin (\<lambda>x y. x + y) (source ! k) (source_v ! k) = Inr a"
      and b: "tf_bin (\<lambda>x y. x + y) a (source_l ! k) = Inr (s ! k)"
      by (auto simp: bindE_eq_Inr tf_add_def)
    from tf_bin_id_right [OF a zv [OF k(2)]] have "a = source ! k" by simp
    moreover from tf_bin_id_right [OF b zl [OF k(3)]] have "s ! k = a" by simp
    ultimately show "s ! k = source ! k" by simp
  qed
qed

lemma te_source_zero:
  assumes run: "te_source_fn env te replica_id replicas phi states additional_states = Inr s"
    and u: "states KEY_U = Some (map tf_zeros_like phi)"
    and v: "states KEY_V = Some (map tf_zeros_like phi)"
    and w: "states KEY_W = Some (map tf_zeros_like phi)"
    and dv: "divergence env (self_kernel_op te)
           [map tf_zeros_like phi, map tf_zeros_like phi, map tf_zeros_like phi]
           (self_h te) = map tf_zeros_like phi"
    and rad: "\<And>wm c ts temperature q_t zz rho_thermal g.
      \<lbrakk>te_include_radiation te; model (self_thermodynamics te) = Water wm;
       te_cloud te = Some c;
       te_get_thermodynamic_variables te phi states additional_states = Inr ts;
       ts ''T'' = Some temperature; ts ''q_t'' = Some q_t; ts ''zz'' = Some zz;
       states ''rho_thermal'' = Some rho_thermal; self_g_dim te = Some g\<rbrakk>
      \<Longrightarrow> field_is_zero
            (source_by_radiation c
               (fst (equilibrium_phase_partition wm temperature rho_thermal q_t))
               rho_thermal zz (self_h te ! g) g
               (replicate 3 (params_halo_width (self_params te))) replica_id replicas)"
    and sub: "\<And>ts rho zz h_t g.
      \<lbrakk>te_include_subsidence te;
       te_get_thermodynamic_variables te phi states additional_states = Inr ts;
       states KEY_RHO = Some rho; ts ''zz'' = Some zz; ts ''h_t'' = Some h_t;
       self_g_dim te = Some g\<rbrakk>
      \<Longrightarrow> field_is_zero
            (source_by_subsidence_velocity env (self_kernel_op te) rho zz (self_h te ! g)
               h_t g)"
    and pre: "\<And>wm mp ts temperature q_t rho_thermal q_r q_v.
      \<lbrakk>te_include_precipitation te; model (self_thermodynamics te) = Water wm;
       te_microphysics te = Some mp;
       te_get_thermodynamic_variables te phi states additional_states = Inr ts;
       ts ''T'' = Some temperature; ts ''q_t'' = Some q_t;
       states ''rho_thermal'' = Some rho_thermal; states ''q_r'' = Some q_r;
       map_structure2 tf_sub q_t (saturation_excess wm temperature rho_thermal q_t)
         = Inr q_v\<rbrakk>
      \<Longrightarrow> field_is_zero
            (autoconversion_and_accretion mp q_r
               (fst (equilibrium_phase_partition wm temperature rho_thermal q_t)))
        \<and> field_is_zero
            (evaporation mp rho_thermal temperature q_r q_v
               (fst (equilibrium_phase_partition wm temperature rho_thermal q_t))
               (saturation_excess wm temperature rho_thermal q_t))"
  shows "s = map tf_zeros_like phi"
proof -
  let ?Z = "map tf_zeros_like phi"
  from run obtain wm where wm: "model (self_thermodynamics te) = Water wm"
    by (auto simp: te_source_fn_def split: thermodynamics_model.splits)
  from run wm obtain rho rho_thermal ts mu rho_u_tau q_l div_terms s1 where
    rho: "states KEY_RHO = Some rho"
    and rt: "states ''rho_thermal'' = Some rho_thermal"
    and ts: "te_get_thermodynamic_variables te phi states additional_states = Inr ts"
    and rut: "te_rho_u_tau env te states mu = Inr rho_u_tau"
    and ql: "(if te_include_radiation te \<or> te_include_precipitation te
              then bindE (lookup ts ''T'') (\<lambda>temperature.
                   bindE (lookup states ''rho_thermal'') (\<lambda>rho_thermal.
                   bindE (lookup ts ''q_t'') (\<lambda>q_t.
                   Inr (fst (equilibrium_phase_partition wm temperature rho_thermal q_t)))))
              else Inr []) = Inr q_l"
    and dt: "(if te_include_radiation te
              then te_radiation te replica_id replicas q_l states ts rho rho_u_tau
              else Inr rho_u_tau) = Inr div_terms"
    and s1: "(if te_include_subsidence te
              then te_subsidence env te ts rho
                     (divergence env (self_kernel_op te) div_terms (self_h te))
              else Inr (divergence env (self_kernel_op te) div_terms (self_h te))) = Inr s1"
    and fin: "(if te_include_precipitation te
               then te_precipitation env te wm states ts rho rho_thermal q_l s1
               else Inr s1) = Inr s"
    by (auto simp: te_source_fn_def Let_def bindE_eq_Inr lookup_eq_Inr)
  have qlv: "\<exists>temperature q_t. ts ''T'' = Some temperature \<and> ts ''q_t'' = Some q_t
        \<and> q_l = fst (equilibrium_phase_partition wm temperature rho_thermal q_t)"
    if "te_include_radiation te \<or> te_include_precipitation te"
    using ql that rt by (auto simp: bindE_eq_Inr lookup_eq_Inr)
  from te_rho_u_tau_zero [OF rut u v w] have rz: "rho_u_tau = [?Z, ?Z, ?Z]" .
  have de: "div_terms = rho_u_tau"
  proof (cases "te_include_radiation te")
    case True
    with dt have r: "te_radiation te replica_id replicas q_l states ts rho rho_u_tau
                       = Inr div_terms" by simp
    from qlv True obtain temperature q_t where T: "ts ''T'' = Some temperature"
      and qt: "ts ''q_t'' = Some q_t"
      and q: "q_l = fst (equilibrium_phase_partition wm temperature rho_thermal q_t)"
      by blast
    show ?thesis
    proof (rule te_radiation_zero_run [OF r])
      fix c rho_thermal' zz g
      assume c: "te_cloud te = Some c" and rt': "states ''rho_thermal'' = Some rho_thermal'"
        and zz: "ts ''zz'' = Some zz" and g: "self_g_dim te = Some g"
      from rad [OF True wm c ts T qt zz rt' g] rt rt'
      show "field_is_zero
            (source_by_radiation c q_l rho_thermal' zz (self_h te ! g) g
               (replicate 3 (params_halo_width (self_params te))) replica_id replicas)"
        unfolding q by simp
    qed
  next
    case False
    with dt show ?thesis by simp
  qed
  with rz dv have d0: "divergence env (self_kernel_op te) div_terms (self_h te) = ?Z"
    by simp
  have z1: "s1 = ?Z"
  proof (cases "te_include_subsidence te")
    case True
    with s1 d0 have r: "te_subsidence env te ts rho ?Z = Inr s1" by simp
    show ?thesis
      by (rule te_subsidence_zero_run [OF r]) (rule sub [OF True ts rho])
  next
    case False
    with s1 d0 show ?thesis by simp
  qed
  show ?thesis
  proof (cases "te_include_precipitation te")
    case True
    with fin have r: "te_precipitation env te wm states ts rho rho_thermal q_l s1 = Inr s"
      by simp
    from qlv True obtain temperature q_t where T: "ts ''T'' = Some temperature"
      and qt: "ts ''q_t'' = Some q_t"
      and q: "q_l = fst (equilibrium_phase_partition wm temperature rho_thermal q_t)"
      by blast
    have "s = s1"
    proof (rule te_precipitation_zero_run [OF r])
      fix mp temperature' q_t' q_r q_v
      assume mp: "te_microphysics te = Some mp" and T': "ts ''T'' = Some temperature'"
        and qt': "ts ''q_t'' = Some q_t'" and qr: "states ''q_r'' = Some q_r"
        and qv: "map_structure2 tf_sub q_t'
                   (saturation_excess wm temperature' rho_thermal q_t') = Inr q_v"
      from T T' qt qt' have same: "temperature' = temperature" "q_t' = q_t" by simp_all
      from pre [OF True wm mp ts T' qt' rt qr qv]
      show "field_is_zero (autoconversion_and_accretion mp q_r q_l)
        \<and> field_is_zero
            (evaporation mp rho_thermal temperature' q_r q_v q_l
               (saturation_excess wm temperature' rho_thermal q_t'))"
        unfolding q same .
    qed
    with z1 show ?thesis by simp
  next
    case False
    with fin z1 show ?thesis by simp
  qed
qed

text \<open>
  Claim C8, for the two specializations of the repository, on the store.

  \<^item> Every dictionary that exists before a call of \<open>source_fn\<close> is the same after it;
    in particular \<open>states\<close> and \<open>additional_states\<close> are.
  \<^item> \<open>PotentialTemperature\<close>: the returned field is the zero field of the shape of
    \<open>phi\<close> when each included term is zero in this call: the radiative flux at the
    arguments computed from the inputs, with \<open>cp_m\<close> and the grid spacing not zero,
    the density of the shape of \<open>phi\<close> and the kernel operation of the gravity axis
    mapping the zero field to itself; and the subsidence source at the arguments of this
    call. With both terms excluded the call returns that field as soon as the
    thermodynamic variables are computed.
  \<^item> \<open>TotalEnergy\<close>: the returned field is the zero field of the shape of \<open>phi\<close>
    when the three velocity components are the zero field, the divergence of three zero
    fields is the zero field, and each included term is zero in this call (the radiative
    flux, the subsidence source, the conversion and evaporation rates).
\<close>
theorem zero_inputs_zero_source_pure:
  assumes a: "states < length st" and b: "additional_states < length st"
  shows
   "(pt_source_fn_st env pt replica_id replicas phi states additional_states st = Inr (s, st')
      \<longrightarrow> take (length st) st' = st \<and> st' ! states = st ! states
          \<and> st' ! additional_states = st ! additional_states)
    \<and> (pt_source_fn_st env pt replica_id replicas phi states additional_states st
          = Inr (s, st')
        \<and> (pt_include_radiation pt \<longrightarrow>
             (\<forall>w c q_t rho_thermal rho g zz temperature q_l q_i.
                 model (self_thermodynamics pt) = Water w \<and> pt_cloud pt = Some c
               \<and> (st ! states) ''q_t'' = Some q_t
               \<and> (st ! states) ''rho_thermal'' = Some rho_thermal
               \<and> (st ! states) KEY_RHO = Some rho \<and> self_g_dim pt = Some g
               \<and> zz = zz_of phi (st ! additional_states)
               \<and> temperature = saturation_adjustment w (self_scalar_name pt) phi rho_thermal
                                 q_t (FieldArg zz)
               \<and> q_l = fst (equilibrium_phase_partition w temperature rho_thermal q_t)
               \<and> q_i = snd (equilibrium_phase_partition w temperature rho_thermal q_t)
               \<longrightarrow> field_is_zero
                     (source_by_radiation c q_l rho_thermal zz (self_h pt ! g) g
                        (replicate 3 (params_halo_width (self_params pt))) replica_id
                        replicas)
                 \<and> field_is_nonzero (cp_m w q_t q_l q_i) \<and> self_h pt ! g \<noteq> 0
                 \<and> map (map length) rho = map (map length) phi
                 \<and> (if g = 0
                     then apply_kernel_op_x (self_kernel_op pt) (map tf_zeros_like phi) ''kDx''
                     else if g = 1
                          then apply_kernel_op_y (self_kernel_op pt) (map tf_zeros_like phi)
                                 ''kDy''
                          else apply_kernel_op_z (self_kernel_op pt) (map tf_zeros_like phi)
                                 ''kDz'' ''kDzsh'')
                   = map tf_zeros_like phi))
        \<and> (pt_include_subsidence pt \<and> self_scalar_name pt = ''theta_li'' \<longrightarrow>
             (\<forall>rho g. (st ! states) KEY_RHO = Some rho \<and> self_g_dim pt = Some g
               \<longrightarrow> field_is_zero
                     (source_by_subsidence_velocity env (self_kernel_op pt) rho
                        (zz_of phi (st ! additional_states)) (self_h pt ! g) phi g)))
      \<longrightarrow> s = map tf_zeros_like phi \<and> field_is_zero s
          \<and> map (map length) s = map (map length) phi)
    \<and> (\<not> pt_include_radiation pt \<and> \<not> pt_include_subsidence pt
        \<and> pt_get_thermodynamic_variables pt phi (st ! states) (st ! additional_states)
            = Inr ts
      \<longrightarrow> pt_source_fn_st env pt replica_id replicas phi states additional_states st
            = Inr (map tf_zeros_like phi, st @ [ts]))
    \<and> (te_source_fn_st env te replica_id replicas phi' states additional_states st
          = Inr (s', st'')
      \<longrightarrow> take (length st) st'' = st \<and> st'' ! states = st ! states
          \<and> st'' ! additional_states = st ! additional_states)
    \<and> (te_source_fn_st env te replica_id replicas phi' states additional_states st
          = Inr (s', st'')
        \<and> (st ! states) KEY_U = Some (map tf_zeros_like phi')
        \<and> (st ! states) KEY_V = Some (map tf_zeros_like phi')
        \<and> (st ! states) KEY_W = Some (map tf_zeros_like phi')
        \<and> divergence env (self_kernel_op te)
             [map tf_zeros_like phi', map tf_zeros_like phi', map tf_zeros_like phi']
             (self_h te) = map tf_zeros_like phi'
        \<and> (te_include_radiation te \<longrightarrow>
             (\<forall>w c ts temperature q_t zz rho_thermal g q_l.
                 model (self_thermodynamics te) = Water w \<and> te_cloud te = Some c
               \<and> te_get_thermodynamic_variables te phi' (st ! states)
                    (st ! additional_states) = Inr ts
               \<and> ts ''T'' = Some temperature \<and> ts ''q_t'' = Some q_t \<and> ts ''zz'' = Some zz
               \<and> (st ! states) ''rho_thermal'' = Some rho_thermal \<and> self_g_dim te = Some g
               \<and> q_l = fst (equilibrium_phase_partition w temperature rho_thermal q_t)
               \<longrightarrow> field_is_zero
                     (source_by_radiation c q_l rho_thermal zz (self_h te ! g) g
                        (replicate 3 (params_halo_width (self_params te))) replica_id
                        replicas)))
        \<and> (te_include_subsidence te \<longrightarrow>
             (\<forall>ts rho zz h_t g.
                 te_get_thermodynamic_variables te phi' (st ! states)
                    (st ! additional_states) = Inr ts
               \<and> (st ! states) KEY_RHO = Some rho \<and> ts ''zz'' = Some zz
               \<and> ts ''h_t'' = Some h_t \<and> self_g_dim te = Some g
               \<longrightarrow> field_is_zero
                     (source_by_subsidence_velocity env (self_kernel_op te) rho zz
                        (self_h te ! g) h_t g)))
        \<and> (te_include_precipitation te \<longrightarrow>
             (\<forall>w mp ts temperature q_t rho_thermal q_r q_l q_c q_v.
                 model (self_thermodynamics te) = Water w \<and> te_microphysics te = Some mp
               \<and> te_get_thermodynamic_variables te phi' (st ! states)
                    (st ! additional_states) = Inr ts
               \<and> ts ''T'' = Some temperature \<and> ts ''q_t'' = Some q_t
               \<and> (st ! states) ''rho_thermal'' = Some rho_thermal
               \<and> (st ! states) ''q_r'' = Some q_r
               \<and> q_l = fst (equilibrium_phase_partition w temperature rho_thermal q_t)
               \<and> q_c = saturation_excess w temperature rho_thermal q_t
               \<and> map_structure2 tf_sub q_t q_c = Inr q_v
               \<longrightarrow> field_is_zero (autoconversion_and_accretion mp q_r q_l)
                 \<and> field_is_zero (evaporation mp rho_thermal temperature q_r q_v q_l q_c)))
      \<longrightarrow> s' = map tf_zeros_like phi' \<and> field_is_zero s'
          \<and> map (map length) s' = map (map length) phi')"
proof -
  let ?S = "st ! states" and ?A = "st ! additional_states"
  have frame: "take (length st) (st @ [d]) = st \<and> (st @ [d]) ! states = st ! states
      \<and> (st @ [d]) ! additional_states = st ! additional_states" for d :: states_map
    using a b by (simp add: nth_append)
  have Z: "field_is_zero (map tf_zeros_like x) \<and>
           map (map length) (map tf_zeros_like x) = map (map length) x" for x
    using field_is_zero_zeros_like [of x] zeros_like_shape [of x] by simp
  have F1: "take (length st) st' = st \<and> st' ! states = st ! states
          \<and> st' ! additional_states = st ! additional_states"
    if "pt_source_fn_st env pt replica_id replicas phi states additional_states st
          = Inr (s, st')"
    using that frame unfolding pt_source_fn_st_Inr [OF a b] by blast
  have F2: "take (length st) st'' = st \<and> st'' ! states = st ! states
          \<and> st'' ! additional_states = st ! additional_states"
    if "te_source_fn_st env te replica_id replicas phi' states additional_states st
          = Inr (s', st'')"
    using that frame unfolding te_source_fn_st_Inr [OF a b] by blast
  have P: "s = map tf_zeros_like phi \<and> field_is_zero s
          \<and> map (map length) s = map (map length) phi"
    if run: "pt_source_fn_st env pt replica_id replicas phi states additional_states st
          = Inr (s, st')"
      and rad: "pt_include_radiation pt \<longrightarrow>
             (\<forall>w c q_t rho_thermal rho g zz temperature q_l q_i.
                 model (self_thermodynamics pt) = Water w \<and> pt_cloud pt = Some c
               \<and> ?S ''q_t'' = Some q_t \<and> ?S ''rho_thermal'' = Some rho_thermal
               \<and> ?S KEY_RHO = Some rho \<and> self_g_dim pt = Some g
               \<and> zz = zz_of phi ?A
               \<and> temperature = saturation_adjustment w (self_scalar_name pt) phi rho_thermal
                                 q_t (FieldArg zz)
               \<and> q_l = fst (equilibrium_phase_partition w temperature rho_thermal q_t)
               \<and> q_i = snd (equilibrium_phase_partition w temperature rho_thermal q_t)
               \<longrightarrow> field_is_zero
                     (source_by_radiation c q_l rho_thermal zz (self_h pt ! g) g
                        (replicate 3 (params_halo_width (self_params pt))) replica_id
                        replicas)
                 \<and> field_is_nonzero (cp_m w q_t q_l q_i) \<and> self_h pt ! g \<noteq> 0
                 \<and> map (map length) rho = map (map length) phi
                 \<and> (if g = 0
                     then apply_kernel_op_x (self_kernel_op pt) (map tf_zeros_like phi) ''kDx''
                     else if g = 1
                          then apply_kernel_op_y (self_kernel_op pt) (map tf_zeros_like phi)
                                 ''kDy''
                          else apply_kernel_op_z (self_kernel_op pt) (map tf_zeros_like phi)
                                 ''kDz'' ''kDzsh'')
                   = map tf_zeros_like phi)"
      and sub: "pt_include_subsidence pt \<and> self_scalar_name pt = ''theta_li'' \<longrightarrow>
             (\<forall>rho g. ?S KEY_RHO = Some rho \<and> self_g_dim pt = Some g
               \<longrightarrow> field_is_zero
                     (source_by_subsidence_velocity env (self_kernel_op pt) rho
                        (zz_of phi ?A) (self_h pt ! g) phi g))"
  proof -
    from run have r: "pt_source_fn env pt replica_id replicas phi ?S ?A = Inr s"
      unfolding pt_source_fn_st_Inr [OF a b] by blast
    have "s = map tf_zeros_like phi"
    proof (rule pt_source_zero [OF r])
      fix w c q_t rho_thermal rho g
      assume "pt_include_radiation pt" "model (self_thermodynamics pt) = Water w"
        "pt_cloud pt = Some c" "?S ''q_t'' = Some q_t" "?S ''rho_thermal'' = Some rho_thermal"
        "?S KEY_RHO = Some rho" "self_g_dim pt = Some g"
      with rad show "field_is_zero
            (source_by_radiation c
               (fst (equilibrium_phase_partition w
                  (saturation_adjustment w (self_scalar_name pt) phi rho_thermal q_t
                     (FieldArg (zz_of phi ?A))) rho_thermal q_t))
               rho_thermal (zz_of phi ?A) (self_h pt ! g) g
               (replicate 3 (params_halo_width (self_params pt))) replica_id replicas)
        \<and> map (map length) rho = map (map length) phi
        \<and> (if g = 0 then apply_kernel_op_x (self_kernel_op pt) (map tf_zeros_like phi) ''kDx''
            else if g = 1
                 then apply_kernel_op_y (self_kernel_op pt) (map tf_zeros_like phi) ''kDy''
                 else apply_kernel_op_z (self_kernel_op pt) (map tf_zeros_like phi)
                        ''kDz'' ''kDzsh'')
          = map tf_zeros_like phi"
        by blast
    next
      fix rho g
      assume "pt_include_subsidence pt" "self_scalar_name pt = ''theta_li''"
        "?S KEY_RHO = Some rho" "self_g_dim pt = Some g"
      with sub show "field_is_zero
            (source_by_subsidence_velocity env (self_kernel_op pt) rho
               (zz_of phi ?A) (self_h pt ! g) phi g)"
        by blast
    qed
    with Z [of phi] show ?thesis by simp
  qed
  have Q: "pt_source_fn_st env pt replica_id replicas phi states additional_states st
            = Inr (map tf_zeros_like phi, st @ [ts])"
    if "\<not> pt_include_radiation pt" "\<not> pt_include_subsidence pt"
      "pt_get_thermodynamic_variables pt phi ?S ?A = Inr ts"
  proof -
    from that have "pt_source_fn env pt replica_id replicas phi ?S ?A
        = Inr (map tf_zeros_like phi)"
      by (cases "model (self_thermodynamics pt)") (simp_all add: pt_source_fn_def Let_def)
    with that(3) show ?thesis unfolding pt_source_fn_st_Inr [OF a b] by simp
  qed
  have T: "s' = map tf_zeros_like phi' \<and> field_is_zero s'
          \<and> map (map length) s' = map (map length) phi'"
    if run: "te_source_fn_st env te replica_id replicas phi' states additional_states st
          = Inr (s', st'')"
      and u: "?S KEY_U = Some (map tf_zeros_like phi')"
      and v: "?S KEY_V = Some (map tf_zeros_like phi')"
      and w: "?S KEY_W = Some (map tf_zeros_like phi')"
      and dv: "divergence env (self_kernel_op te)
             [map tf_zeros_like phi', map tf_zeros_like phi', map tf_zeros_like phi']
             (self_h te) = map tf_zeros_like phi'"
      and rad: "te_include_radiation te \<longrightarrow>
             (\<forall>w c ts temperature q_t zz rho_thermal g q_l.
                 model (self_thermodynamics te) = Water w \<and> te_cloud te = Some c
               \<and> te_get_thermodynamic_variables te phi' ?S ?A = Inr ts
               \<and> ts ''T'' = Some temperature \<and> ts ''q_t'' = Some q_t \<and> ts ''zz'' = Some zz
               \<and> ?S ''rho_thermal'' = Some rho_thermal \<and> self_g_dim te = Some g
               \<and> q_l = fst (equilibrium_phase_partition w temperature rho_thermal q_t)
               \<longrightarrow> field_is_zero
                     (source_by_radiation c q_l rho_thermal zz (self_h te ! g) g
                        (replicate 3 (params_halo_width (self_params te))) replica_id
                        replicas))"
      and sub: "te_include_subsidence te \<longrightarrow>
             (\<forall>ts rho zz h_t g.
                 te_get_thermodynamic_variables te phi' ?S ?A = Inr ts
               \<and> ?S KEY_RHO = Some rho \<and> ts ''zz'' = Some zz
               \<and> ts ''h_t'' = Some h_t \<and> self_g_dim te = Some g
               \<longrightarrow> field_is_zero
                     (source_by_subsidence_velocity env (self_kernel_op te) rho zz
                        (self_h te ! g) h_t g))"
      and pre: "te_include_precipitation te \<longrightarrow>
             (\<forall>w mp ts temperature q_t rho_thermal q_r q_l q_c q_v.
                 model (self_thermodynamics te) = Water w \<and> te_microphysics te = Some mp
               \<and> te_get_thermodynamic_variables te phi' ?S ?A = Inr ts
               \<and> ts ''T'' = Some temperature \<and> ts ''q_t'' = Some q_t
               \<and> ?S ''rho_thermal'' = Some rho_thermal
               \<and> ?S ''q_r'' = Some q_r
               \<and> q_l = fst (equilibrium_phase_partition w temperature rho_thermal q_t)
               \<and> q_c = saturation_excess w temperature rho_thermal q_t
               \<and> map_structure2 tf_sub q_t q_c = Inr q_v
               \<longrightarrow> field_is_zero (autoconversion_and_accretion mp q_r q_l)
                 \<and> field_is_zero (evaporation mp rho_thermal temperature q_r q_v q_l q_c))"
  proof -
    from run have r: "te_source_fn env te replica_id replicas phi' ?S ?A = Inr s'"
      unfolding te_source_fn_st_Inr [OF a b] by blast
    have "s' = map tf_zeros_like phi'"
    proof (rule te_source_zero [OF r u v w dv])
      fix wm c ts temperature q_t zz rho_thermal g
      assume "te_include_radiation te" "model (self_thermodynamics te) = Water wm"
        "te_cloud te = Some c" "te_get_thermodynamic_variables te phi' ?S ?A = Inr ts"
        "ts ''T'' = Some temperature" "ts ''q_t'' = Some q_t" "ts ''zz'' = Some zz"
        "?S ''rho_thermal'' = Some rho_thermal" "self_g_dim te = Some g"
      with rad show "field_is_zero
            (source_by_radiation c
               (fst (equilibrium_phase_partition wm temperature rho_thermal q_t))
               rho_thermal zz (self_h te ! g) g
               (replicate 3 (params_halo_width (self_params te))) replica_id replicas)"
        by blast
    next
      fix ts rho zz h_t g
      assume "te_include_subsidence te"
        "te_get_thermodynamic_variables te phi' ?S ?A = Inr ts"
        "?S KEY_RHO = Some rho" "ts ''zz'' = Some zz" "ts ''h_t'' = Some h_t"
        "self_g_dim te = Some g"
      with sub show "field_is_zero
            (source_by_subsidence_velocity env (self_kernel_op te) rho zz (self_h te ! g)
               h_t g)"
        by blast
    next
      fix wm mp ts temperature q_t rho_thermal q_r q_v
      assume "te_include_precipitation te" "model (self_thermodynamics te) = Water wm"
        "te_microphysics te = Some mp" "te_get_thermodynamic_variables te phi' ?S ?A = Inr ts"
        "ts ''T'' = Some temperature" "ts ''q_t'' = Some q_t"
        "?S ''rho_thermal'' = Some rho_thermal" "?S ''q_r'' = Some q_r"
        "map_structure2 tf_sub q_t (saturation_excess wm temperature rho_thermal q_t)
           = Inr q_v"
      with pre show "field_is_zero
            (autoconversion_and_accretion mp q_r
               (fst (equilibrium_phase_partition wm temperature rho_thermal q_t)))
        \<and> field_is_zero
            (evaporation mp rho_thermal temperature q_r q_v
               (fst (equilibrium_phase_partition wm temperature rho_thermal q_t))
               (saturation_excess wm temperature rho_thermal q_t))"
        by blast
    qed
    with Z [of phi'] show ?thesis by simp
  qed
  show ?thesis
    apply (rule conjI)
     apply (rule impI)
     apply (erule F1)
    apply (rule conjI)
     apply (rule impI)
     apply (elim conjE)
     apply (rule P; assumption)
    apply (rule conjI)
     apply (rule impI)
     apply (elim conjE)
     apply (rule Q; assumption)
    apply (rule conjI)
     apply (rule impI)
     apply (erule F2)
    apply (rule impI)
    apply (elim conjE)
    apply (rule T; assumption)
    done
qed

lemmas store_unfold =
  pt_source_fn_st_def pt_get_thermodynamic_variables_st_def te_source_fn_st_def
  te_get_thermodynamic_variables_st_def dict_new_def dict_update_def
  ex_store_def ex_flow_store_def ex_still_states_def ex_zero_phi_def

lemma ex_store_runs:
  "pt_source_fn_st ex_env ex_pt 0 [[[0]]] ex_zero_phi 0 1 ex_store
     = Inr ([[[0]], [[0]]], ex_store @ [ex_pt_thermo_still])"
  "te_source_fn_st ex_env ex_te 0 [[[0]]] ex_zero_phi 0 1 ex_store
     = Inr ([[[0]], [[0]]], ex_store @ [ex_te_thermo_still])"
  "pt_get_thermodynamic_variables ex_pt_no_gravity ex_phi (ex_flow_store ! 0)
     (ex_flow_store ! 1) = Inr ex_thermo_states"
  by (simp_all add: store_unfold model_unfold ex_unfold ex_pt_thermo_still_def
      ex_te_thermo_still_def ex_thermo_states_def)

lemma ex_still_facts:
  "map tf_zeros_like ex_zero_phi = [[[0]], [[0]]]"
  "(0 :: nat) < length ex_store" "(1 :: nat) < length ex_store"
  "(0 :: nat) < length ex_flow_store" "(1 :: nat) < length ex_flow_store"
  "(ex_store ! 0) KEY_U = Some (map tf_zeros_like ex_zero_phi)"
  "(ex_store ! 0) KEY_V = Some (map tf_zeros_like ex_zero_phi)"
  "(ex_store ! 0) KEY_W = Some (map tf_zeros_like ex_zero_phi)"
  "divergence ex_env (self_kernel_op ex_te)
     [map tf_zeros_like ex_zero_phi, map tf_zeros_like ex_zero_phi,
      map tf_zeros_like ex_zero_phi] (self_h ex_te) = map tf_zeros_like ex_zero_phi"
  by (simp_all add: store_unfold model_unfold ex_unfold)

text \<open>
  The theorem for claim C8 at the state at rest with every optional term included, the
  collaborators being zero in these calls only, and at the example flow without optional
  terms.
\<close>

theorem zero_inputs_zero_source_pure_witness:
  "(0 :: nat) < length ex_store \<and> (1 :: nat) < length ex_store
   \<and> pt_include_radiation ex_pt \<and> pt_include_subsidence ex_pt
   \<and> self_scalar_name ex_pt = ''theta_li''
   \<and> pt_source_fn_st ex_env ex_pt 0 [[[0]]] ex_zero_phi 0 1 ex_store
       = Inr ([[[0]], [[0]]], ex_store @ [ex_pt_thermo_still])
   \<and> field_is_zero (source_by_radiation ex_cloud [[[0]], [[0]]] [[[1]], [[2]]] [[[0]], [[0]]]
        1 2 [0, 0, 0] 0 [[[0]]])
   \<and> \<not> field_is_zero (source_by_radiation ex_cloud [[[5]], [[7]]] [[[1]], [[2]]] [[[0]], [[0]]]
        1 2 [0, 0, 0] 0 [[[0]]])
   \<and> field_is_nonzero (cp_m ex_water [[[0]], [[0]]] [[[0]], [[0]]] [[[0]], [[0]]])
   \<and> self_h ex_pt ! 2 \<noteq> 0
   \<and> apply_kernel_op_z ex_kernel_op (map tf_zeros_like ex_zero_phi) ''kDz'' ''kDzsh''
       = map tf_zeros_like ex_zero_phi
   \<and> field_is_zero (source_by_subsidence_velocity ex_env ex_kernel_op [[[1]], [[2]]]
        [[[0]], [[0]]] 1 ex_zero_phi 2)
   \<and> [[[0]], [[0]]] = map tf_zeros_like ex_zero_phi
   \<and> field_is_zero [[[0]], [[0]]]
   \<and> map (map length) [[[0]], [[0 :: real]]] = map (map length) ex_zero_phi
   \<and> take (length ex_store) (ex_store @ [ex_pt_thermo_still]) = ex_store
   \<and> (ex_store @ [ex_pt_thermo_still]) ! 0 = ex_store ! 0
   \<and> (ex_store @ [ex_pt_thermo_still]) ! 1 = ex_store ! 1
   \<and> \<not> pt_include_radiation ex_pt_no_gravity \<and> \<not> pt_include_subsidence ex_pt_no_gravity
   \<and> pt_get_thermodynamic_variables ex_pt_no_gravity ex_phi (ex_flow_store ! 0)
        (ex_flow_store ! 1) = Inr ex_thermo_states
   \<and> pt_source_fn_st ex_env ex_pt_no_gravity 0 [[[0]]] ex_phi 0 1 ex_flow_store
       = Inr (map tf_zeros_like ex_phi, ex_flow_store @ [ex_thermo_states])
   \<and> te_include_radiation ex_te \<and> te_include_subsidence ex_te
   \<and> te_include_precipitation ex_te
   \<and> te_source_fn_st ex_env ex_te 0 [[[0]]] ex_zero_phi 0 1 ex_store
       = Inr ([[[0]], [[0]]], ex_store @ [ex_te_thermo_still])
   \<and> (ex_store ! 0) KEY_U = Some (map tf_zeros_like ex_zero_phi)
   \<and> (ex_store ! 0) KEY_V = Some (map tf_zeros_like ex_zero_phi)
   \<and> (ex_store ! 0) KEY_W = Some (map tf_zeros_like ex_zero_phi)
   \<and> divergence ex_env (self_kernel_op ex_te)
        [map tf_zeros_like ex_zero_phi, map tf_zeros_like ex_zero_phi,
         map tf_zeros_like ex_zero_phi] (self_h ex_te) = map tf_zeros_like ex_zero_phi
   \<and> field_is_zero (source_by_subsidence_velocity ex_env ex_kernel_op [[[1]], [[2]]]
        [[[0]], [[0]]] 1 [[[0]], [[0]]] 2)
   \<and> field_is_zero (autoconversion_and_accretion ex_microphysics [[[0]], [[0]]]
        [[[0]], [[0]]])
   \<and> field_is_zero (evaporation ex_microphysics [[[1]], [[2]]] [[[0]], [[0]]] [[[0]], [[0]]]
        [[[0]], [[0]]] [[[0]], [[0]]] [[[0]], [[0]]])
   \<and> take (length ex_store) (ex_store @ [ex_te_thermo_still]) = ex_store
   \<and> (ex_store @ [ex_te_thermo_still]) ! 0 = ex_store ! 0
   \<and> (ex_store @ [ex_te_thermo_still]) ! 1 = ex_store ! 1"
proof -
  have fl: "pt_include_radiation ex_pt" "pt_include_subsidence ex_pt"
    "self_scalar_name ex_pt = ''theta_li''" "self_h ex_pt ! 2 \<noteq> 0"
    "\<not> pt_include_radiation ex_pt_no_gravity" "\<not> pt_include_subsidence ex_pt_no_gravity"
    "te_include_radiation ex_te" "te_include_subsidence ex_te" "te_include_precipitation ex_te"
    by (simp_all add: ex_unfold)
  have col: "field_is_zero (source_by_radiation ex_cloud [[[0]], [[0]]] [[[1]], [[2]]]
        [[[0]], [[0]]] 1 2 [0, 0, 0] 0 [[[0]]])"
    "\<not> field_is_zero (source_by_radiation ex_cloud [[[5]], [[7]]] [[[1]], [[2]]]
        [[[0]], [[0]]] 1 2 [0, 0, 0] 0 [[[0]]])"
    "field_is_nonzero (cp_m ex_water [[[0]], [[0]]] [[[0]], [[0]]] [[[0]], [[0]]])"
    "apply_kernel_op_z ex_kernel_op (map tf_zeros_like ex_zero_phi) ''kDz'' ''kDzsh''
       = map tf_zeros_like ex_zero_phi"
    "field_is_zero (source_by_subsidence_velocity ex_env ex_kernel_op [[[1]], [[2]]]
        [[[0]], [[0]]] 1 ex_zero_phi 2)"
    "field_is_zero (source_by_subsidence_velocity ex_env ex_kernel_op [[[1]], [[2]]]
        [[[0]], [[0]]] 1 [[[0]], [[0]]] 2)"
    "field_is_zero (autoconversion_and_accretion ex_microphysics [[[0]], [[0]]]
        [[[0]], [[0]]])"
    "field_is_zero (evaporation ex_microphysics [[[1]], [[2]]] [[[0]], [[0]]] [[[0]], [[0]]]
        [[[0]], [[0]]] [[[0]], [[0]]] [[[0]], [[0]]])"
    by (simp_all add: ex_unfold field_is_zero_def field_is_nonzero_def tf_map_def
        tf_zeros_like_def ex_zero_phi_def)
  \<comment> \<open>the potential temperature source, every term enabled\<close>
  note i1 = zero_inputs_zero_source_pure
      [OF ex_still_facts(2,3), where env = ex_env and pt = ex_pt and replica_id = 0
         and replicas = "[[[0]]]" and phi = ex_zero_phi and s = "[[[0]], [[0]]]"
         and st' = "ex_store @ [ex_pt_thermo_still]"]
  have hr: "pt_include_radiation ex_pt \<longrightarrow>
             (\<forall>w c q_t rho_thermal rho g zz temperature q_l q_i.
                 model (self_thermodynamics ex_pt) = Water w \<and> pt_cloud ex_pt = Some c
               \<and> (ex_store ! 0) ''q_t'' = Some q_t
               \<and> (ex_store ! 0) ''rho_thermal'' = Some rho_thermal
               \<and> (ex_store ! 0) KEY_RHO = Some rho \<and> self_g_dim ex_pt = Some g
               \<and> zz = zz_of ex_zero_phi (ex_store ! 1)
               \<and> temperature = saturation_adjustment w (self_scalar_name ex_pt) ex_zero_phi
                                 rho_thermal q_t (FieldArg zz)
               \<and> q_l = fst (equilibrium_phase_partition w temperature rho_thermal q_t)
               \<and> q_i = snd (equilibrium_phase_partition w temperature rho_thermal q_t)
               \<longrightarrow> field_is_zero
                     (source_by_radiation c q_l rho_thermal zz (self_h ex_pt ! g) g
                        (replicate 3 (params_halo_width (self_params ex_pt))) 0 [[[0]]])
                 \<and> field_is_nonzero (cp_m w q_t q_l q_i) \<and> self_h ex_pt ! g \<noteq> 0
                 \<and> map (map length) rho = map (map length) ex_zero_phi
                 \<and> (if g = 0
                     then apply_kernel_op_x (self_kernel_op ex_pt)
                            (map tf_zeros_like ex_zero_phi) ''kDx''
                     else if g = 1
                          then apply_kernel_op_y (self_kernel_op ex_pt)
                                 (map tf_zeros_like ex_zero_phi) ''kDy''
                          else apply_kernel_op_z (self_kernel_op ex_pt)
                                 (map tf_zeros_like ex_zero_phi) ''kDz'' ''kDzsh'')
                   = map tf_zeros_like ex_zero_phi)"
    by (auto simp: store_unfold ex_unfold KEY_RHO_def zz_of_def field_is_zero_def
        field_is_nonzero_def tf_map_def tf_zeros_like_def)
  have hs: "pt_include_subsidence ex_pt \<and> self_scalar_name ex_pt = ''theta_li'' \<longrightarrow>
             (\<forall>rho g. (ex_store ! 0) KEY_RHO = Some rho \<and> self_g_dim ex_pt = Some g
               \<longrightarrow> field_is_zero
                     (source_by_subsidence_velocity ex_env (self_kernel_op ex_pt) rho
                        (zz_of ex_zero_phi (ex_store ! 1)) (self_h ex_pt ! g) ex_zero_phi g))"
    by (auto simp: store_unfold ex_unfold KEY_RHO_def zz_of_def field_is_zero_def)
  have c0: "take (length ex_store) (ex_store @ [ex_pt_thermo_still]) = ex_store
    \<and> (ex_store @ [ex_pt_thermo_still]) ! 0 = ex_store ! 0
    \<and> (ex_store @ [ex_pt_thermo_still]) ! 1 = ex_store ! 1"
    by (rule i1 [THEN conjunct1, THEN mp, OF ex_store_runs(1)])
  have c1: "[[[0]], [[0]]] = map tf_zeros_like ex_zero_phi \<and> field_is_zero [[[0]], [[0]]]
    \<and> map (map length) [[[0]], [[0 :: real]]] = map (map length) ex_zero_phi"
    by (rule i1 [THEN conjunct2, THEN conjunct1, THEN mp])
       (intro conjI ex_store_runs(1) hr hs)
  \<comment> \<open>the potential temperature source without optional terms returns\<close>
  note i2 = zero_inputs_zero_source_pure
      [OF ex_still_facts(4,5), where env = ex_env and pt = ex_pt_no_gravity
         and replica_id = 0 and replicas = "[[[0]]]" and phi = ex_phi
         and ts = ex_thermo_states]
  have c2: "pt_source_fn_st ex_env ex_pt_no_gravity 0 [[[0]]] ex_phi 0 1 ex_flow_store
       = Inr (map tf_zeros_like ex_phi, ex_flow_store @ [ex_thermo_states])"
    by (rule i2 [THEN conjunct2, THEN conjunct2, THEN conjunct1, THEN mp])
       (intro conjI fl(5,6) ex_store_runs(3))
  \<comment> \<open>the total energy source at rest, every term enabled\<close>
  note i3 = zero_inputs_zero_source_pure
      [OF ex_still_facts(2,3), where env = ex_env and te = ex_te and replica_id = 0
         and replicas = "[[[0]]]" and phi' = ex_zero_phi and s' = "[[[0]], [[0]]]"
         and st'' = "ex_store @ [ex_te_thermo_still]"]
  have tr: "te_include_radiation ex_te \<longrightarrow>
             (\<forall>w c ts temperature q_t zz rho_thermal g q_l.
                 model (self_thermodynamics ex_te) = Water w \<and> te_cloud ex_te = Some c
               \<and> te_get_thermodynamic_variables ex_te ex_zero_phi (ex_store ! 0)
                    (ex_store ! 1) = Inr ts
               \<and> ts ''T'' = Some temperature \<and> ts ''q_t'' = Some q_t \<and> ts ''zz'' = Some zz
               \<and> (ex_store ! 0) ''rho_thermal'' = Some rho_thermal
               \<and> self_g_dim ex_te = Some g
               \<and> q_l = fst (equilibrium_phase_partition w temperature rho_thermal q_t)
               \<longrightarrow> field_is_zero
                     (source_by_radiation c q_l rho_thermal zz (self_h ex_te ! g) g
                        (replicate 3 (params_halo_width (self_params ex_te))) 0 [[[0]]]))"
    by (auto simp: store_unfold model_unfold ex_unfold field_is_zero_def)
  have tb: "te_include_subsidence ex_te \<longrightarrow>
             (\<forall>ts rho zz h_t g.
                 te_get_thermodynamic_variables ex_te ex_zero_phi (ex_store ! 0)
                    (ex_store ! 1) = Inr ts
               \<and> (ex_store ! 0) KEY_RHO = Some rho \<and> ts ''zz'' = Some zz
               \<and> ts ''h_t'' = Some h_t \<and> self_g_dim ex_te = Some g
               \<longrightarrow> field_is_zero
                     (source_by_subsidence_velocity ex_env (self_kernel_op ex_te) rho zz
                        (self_h ex_te ! g) h_t g))"
    by (auto simp: store_unfold model_unfold ex_unfold field_is_zero_def)
  have tp: "te_include_precipitation ex_te \<longrightarrow>
             (\<forall>w mp ts temperature q_t rho_thermal q_r q_l q_c q_v.
                 model (self_thermodynamics ex_te) = Water w
               \<and> te_microphysics ex_te = Some mp
               \<and> te_get_thermodynamic_variables ex_te ex_zero_phi (ex_store ! 0)
                    (ex_store ! 1) = Inr ts
               \<and> ts ''T'' = Some temperature \<and> ts ''q_t'' = Some q_t
               \<and> (ex_store ! 0) ''rho_thermal'' = Some rho_thermal
               \<and> (ex_store ! 0) ''q_r'' = Some q_r
               \<and> q_l = fst (equilibrium_phase_partition w temperature rho_thermal q_t)
               \<and> q_c = saturation_excess w temperature rho_thermal q_t
               \<and> map_structure2 tf_sub q_t q_c = Inr q_v
               \<longrightarrow> field_is_zero (autoconversion_and_accretion mp q_r q_l)
                 \<and> field_is_zero (evaporation mp rho_thermal temperature q_r q_v q_l q_c))"
    by (auto simp: store_unfold model_unfold ex_unfold field_is_zero_def)
  have c3: "take (length ex_store) (ex_store @ [ex_te_thermo_still]) = ex_store
    \<and> (ex_store @ [ex_te_thermo_still]) ! 0 = ex_store ! 0
    \<and> (ex_store @ [ex_te_thermo_still]) ! 1 = ex_store ! 1"
    by (rule i3 [THEN conjunct2, THEN conjunct2, THEN conjunct2, THEN conjunct1, THEN mp,
          OF ex_store_runs(2)])
  have c4: "[[[0]], [[0]]] = map tf_zeros_like ex_zero_phi \<and> field_is_zero [[[0]], [[0]]]
    \<and> map (map length) [[[0]], [[0 :: real]]] = map (map length) ex_zero_phi"
    by (rule i3 [THEN conjunct2, THEN conjunct2, THEN conjunct2, THEN conjunct2, THEN mp])
       (intro conjI ex_store_runs(2) ex_still_facts(6,7,8,9) tr tb tp)
  show ?thesis
    by (intro conjI ex_still_facts(2,3,6,7,8,9) fl col ex_store_runs c2
        c0 [THEN conjunct1] c0 [THEN conjunct2, THEN conjunct1]
        c0 [THEN conjunct2, THEN conjunct2]
        c1 [THEN conjunct1] c1 [THEN conjunct2, THEN conjunct1]
        c1 [THEN conjunct2, THEN conjunct2]
        c3 [THEN conjunct1] c3 [THEN conjunct2, THEN conjunct1]
        c3 [THEN conjunct2, THEN conjunct2]
        c4 [THEN conjunct1] c4 [THEN conjunct2, THEN conjunct1]
        c4 [THEN conjunct2, THEN conjunct2])
qed

end
